(* ===== verification/Prelude.thy ===== *)
theory Prelude
  imports Complex_Main "HOL-Library.AList"
begin

text \<open>
  Shared vocabulary of the development. The repository is TypeScript running on Node
  and Deno; this theory fixes how its runtime notions are written in HOL:
  \<^item> a thrown \<open>Error(msg)\<close> is the left value of \<open>'a res = string + 'a\<close>, so that every
    \<open>throw\<close> and every rejected \<open>await\<close> of the source is a branch of the model;
  \<^item> an awaited call that may reject is \<open>thrw e k\<close>: \<open>e = Some msg\<close> rejects with
    \<open>msg\<close>, \<open>e = None\<close> continues with \<open>k\<close>;
  \<^item> a JavaScript \<open>Map\<close> and a database table keyed by its primary key are association
    lists (insertion ordered, as a \<open>Map\<close> iterates), read with \<open>map_of\<close>, written with
    \<open>AList.update\<close> (upsert, \<open>Map.set\<close>), \<open>AList.map_entry\<close> (\<open>UPDATE \<dots> WHERE id = k\<close>)
    and \<open>AList.delete\<close>;
  \<^item> the string methods the code calls (\<open>includes\<close>, \<open>trim\<close>, \<open>toLowerCase\<close>) on
    \<open>string\<close>, with their ASCII behaviour;
  \<^item> \<open>Object.assign(target, source)\<close> and \<open>context.addCookies(cs)\<close> as a left fold of
    upserts, \<open>assign_all\<close>.
  Time is \<open>Date.now()\<close>: milliseconds since the epoch, an \<open>int\<close>.
\<close>

named_theorems model_defs "definitions unfolded when a concrete run of the model is evaluated"
named_theorems table_simps "rewrite rules for the association-list tables"

type_synonym time = int
type_synonym ('k, 'v) table = "('k \<times> 'v) list"
type_synonym 'a res = "string + 'a"

abbreviation day_ms :: int where
  "day_ms \<equiv> 24 * 60 * 60 * 1000"

subsection \<open>Awaited calls that may reject\<close>

definition thrw :: "string option \<Rightarrow> 'a res \<Rightarrow> 'a res" where
  "thrw e k = (case e of None \<Rightarrow> k | Some m \<Rightarrow> Inl m)"

lemma thrw_None [simp]: "thrw None k = k"
  and thrw_Some [simp]: "thrw (Some m) k = Inl m"
  by (simp_all add: thrw_def)

lemma thrw_Inr_iff [simp]: "thrw e k = Inr x \<longleftrightarrow> e = None \<and> k = Inr x"
  by (cases e) auto

subsection \<open>JavaScript string methods\<close>

definition starts_with :: "string \<Rightarrow> string \<Rightarrow> bool" where
  "starts_with s t \<longleftrightarrow> take (length t) s = t"

text \<open>\<open>s.includes(t)\<close>: \<open>t\<close> occurs in \<open>s\<close> at some position.\<close>

fun js_includes :: "string \<Rightarrow> string \<Rightarrow> bool" where
  "js_includes [] t \<longleftrightarrow> t = []"
| "js_includes (c # s) t \<longleftrightarrow> starts_with (c # s) t \<or> js_includes s t"

lemma starts_with_iff: "starts_with s t \<longleftrightarrow> (\<exists>b. s = t @ b)"
  unfolding starts_with_def by (metis append_eq_conv_conj)

lemma js_includes_iff: "js_includes s t \<longleftrightarrow> (\<exists>a b. s = a @ t @ b)"
proof (induction s)
  case Nil
  then show ?case by simp
next
  case (Cons c s)
  have "(\<exists>a b. c # s = a @ t @ b) \<longleftrightarrow> (\<exists>b. c # s = t @ b) \<or> (\<exists>a b. s = a @ t @ b)"
    by (auto simp: Cons_eq_append_conv)
  with Cons.IH show ?case by (simp add: starts_with_iff)
qed

lemma js_includes_infix [simp]: "js_includes (a @ t @ b) t"
  by (auto simp: js_includes_iff)

text \<open>
  \<open>String.prototype.trim\<close> removes white space and line terminators at both ends; on
  ASCII text these are the characters 9 to 13 and the space.
\<close>

definition js_space :: "char \<Rightarrow> bool" where
  "js_space c \<longleftrightarrow> of_char c \<in> {9, 10, 11, 12, 13, 32 :: nat}"

definition js_trim :: "string \<Rightarrow> string" where
  "js_trim s = rev (dropWhile js_space (rev (dropWhile js_space s)))"

lemma length_dropWhile_hd_lt:
  "xs \<noteq> [] \<Longrightarrow> P (hd xs) \<Longrightarrow> length (dropWhile P xs) < length xs"
  by (cases xs) (auto intro: le_less_trans [OF length_dropWhile_le])

lemma length_js_trim_le: "length (js_trim s) \<le> length (dropWhile js_space s)"
  unfolding js_trim_def by (metis length_dropWhile_le length_rev)

lemma js_trim_no_space: "js_trim s = s \<longleftrightarrow>
    (s = [] \<or> (\<not> js_space (hd s) \<and> \<not> js_space (last s)))"
proof (cases "s = []")
  case True
  then show ?thesis by (simp add: js_trim_def)
next
  case ne: False
  show ?thesis
  proof (cases "js_space (hd s)")
    case True
    then have "length (js_trim s) < length s"
      using ne length_dropWhile_hd_lt [of s js_space] length_js_trim_le [of s] by simp
    with True ne show ?thesis by auto
  next
    case False
    then have d: "dropWhile js_space s = s"
      using ne by (cases s) auto
    show ?thesis
    proof (cases "js_space (last s)")
      case True
      then have "length (dropWhile js_space (rev s)) < length (rev s)"
        using ne by (intro length_dropWhile_hd_lt) (simp_all add: hd_rev)
      then have "length (js_trim s) < length s"
        by (simp add: js_trim_def d)
      with True ne show ?thesis by auto
    next
      case last: False
      have "dropWhile js_space (rev s) = rev s"
        using ne last by (cases "rev s") (auto simp: hd_rev [symmetric])
      with d False last ne show ?thesis by (simp add: js_trim_def)
    qed
  qed
qed

definition js_lower_char :: "char \<Rightarrow> char" where
  "js_lower_char c = (let n = (of_char c :: nat) in
     if 65 \<le> n \<and> n \<le> 90 then char_of (n + 32) else c)"

definition js_lower :: "string \<Rightarrow> string" where
  "js_lower s = map js_lower_char s"

subsection \<open>Association lists as maps and tables\<close>

declare AList.map_of_map_entry [table_simps] AList.update_conv' [table_simps]
  AList.delete_conv' [table_simps]

lemma update_absent [table_simps]:
  "map_of t k = None \<Longrightarrow> AList.update k v t = t @ [(k, v)]"
  by (induction t) auto

lemma map_of_snoc_absent [table_simps]:
  "map_of t k = None \<Longrightarrow> map_of (t @ [(k, v)]) = (map_of t)(k \<mapsto> v)"
  by (auto simp: fun_eq_iff map_add_def split: option.splits)

lemma set_update_subset: "set (AList.update k v t) \<subseteq> insert (k, v) (set t)"
  by (induction t) auto

lemma update_present_map_snd:
  "map_of t k = Some v0 \<Longrightarrow> f v = f v0 \<Longrightarrow>
   map (\<lambda>p. f (snd p)) (AList.update k v t) = map (\<lambda>p. f (snd p)) t"
  by (induction t) auto

lemma update_present_keys:
  "map_of t k = Some v0 \<Longrightarrow> map fst (AList.update k v t) = map fst t"
  using update_present_map_snd [of t k v0 "\<lambda>_. ()" v]
  by (induction t) auto

text \<open>\<open>Object.assign(target, src)\<close> and \<open>addCookies\<close>: upsert every entry of \<open>src\<close>, in order.\<close>

definition assign_all :: "('k, 'v) table \<Rightarrow> ('k, 'v) table \<Rightarrow> ('k, 'v) table" where
  "assign_all target src = fold (\<lambda>(k, v) acc. AList.update k v acc) src target"

lemma map_of_assign_all [table_simps]:
  "distinct (map fst s) \<Longrightarrow> map_of (assign_all t s) = map_of t ++ map_of s"
proof (induction s arbitrary: t)
  case Nil
  then show ?case by (simp add: assign_all_def)
next
  case (Cons p s)
  obtain k v where p: "p = (k, v)" by (cases p)
  with Cons.prems have k: "map_of s k = None" and d: "distinct (map fst s)"
    by (auto simp: map_of_eq_None_iff)
  have "map_of (assign_all t (p # s)) = map_of (assign_all (AList.update k v t) s)"
    by (simp add: assign_all_def p)
  also have "\<dots> = (map_of t)(k \<mapsto> v) ++ map_of s"
    using d by (simp add: Cons.IH AList.update_conv' fun_upd_def)
  also have "\<dots> = map_of t ++ map_of (p # s)"
    using k by (auto simp: p fun_eq_iff map_add_def split: option.splits)
  finally show ?case .
qed

lemma assign_all_Nil_append:
  "distinct (map fst (t @ s)) \<Longrightarrow> assign_all t s = t @ s"
proof (induction s arbitrary: t)
  case Nil
  then show ?case by (simp add: assign_all_def)
next
  case (Cons p s)
  obtain k v where p: "p = (k, v)" by (cases p)
  have upd: "AList.update k v t = t @ [(k, v)]"
    using Cons.prems p by (intro update_absent) (auto simp: map_of_eq_None_iff)
  have "assign_all t (p # s) = assign_all (t @ [(k, v)]) s"
    by (simp add: assign_all_def p upd)
  also have "\<dots> = (t @ [(k, v)]) @ s"
    using Cons.prems p by (intro Cons.IH) simp
  finally show ?case by (simp add: p)
qed

text \<open>Restoring a snapshot with distinct keys into an empty target reproduces it exactly.\<close>

lemma assign_all_Nil [simp]:
  "distinct (map fst s) \<Longrightarrow> assign_all [] s = s"
  using assign_all_Nil_append [of "[]" s] by simp

lemma distinct_assign_all:
  "distinct (map fst t) \<Longrightarrow> distinct (map fst (assign_all t s))"
proof (induction s arbitrary: t)
  case Nil
  then show ?case by (simp add: assign_all_def)
next
  case (Cons p s)
  then show ?case
    by (cases p) (simp add: assign_all_def AList.distinct_update)
qed

lemma map_entry_other [table_simps]:
  "k' \<noteq> k \<Longrightarrow> map_of (AList.map_entry k f t) k' = map_of t k'"
  by (simp add: AList.map_of_map_entry)

lemma map_entry_same [table_simps]:
  "map_of (AList.map_entry k f t) k = map_option f (map_of t k)"
  by (simp add: AList.map_of_map_entry split: option.splits)

lemma distinct_map_entry [intro]:
  "distinct (map fst t) \<Longrightarrow> distinct (map fst (AList.map_entry k f t))"
  by (rule AList.distinct_map_entry)

lemma map_entry_absent:
  "map_of t k = None \<Longrightarrow> AList.map_entry k f t = t"
  by (induction t) auto

end
