(* ===== verification/Datastore.thy ===== *)
theory Datastore
  imports Prelude
begin

text \<open>
  The persisted state the core reads and writes (the Supabase tables \<open>accounts\<close>,
  \<open>browser_sessions\<close>, \<open>quotas\<close>, \<open>requests\<close>, \<open>usage_logs\<close>, \<open>alerts\<close> and the
  \<open>screenshots\<close> storage bucket), with the row types of
  \<open>src/browser-worker/src/supabase.ts\<close> and \<open>src/webapp/src/lib/supabase.ts\<close>, and the
  helpers of \<open>supabase.ts\<close> that the worker calls. A table is an association list keyed
  by its primary key; \<open>browser_sessions\<close> is keyed by \<open>account_id\<close> (one session per
  account). Each helper that checks the returned \<open>error\<close> and throws takes the error the
  database returns as its first argument (\<open>None\<close>: the call succeeds), so that a
  failing database call is a branch of the model. The SQL function
  \<open>update_quota_usage\<close> is not part of the repository's sources; it is modelled from the
  specification (one request counted against the daily and monthly usage of the quota
  rows of the account and provider).
\<close>

datatype acct_status = Pending | Active | Expired | Quota_exceeded | Status_error

record account =
  acc_user :: string
  acc_provider :: string
  acc_email :: string
  acc_status :: acct_status
  acc_last_used_at :: "time option"
  acc_updated_at :: time

record browser_session =
  ses_cookies :: "(string, string) table"
  ses_local_storage :: "(string, string) table"
  ses_expires_at :: time
  ses_updated_at :: time

record quota =
  q_account :: string
  q_provider :: string
  q_daily_limit :: int
  q_daily_used :: int
  q_monthly_limit :: "int option"
  q_monthly_used :: int
  q_reset_daily_at :: time
  q_reset_monthly_at :: "time option"
  q_updated_at :: time

datatype req_status = Queued | Processing | Completed | Failed

record request =
  req_user :: string
  req_prompt :: string
  req_provider_requested :: "string option"
  req_provider_used :: "string option"
  req_account :: "string option"
  req_status :: req_status
  req_priority :: int
  req_response :: "string option"
  req_tokens :: "nat option"
  req_latency :: "int option"
  req_error :: "string option"
  req_completed_at :: "time option"

datatype usage_status = Usage_success | Usage_error | Usage_timeout

record usage_log =
  ul_account :: string
  ul_provider :: string
  ul_request :: "string option"
  ul_tokens :: nat
  ul_cost :: rat
  ul_latency :: int
  ul_status :: usage_status
  ul_error :: "string option"

record alert =
  al_type :: string
  al_account :: string
  al_provider :: "string option"

record db =
  accounts :: "(string, account) table"
  browser_sessions :: "(string, browser_session) table"
  quotas :: "(string, quota) table"
  requests :: "(string, request) table"
  usage_logs :: "usage_log list"
  alerts :: "alert list"
  screenshots :: "string list"

subsection \<open>The helpers of \<open>supabase.ts\<close>\<close>

text \<open>
  \<open>loadSession\<close>: \<open>.single()\<close> on the session of the account; the not-found error
  \<open>PGRST116\<close> is the value \<open>null\<close>, any other error is thrown.
\<close>

definition loadSession :: "string option \<Rightarrow> string \<Rightarrow> db \<Rightarrow> browser_session option res" where
  "loadSession err a d = thrw err (Inr (map_of (browser_sessions d) a))"

definition saveSession ::
  "string option \<Rightarrow> string \<Rightarrow> (string, string) table \<Rightarrow> (string, string) table \<Rightarrow> time \<Rightarrow> time
    \<Rightarrow> db \<Rightarrow> db res" where
  "saveSession err a cookies ls expires now d =
     thrw err (Inr (d\<lparr>browser_sessions := AList.update a
        \<lparr>ses_cookies = cookies, ses_local_storage = ls, ses_expires_at = expires,
         ses_updated_at = now\<rparr> (browser_sessions d)\<rparr>))"

definition updateAccountStatus ::
  "string option \<Rightarrow> string \<Rightarrow> acct_status \<Rightarrow> time \<Rightarrow> db \<Rightarrow> db res" where
  "updateAccountStatus err a st now d =
     thrw err (Inr (d\<lparr>accounts := AList.map_entry a
        (\<lambda>r. r\<lparr>acc_status := st, acc_updated_at := now\<rparr>) (accounts d)\<rparr>))"

text \<open>\<open>update_quota_usage(p_account_id, p_provider, p_tokens_used)\<close>, from the specification.\<close>

definition update_quota_usage :: "string \<Rightarrow> string \<Rightarrow> nat \<Rightarrow> db \<Rightarrow> db" where
  "update_quota_usage a p tokens d =
     d\<lparr>quotas := map (\<lambda>(k, q). if q_account q = a \<and> q_provider q = p
        then (k, q\<lparr>q_daily_used := q_daily_used q + 1, q_monthly_used := q_monthly_used q + 1\<rparr>)
        else (k, q)) (quotas d)\<rparr>"

definition updateQuota :: "string option \<Rightarrow> string \<Rightarrow> string \<Rightarrow> nat \<Rightarrow> db \<Rightarrow> db res" where
  "updateQuota err a p tokens d = thrw err (Inr (update_quota_usage a p tokens d))"

text \<open>
  \<open>calculateCost\<close>: the API-equivalent rate per token of the provider, zero for a
  provider without a rate (\<open>rates[provider] || 0\<close>). The source computes in binary
  floating point; the model computes the same expression exactly in \<open>rat\<close>.
\<close>

definition calculateCost :: "string \<Rightarrow> nat \<Rightarrow> rat" where
  "calculateCost p tokens =
     (if p = ''chatgpt'' then 0.0015 / 1000
      else if p = ''claude'' then 0.003 / 1000
      else if p = ''gemini'' then 0
      else if p = ''deepseek'' then 0.00027 / 1000
      else 0) * of_nat tokens"

definition logUsage ::
  "string option \<Rightarrow> string \<Rightarrow> string \<Rightarrow> string option \<Rightarrow> nat \<Rightarrow> int \<Rightarrow> usage_status
    \<Rightarrow> string option \<Rightarrow> db \<Rightarrow> db res" where
  "logUsage err a p rid tokens latency st msg d =
     thrw err (Inr (d\<lparr>usage_logs := usage_logs d @
        [\<lparr>ul_account = a, ul_provider = p, ul_request = rid, ul_tokens = tokens,
          ul_cost = calculateCost p tokens, ul_latency = latency, ul_status = st,
          ul_error = msg\<rparr>]\<rparr>))"

text \<open>
  The primary keys of the schema: each keyed table has one row per key. \<open>db_keys\<close>
  lists the keys of the four keyed tables in table order.
\<close>

definition db_keys :: "db \<Rightarrow> string list \<times> string list \<times> string list \<times> string list" where
  "db_keys d = (map fst (accounts d), map fst (browser_sessions d), map fst (quotas d), map fst (requests d))"

definition db_wf :: "db \<Rightarrow> bool" where
  "db_wf d \<longleftrightarrow> distinct (map fst (accounts d)) \<and> distinct (map fst (browser_sessions d)) \<and>
     distinct (map fst (quotas d)) \<and> distinct (map fst (requests d))"

lemmas datastore_defs [model_defs] = loadSession_def saveSession_def updateAccountStatus_def
  update_quota_usage_def updateQuota_def logUsage_def calculateCost_def

subsection \<open>Properties of the helpers\<close>

text \<open>A session written by \<open>saveSession\<close> is the one \<open>loadSession\<close> reads back.\<close>

lemma load_after_saveSession:
  assumes "saveSession None a cs ls e now d = Inr d'"
  shows "loadSession None a d' =
    Inr (Some \<lparr>ses_cookies = cs, ses_local_storage = ls, ses_expires_at = e, ses_updated_at = now\<rparr>)"
  using assms by (auto simp: saveSession_def loadSession_def AList.update_conv')

lemma updateAccountStatus_status:
  "updateAccountStatus None a st now d = Inr d' \<Longrightarrow>
   map_option acc_status (map_of (accounts d') b) =
     (if b = a then map_option (\<lambda>_. st) (map_of (accounts d) b)
      else map_option acc_status (map_of (accounts d) b))"
  by (auto simp: updateAccountStatus_def map_entry_same map_entry_other option.map_comp
      comp_def)

lemma updateAccountStatus_idem:
  "updateAccountStatus None a st now d = Inr d1 \<Longrightarrow> updateAccountStatus None a st now d1 = Inr d2
   \<Longrightarrow> map_of (accounts d2) = map_of (accounts d1)"
  by (auto simp: updateAccountStatus_def AList.map_of_map_entry fun_eq_iff split: option.splits)

lemma logUsage_appends:
  "logUsage None a p rid n lat st msg d = Inr d' \<Longrightarrow>
   usage_logs d' = usage_logs d @ [\<lparr>ul_account = a, ul_provider = p, ul_request = rid,
     ul_tokens = n, ul_cost = calculateCost p n, ul_latency = lat, ul_status = st,
     ul_error = msg\<rparr>]"
  by (auto simp: logUsage_def)

lemma calculateCost_nonneg: "0 \<le> calculateCost p n"
  by (simp add: calculateCost_def)

lemma calculateCost_zero_tokens [simp]: "calculateCost p 0 = 0"
  by (simp add: calculateCost_def)

text \<open>Frame facts: which tables each helper leaves alone.\<close>

lemma helper_frames [simp]:
  "accounts (update_quota_usage a p n d) = accounts d"
  "requests (update_quota_usage a p n d) = requests d"
  "browser_sessions (update_quota_usage a p n d) = browser_sessions d"
  "usage_logs (update_quota_usage a p n d) = usage_logs d"
  by (simp_all add: update_quota_usage_def)

text \<open>The key lists, and with them the primary keys, under the writes of the helpers.\<close>

named_theorems db_keys_simps "how the writes of the model change the keys of the tables"

lemma db_wf_keys: "db_keys d' = db_keys d \<Longrightarrow> db_wf d' = db_wf d"
  by (simp add: db_keys_def db_wf_def)

lemma db_wf_keysI: "db_wf d \<Longrightarrow> db_keys d' = db_keys d \<Longrightarrow> db_wf d'"
  by (simp add: db_keys_def db_wf_def)

lemma map_fst_map_entry [simp]: "map fst (AList.map_entry k f t) = map fst t"
  by (induction t) auto

lemma db_keys_update_quota_usage [db_keys_simps]:
  "db_keys (update_quota_usage a p n d) = db_keys d"
proof -
  have "map fst (map (\<lambda>(k, q). if q_account q = a \<and> q_provider q = p
      then (k, q\<lparr>q_daily_used := q_daily_used q + 1, q_monthly_used := q_monthly_used q + 1\<rparr>)
      else (k, q)) qs) = map fst qs" for qs :: "(string \<times> quota) list"
    by (induction qs) auto
  then show ?thesis by (simp add: db_keys_def update_quota_usage_def)
qed

lemma db_keys_updateAccountStatus [db_keys_simps]:
  "updateAccountStatus e a st now d = Inr d' \<Longrightarrow> db_keys d' = db_keys d"
  by (auto simp: updateAccountStatus_def db_keys_def)

lemma db_keys_logUsage [db_keys_simps]:
  "logUsage e a p rid n lat st msg d = Inr d' \<Longrightarrow> db_keys d' = db_keys d"
  by (auto simp: logUsage_def db_keys_def)

lemma db_wf_saveSession:
  "db_wf d \<Longrightarrow> saveSession e a cs ls ex now d = Inr d' \<Longrightarrow> db_wf d'"
  by (auto simp: saveSession_def db_wf_def AList.distinct_update)

end
