(* ===== verification/Providers.thy ===== *)
theory Providers
  imports Prelude
begin

text \<open>
  The provider adapters of \<open>src/browser-worker/src/providers/\<close>: \<open>automateChatGPT\<close>,
  \<open>automateClaude\<close>, \<open>automateGemini\<close>, \<open>automateDeepSeek\<close>, the dispatcher
  \<open>automateChat\<close> of \<open>providers/index.ts\<close> and the shared \<open>estimateTokens\<close>.
  The web page is outside the program; what each Playwright call returns or throws is
  a field of \<open>page_env\<close>: \<open>pe_goto\<close> the rejection of \<open>page.goto\<close>, \<open>pe_logged_in\<close>
  the value of the \<open>isVisible({timeout: 5000})\<close> probe (its errors are caught to
  \<open>false\<close>), \<open>pe_fill\<close> a rejection of filling the prompt or pressing Enter,
  \<open>pe_response\<close> that of the 90 s wait for the response region, \<open>pe_done\<close> that of
  the 120 s wait for the end of generation, \<open>pe_text\<close> the \<open>textContent()\<close> of the
  response region (\<open>None\<close> is \<open>null\<close>), and \<open>pe_set_cookies\<close>, \<open>pe_set_storage\<close> what
  the site writes into the browser context while the page runs. The four adapters differ
  in the provider's name, tag and model, and in one point of control flow: ChatGPT
  catches a timeout of the end-of-generation wait, the other three do not.
\<close>

record page_env =
  pe_goto :: "string option"
  pe_logged_in :: bool
  pe_fill :: "string option"
  pe_response :: "string option"
  pe_done :: "string option"
  pe_text :: "string option"
  pe_set_cookies :: "(string, string) table"
  pe_set_storage :: "(string, string) table"

record chat_response =
  cr_text :: string
  cr_tokens :: nat
  cr_provider :: string
  cr_model :: string

text \<open>\<open>Math.ceil(text.length / 4)\<close> on a non-negative length.\<close>

definition estimateTokens :: "string \<Rightarrow> nat" where
  "estimateTokens s = (length s + 3) div 4"

text \<open>
  The common tail of the four adapters: \<open>if (!response) throw\<close> (both \<open>null\<close> and the
  empty string are falsy), then the trimmed text and the estimate over the prompt and
  the untrimmed response.
\<close>

definition extract_response ::
  "string \<Rightarrow> string \<Rightarrow> string \<Rightarrow> string \<Rightarrow> string option \<Rightarrow> chat_response res" where
  "extract_response label tag model prompt txt =
     (case txt of
        None \<Rightarrow> Inl (''Failed to extract '' @ label @ '' response'')
      | Some r \<Rightarrow> if r = [] then Inl (''Failed to extract '' @ label @ '' response'')
          else Inr \<lparr>cr_text = js_trim r, cr_tokens = estimateTokens (prompt @ r),
                    cr_provider = tag, cr_model = model\<rparr>)"

definition auth_lost_msg :: "string \<Rightarrow> string" where
  "auth_lost_msg label = ''Session expired - not logged in to '' @ label"

definition automateChatGPT :: "page_env \<Rightarrow> string \<Rightarrow> chat_response res" where
  "automateChatGPT pg prompt =
     thrw (pe_goto pg)
      (if \<not> pe_logged_in pg then Inl (auth_lost_msg ''ChatGPT'')
       else thrw (pe_fill pg)
        (thrw (pe_response pg)
          (extract_response ''ChatGPT'' ''chatgpt'' ''chatgpt-web'' prompt (pe_text pg))))"

definition automateClaude :: "page_env \<Rightarrow> string \<Rightarrow> chat_response res" where
  "automateClaude pg prompt =
     thrw (pe_goto pg)
      (if \<not> pe_logged_in pg then Inl (auth_lost_msg ''Claude'')
       else thrw (pe_fill pg)
        (thrw (pe_response pg)
          (thrw (pe_done pg)
            (extract_response ''Claude'' ''claude'' ''claude-web'' prompt (pe_text pg)))))"

definition automateDeepSeek :: "page_env \<Rightarrow> string \<Rightarrow> chat_response res" where
  "automateDeepSeek pg prompt =
     thrw (pe_goto pg)
      (if \<not> pe_logged_in pg then Inl (auth_lost_msg ''DeepSeek'')
       else thrw (pe_fill pg)
        (thrw (pe_response pg)
          (thrw (pe_done pg)
            (extract_response ''DeepSeek'' ''deepseek'' ''deepseek-web'' prompt (pe_text pg)))))"

definition automateGemini :: "page_env \<Rightarrow> string \<Rightarrow> chat_response res" where
  "automateGemini pg prompt =
     thrw (pe_goto pg)
      (if \<not> pe_logged_in pg then Inl (auth_lost_msg ''Gemini'')
       else thrw (pe_fill pg)
        (thrw (pe_response pg)
          (thrw (pe_done pg)
            (extract_response ''Gemini'' ''gemini'' ''gemini-web'' prompt (pe_text pg)))))"

definition automateChat :: "string \<Rightarrow> page_env \<Rightarrow> string \<Rightarrow> chat_response res" where
  "automateChat provider pg prompt =
     (let p = js_lower provider in
      if p = ''chatgpt'' then automateChatGPT pg prompt
      else if p = ''claude'' then automateClaude pg prompt
      else if p = ''gemini'' then automateGemini pg prompt
      else if p = ''deepseek'' then automateDeepSeek pg prompt
      else Inl (''Unknown provider: '' @ provider))"

lemmas provider_defs [model_defs] = estimateTokens_def extract_response_def auth_lost_msg_def
  automateChatGPT_def automateClaude_def automateDeepSeek_def automateGemini_def
  automateChat_def

subsection \<open>The adapter interface\<close>

text \<open>
  The tags the dispatcher accepts, as a datatype; \<open>adapter k\<close> is the adapter the tag
  of \<open>k\<close> selects, \<open>kind_label k\<close> the name used in its messages.
\<close>

datatype provider_kind = ChatGPT | Claude | Gemini | DeepSeek

fun kind_tag :: "provider_kind \<Rightarrow> string" where
  "kind_tag ChatGPT = ''chatgpt''"
| "kind_tag Claude = ''claude''"
| "kind_tag Gemini = ''gemini''"
| "kind_tag DeepSeek = ''deepseek''"

fun kind_label :: "provider_kind \<Rightarrow> string" where
  "kind_label ChatGPT = ''ChatGPT''"
| "kind_label Claude = ''Claude''"
| "kind_label Gemini = ''Gemini''"
| "kind_label DeepSeek = ''DeepSeek''"

fun adapter :: "provider_kind \<Rightarrow> page_env \<Rightarrow> string \<Rightarrow> chat_response res" where
  "adapter ChatGPT = automateChatGPT"
| "adapter Claude = automateClaude"
| "adapter Gemini = automateGemini"
| "adapter DeepSeek = automateDeepSeek"

definition parse_provider :: "string \<Rightarrow> provider_kind option" where
  "parse_provider p =
     (let l = js_lower p in
      if l = ''chatgpt'' then Some ChatGPT else if l = ''claude'' then Some Claude
      else if l = ''gemini'' then Some Gemini else if l = ''deepseek'' then Some DeepSeek
      else None)"

subsection \<open>Properties of the adapters\<close>

lemma estimateTokens_bounds:
  "length s \<le> 4 * estimateTokens s \<and> 4 * estimateTokens s < length s + 4"
  by (simp add: estimateTokens_def) linarith

lemma estimateTokens_pos_iff [simp]: "0 < estimateTokens s \<longleftrightarrow> s \<noteq> []"
proof -
  have "0 < (length s + 3) div 4 \<longleftrightarrow> 0 < length s" by linarith
  then show ?thesis by (simp add: estimateTokens_def)
qed

lemma extract_response_Inr:
  "extract_response label tag model prompt txt = Inr r \<Longrightarrow>
   \<exists>t. txt = Some t \<and> t \<noteq> [] \<and> r = \<lparr>cr_text = js_trim t,
     cr_tokens = estimateTokens (prompt @ t), cr_provider = tag, cr_model = model\<rparr>"
  by (auto simp: extract_response_def split: option.splits if_splits)

lemma extract_response_Inl:
  "extract_response label tag model prompt txt = Inl m \<Longrightarrow>
   m = ''Failed to extract '' @ label @ '' response''"
  by (auto simp: extract_response_def split: option.splits if_splits)

lemma adapter_kind_label_defs:
  "adapter k pg prompt =
     thrw (pe_goto pg)
      (if \<not> pe_logged_in pg then Inl (auth_lost_msg (kind_label k))
       else thrw (pe_fill pg) (thrw (pe_response pg)
         ((if k = ChatGPT then id else thrw (pe_done pg))
           (extract_response (kind_label k) (kind_tag k) (kind_tag k @ ''-web'') prompt
              (pe_text pg)))))"
  by (cases k) (simp_all add: automateChatGPT_def automateClaude_def automateGemini_def
      automateDeepSeek_def)

lemma automateChat_parse:
  "automateChat p pg prompt =
     (case parse_provider p of
        Some k \<Rightarrow> adapter k pg prompt
      | None \<Rightarrow> Inl (''Unknown provider: '' @ p))"
  by (simp add: automateChat_def parse_provider_def Let_def)

lemma parse_provider_tag [simp]: "parse_provider (kind_tag k) = Some k"
  by (cases k) (simp_all add: parse_provider_def js_lower_def js_lower_char_def)

lemma adapter_Inr:
  "adapter k pg prompt = Inr r \<Longrightarrow>
   \<exists>t. pe_text pg = Some t \<and> t \<noteq> [] \<and> r = \<lparr>cr_text = js_trim t,
     cr_tokens = estimateTokens (prompt @ t), cr_provider = kind_tag k,
     cr_model = kind_tag k @ ''-web''\<rparr>"
  unfolding adapter_kind_label_defs
  by (auto simp: thrw_def split: option.splits if_splits dest!: extract_response_Inr)

text \<open>
  C14: An adapter that answers returns the trimmed, non-empty text of the response region,
  tagged with the provider the tag selected, and a positive token estimate computed from
  the prompt and the untrimmed text.
\<close>

theorem automateChat_response:
  assumes "automateChat p pg prompt = Inr r"
  shows "\<exists>k t. parse_provider p = Some k \<and> pe_text pg = Some t \<and> t \<noteq> [] \<and>
    cr_text r = js_trim t \<and> cr_provider r = kind_tag k \<and> cr_model r = kind_tag k @ ''-web'' \<and>
    cr_tokens r = estimateTokens (prompt @ t) \<and> 0 < cr_tokens r"
proof (cases "parse_provider p")
  case None
  with assms show ?thesis by (simp add: automateChat_parse)
next
  case (Some k)
  with assms have "adapter k pg prompt = Inr r" by (simp add: automateChat_parse)
  from adapter_Inr [OF this] Some show ?thesis by auto
qed

text \<open>
  C15: When the page has loaded, the login probe succeeds and the prompt is submitted and
  answered, but the end of generation is not observed in time, the Claude, Gemini and
  DeepSeek adapters fail with the timeout, while the ChatGPT adapter ignores it and
  extracts whatever the response region holds.
\<close>

theorem generation_timeout:
  assumes "pe_goto pg = None" "pe_logged_in pg" "pe_fill pg = None" "pe_response pg = None"
    and "pe_done pg = Some m"
  shows "adapter k pg prompt =
    (if k = ChatGPT
     then extract_response ''ChatGPT'' ''chatgpt'' ''chatgpt-web'' prompt (pe_text pg)
     else Inl m)"
  using assms by (cases k) (simp_all add: automateChatGPT_def automateClaude_def
      automateGemini_def automateDeepSeek_def)

text \<open>
  A provider tag that names no adapter is rejected with an error naming it, before
  the page is touched.
\<close>

theorem automateChat_unknown:
  "parse_provider p = None \<Longrightarrow> automateChat p pg prompt = Inl (''Unknown provider: '' @ p)"
  by (simp add: automateChat_parse)

text \<open>
  The integer-division form of the token estimate is exactly
  \<open>Math.ceil(text.length / 4)\<close> of the source, computed over the reals.
\<close>

theorem estimateTokens_ceiling:
  "int (estimateTokens s) = \<lceil>real (length s) / 4\<rceil>"
proof -
  have b: "length s \<le> 4 * estimateTokens s" "4 * estimateTokens s < length s + 4"
    using estimateTokens_bounds [of s] by simp_all
  have "real (estimateTokens s) - 1 < real (length s) / 4"
    using b(2) by (simp add: field_simps)
  moreover have "real (length s) / 4 \<le> real (estimateTokens s)"
    using b(1) by (simp add: field_simps)
  ultimately have "\<lceil>real (length s) / 4\<rceil> = int (estimateTokens s)"
    by (intro ceiling_unique) simp_all
  then show ?thesis by simp
qed

end
