(* ===== verification/Pool.thy ===== *)
theory Pool
  imports Datastore Providers
begin

text \<open>
  The resource pool of \<open>src/browser-worker/src/browser.ts\<close> and the configuration of
  \<open>config.ts\<close>. The module-level \<open>contextPool: Map<string, BrowserContext>\<close> is the
  field \<open>pool\<close> of \<open>world\<close>, an association list in insertion order. Besides the pool
  the world records what the browser holds: \<open>live\<close>, the contexts that have been
  launched and not closed (a handle and the account it was launched for), \<open>disk\<close>,
  the persistent user-data directory of each account (the cookies and storage Chromium
  keeps there between launches), and \<open>next_handle\<close>, the identity the next launched
  context gets. A context records its handle, its account, its cookie jar, the local
  storage its first page sees and its number of open pages. Every Playwright call that
  may reject is a field of \<open>launch_env\<close>.
\<close>

record config =
  cfg_concurrency :: "int option"
  cfg_headless :: bool
  cfg_screenshot_on_error :: bool
  cfg_video_recording :: bool
  cfg_session_timeout :: "int option"
  cfg_sessions_dir :: string
  cfg_screenshots_dir :: string
  cfg_videos_dir :: string

text \<open>
  The configuration with every environment variable unset. The numbers are the results
  of \<open>parseInt\<close> (\<open>None\<close> is \<open>NaN\<close>); \<open>Configuration\<close> derives this value from the
  environment.
\<close>

definition default_config :: config where
  "default_config = \<lparr>cfg_concurrency = Some 2, cfg_headless = True, cfg_screenshot_on_error = True,
     cfg_video_recording = False, cfg_session_timeout = Some 300000,
     cfg_sessions_dir = ''/app/sessions'', cfg_screenshots_dir = ''/app/screenshots'',
     cfg_videos_dir = ''/app/videos''\<rparr>"

record ctx =
  ctx_handle :: nat
  ctx_account :: string
  ctx_cookies :: "(string, string) table"
  ctx_storage :: "(string, string) table"
  ctx_pages :: nat

record profile =
  pf_cookies :: "(string, string) table"
  pf_storage :: "(string, string) table"

record world =
  db :: db
  pool :: "(string, ctx) table"
  live :: "(nat \<times> string) list"
  disk :: "(string, profile) table"
  next_handle :: nat

text \<open>
  Where the restore block of \<open>getBrowserContext\<close> can reject: \<open>addCookies\<close>, or the
  \<open>addInitScript\<close> that follows it. The launched context already has a page, so
  \<open>pages()[0]\<close> is taken and \<open>newPage()\<close> is not called.
\<close>

datatype restore_fault = Cookies_rejected | Init_script_rejected

record launch_env =
  le_load :: "string option"
  le_launch :: "string option"
  le_restore :: "restore_fault option"

subsection \<open>Acquiring a context: \<open>getBrowserContext\<close>\<close>

text \<open>\<open>session && new Date(session.expires_at) > new Date()\<close>\<close>

definition session_valid :: "browser_session option \<Rightarrow> time \<Rightarrow> bool" where
  "session_valid s now = (case s of None \<Rightarrow> False | Some x \<Rightarrow> now < ses_expires_at x)"

text \<open>
  \<open>chromium.launchPersistentContext(userDataDir, \<dots>)\<close>: a new context, with one page,
  that starts from what the account's user-data directory holds.
\<close>

definition launch_ctx :: "world \<Rightarrow> string \<Rightarrow> ctx" where
  "launch_ctx w a =
     (case map_of (disk w) a of
        None \<Rightarrow> \<lparr>ctx_handle = next_handle w, ctx_account = a, ctx_cookies = [],
                 ctx_storage = [], ctx_pages = 1\<rparr>
      | Some p \<Rightarrow> \<lparr>ctx_handle = next_handle w, ctx_account = a, ctx_cookies = pf_cookies p,
                 ctx_storage = pf_storage p, ctx_pages = 1\<rparr>)"

text \<open>
  The restore block (lines 44 to 59): \<open>addCookies\<close>, then \<open>pages()[0] || newPage()\<close>,
  then the init script that \<open>Object.assign\<close>s the stored snapshot into
  \<open>localStorage\<close>. An error is caught and logged: when \<open>addCookies\<close> rejects the
  context is unchanged, when the init script rejects the cookies are already added.
\<close>

definition restore_session :: "restore_fault option \<Rightarrow> browser_session \<Rightarrow> ctx \<Rightarrow> ctx" where
  "restore_session err s c =
     (case err of
        Some Cookies_rejected \<Rightarrow> c
      | Some Init_script_rejected \<Rightarrow> c\<lparr>ctx_cookies := assign_all (ctx_cookies c) (ses_cookies s)\<rparr>
      | None \<Rightarrow> c\<lparr>ctx_cookies := assign_all (ctx_cookies c) (ses_cookies s),
                  ctx_storage := assign_all (ctx_storage c) (ses_local_storage s),
                  ctx_pages := max 1 (ctx_pages c)\<rparr>)"

definition register_ctx :: "string \<Rightarrow> ctx \<Rightarrow> world \<Rightarrow> world" where
  "register_ctx a c w =
     w\<lparr>pool := AList.update a c (pool w), live := live w @ [(ctx_handle c, a)],
       next_handle := Suc (next_handle w)\<rparr>"

definition getBrowserContext :: "launch_env \<Rightarrow> time \<Rightarrow> string \<Rightarrow> world \<Rightarrow> ctx res \<times> world" where
  "getBrowserContext le now a w =
     (case map_of (pool w) a of
        Some c \<Rightarrow> (Inr c, w)
      | None \<Rightarrow>
          (case loadSession (le_load le) a (db w) of
             Inl m \<Rightarrow> (Inl m, w)
           | Inr s \<Rightarrow>
               (case le_launch le of
                  Some m \<Rightarrow> (Inl m, w)
                | None \<Rightarrow>
                    let c0 = launch_ctx w a;
                        c = (if session_valid s now then restore_session (le_restore le) (the s) c0
                             else c0)
                    in (Inr c, register_ctx a c w))))"

subsection \<open>Saving, screenshots and closing\<close>

definition session_ttl :: int where
  "session_ttl = 28 * day_ms"

definition saveBrowserSession ::
  "string option \<Rightarrow> time \<Rightarrow> string \<Rightarrow> ctx \<Rightarrow> world \<Rightarrow> unit res \<times> world" where
  "saveBrowserSession err now a c w =
     (if ctx_pages c = 0 then (Inr (), w)
      else case saveSession err a (ctx_cookies c) (ctx_storage c) (now + session_ttl) now (db w) of
             Inl m \<Rightarrow> (Inl m, w)
           | Inr d \<Rightarrow> (Inr (), w\<lparr>db := d\<rparr>))"

fun dec_string :: "nat \<Rightarrow> string" where
  "dec_string n = (if n < 10 then [char_of (48 + n)]
                   else dec_string (n div 10) @ [char_of (48 + n mod 10)])"

datatype shot_outcome = Shot_ok | Shot_upload_error | Shot_error

text \<open>
  \<open>takeScreenshot\<close>: nothing when screenshots are off; otherwise the full-page
  screenshot is written and uploaded with \<open>upsert\<close> under \<open>accountId/name.png\<close>. The
  upload's error is returned, not thrown, so the path is returned anyway; an error of
  the screenshot itself is caught and gives \<open>null\<close>.
\<close>

definition takeScreenshot ::
  "config \<Rightarrow> shot_outcome \<Rightarrow> time \<Rightarrow> string \<Rightarrow> string \<Rightarrow> world \<Rightarrow> string option \<times> world" where
  "takeScreenshot cfg out now a name w =
     (if \<not> cfg_screenshot_on_error cfg then (None, w)
      else case out of
        Shot_error \<Rightarrow> (None, w)
      | Shot_upload_error \<Rightarrow>
          (Some (cfg_screenshots_dir cfg @ ''/'' @ a @ ''-'' @ name @ ''-'' @ dec_string (nat now) @ ''.png''), w)
      | Shot_ok \<Rightarrow>
          (let key = a @ ''/'' @ name @ ''.png'';
               d = db w;
               d' = (if key \<in> set (screenshots d) then d
                     else d\<lparr>screenshots := screenshots d @ [key]\<rparr>)
           in (Some (cfg_screenshots_dir cfg @ ''/'' @ a @ ''-'' @ name @ ''-'' @ dec_string (nat now) @ ''.png''),
               w\<lparr>db := d'\<rparr>)))"

text \<open>\<open>context.close()\<close>: the browser writes the profile back to the user-data directory.\<close>

definition close_effect :: "string \<Rightarrow> ctx \<Rightarrow> world \<Rightarrow> world" where
  "close_effect a c w =
     w\<lparr>live := removeAll (ctx_handle c, a) (live w),
       disk := AList.update a \<lparr>pf_cookies = ctx_cookies c, pf_storage = ctx_storage c\<rparr> (disk w)\<rparr>"

definition closeContext :: "string option \<Rightarrow> string \<Rightarrow> world \<Rightarrow> unit res \<times> world" where
  "closeContext err a w =
     (case map_of (pool w) a of
        None \<Rightarrow> (Inr (), w)
      | Some c \<Rightarrow> (case err of
          Some m \<Rightarrow> (Inl m, w)
        | None \<Rightarrow> (Inr (), close_effect a c (w\<lparr>pool := AList.delete a (pool w)\<rparr>))))"

fun close_each :: "(string \<Rightarrow> string option) \<Rightarrow> (string, ctx) table \<Rightarrow> world \<Rightarrow> world" where
  "close_each errs [] w = w"
| "close_each errs ((a, c) # cs) w =
     close_each errs cs (case errs a of None \<Rightarrow> close_effect a c w | Some _ \<Rightarrow> w)"

definition closeAllContexts :: "(string \<Rightarrow> string option) \<Rightarrow> world \<Rightarrow> world" where
  "closeAllContexts errs w = (close_each errs (pool w) w)\<lparr>pool := []\<rparr>"

subsection \<open>The pool invariant\<close>

text \<open>
  \<open>ctx_ok a c\<close>: the context was launched for \<open>a\<close>, and its cookie jar and storage
  have one entry per key. \<open>pool_inv\<close>: the pool has one entry per account and one per
  handle; every pooled context is live; every live context is the pooled context of its
  account and was launched before (its handle is below \<open>next_handle\<close>); the saved
  profiles have one entry per key. Stated with \<open>list_all\<close>, so that it evaluates.
\<close>
definition ctx_ok :: "string \<Rightarrow> ctx \<Rightarrow> bool" where
  "ctx_ok a c \<longleftrightarrow> ctx_account c = a \<and> distinct (map fst (ctx_cookies c)) \<and>
     distinct (map fst (ctx_storage c))"

definition pool_inv :: "world \<Rightarrow> bool" where
  "pool_inv w \<longleftrightarrow>
     distinct (map fst (pool w)) \<and>
     distinct (map (ctx_handle \<circ> snd) (pool w)) \<and>
     list_all (\<lambda>(a, c). ctx_ok a c \<and> (ctx_handle c, a) \<in> set (live w)) (pool w) \<and>
     list_all (\<lambda>(h, a). h < next_handle w \<and> map_option ctx_handle (map_of (pool w) a) = Some h)
       (live w) \<and>
     list_all (\<lambda>(a, p). distinct (map fst (pf_cookies p)) \<and> distinct (map fst (pf_storage p)))
       (disk w)"

subsection \<open>Two workers acquiring at once\<close>

text \<open>
  \<open>getBrowserContext\<close> tests \<open>contextPool.has(accountId)\<close> and then awaits
  \<open>loadSession\<close> and \<open>launchPersistentContext\<close> before it calls
  \<open>contextPool.set\<close>; with \<open>concurrency: 2\<close> another job runs at those awaits. The
  step relation splits the acquisition at the first await: \<open>begin_hit\<close> and
  \<open>begin_miss\<close> are the synchronous test, \<open>finish\<close> the launch, restore and
  \<open>set\<close> (with loading and restoring succeeding, as \<open>acq_finish\<close> says). A thread is
  a number; \<open>apc\<close> is where each one is.
\<close>
definition acq_finish :: "time \<Rightarrow> string \<Rightarrow> world \<Rightarrow> ctx \<times> world" where
  "acq_finish now a w =
     (let s = map_of (browser_sessions (db w)) a;
          c0 = launch_ctx w a;
          c = (if session_valid s now then restore_session None (the s) c0 else c0)
      in (c, register_ctx a c w))"

datatype acq_pc = Acq_idle | Acq_loading string | Acq_done ctx

record acq_sys =
  aw :: world
  apc :: "nat \<Rightarrow> acq_pc"

inductive acq_step :: "time \<Rightarrow> acq_sys \<Rightarrow> acq_sys \<Rightarrow> bool" for now where
  begin_hit: "apc s t = Acq_idle \<Longrightarrow> map_of (pool (aw s)) a = Some c \<Longrightarrow>
    acq_step now s (s\<lparr>apc := (apc s)(t := Acq_done c)\<rparr>)"
| begin_miss: "apc s t = Acq_idle \<Longrightarrow> map_of (pool (aw s)) a = None \<Longrightarrow>
    acq_step now s (s\<lparr>apc := (apc s)(t := Acq_loading a)\<rparr>)"
| finish: "apc s t = Acq_loading a \<Longrightarrow> acq_finish now a (aw s) = (c, w') \<Longrightarrow>
    acq_step now s \<lparr>aw = w', apc = (apc s)(t := Acq_done c)\<rparr>"

definition one_live_per_account :: "world \<Rightarrow> bool" where
  "one_live_per_account w \<longleftrightarrow>
     (\<forall>(h1, a) \<in> set (live w). \<forall>(h2, b) \<in> set (live w). a = b \<longrightarrow> h1 = h2)"

subsection \<open>Runs of the pool\<close>

text \<open>
  The operations of \<open>browser.ts\<close> that a job performs on the pool, one at a time: an
  acquisition, the save of the pooled context's session, a screenshot and the close of
  one context. A run starts from a freshly started worker: an empty \<open>contextPool\<close>, no
  context open, and whatever profiles the user-data directory holds.
\<close>

datatype pool_op =
    Op_acquire launch_env time string
  | Op_save "string option" time string
  | Op_screenshot config shot_outcome time string string
  | Op_close "string option" string

definition pool_apply :: "pool_op \<Rightarrow> world \<Rightarrow> world" where
  "pool_apply op w =
     (case op of
        Op_acquire le now a \<Rightarrow> snd (getBrowserContext le now a w)
      | Op_save err now a \<Rightarrow>
          (case map_of (pool w) a of Some c \<Rightarrow> snd (saveBrowserSession err now a c w) | None \<Rightarrow> w)
      | Op_screenshot cfg out now a name \<Rightarrow> snd (takeScreenshot cfg out now a name w)
      | Op_close err a \<Rightarrow> snd (closeContext err a w))"

definition profiles_ok :: "(string, profile) table \<Rightarrow> bool" where
  "profiles_ok k \<longleftrightarrow>
     list_all (\<lambda>(a, p). distinct (map fst (pf_cookies p)) \<and> distinct (map fst (pf_storage p))) k"

inductive pool_reach :: "world \<Rightarrow> bool" where
  init: "pool w = [] \<Longrightarrow> live w = [] \<Longrightarrow> profiles_ok (disk w) \<Longrightarrow> pool_reach w"
| step: "pool_reach w \<Longrightarrow> pool_reach (pool_apply op w)"

lemmas pool_defs [model_defs] = default_config_def session_valid_def launch_ctx_def
  restore_session_def register_ctx_def getBrowserContext_def session_ttl_def
  saveBrowserSession_def takeScreenshot_def close_effect_def closeContext_def
  closeAllContexts_def ctx_ok_def pool_inv_def acq_finish_def one_live_per_account_def

subsection \<open>Properties of the pool\<close>

lemma pool_inv_live_pooled:
  "pool_inv w \<Longrightarrow> (h, a) \<in> set (live w) \<Longrightarrow> \<exists>c. map_of (pool w) a = Some c \<and> ctx_handle c = h"
  by (fastforce simp: pool_inv_def list_all_iff)

lemma pool_inv_pooled_live:
  "pool_inv w \<Longrightarrow> map_of (pool w) a = Some c \<Longrightarrow> (ctx_handle c, a) \<in> set (live w) \<and> ctx_ok a c"
  by (auto simp: pool_inv_def list_all_iff dest!: map_of_SomeD)

lemma pool_inv_handle_fresh:
  "pool_inv w \<Longrightarrow> map_of (pool w) a = Some c \<Longrightarrow> ctx_handle c < next_handle w"
  by (fastforce simp: pool_inv_def list_all_iff dest!: map_of_SomeD)

lemma launch_ctx_ok:
  "pool_inv w \<Longrightarrow> ctx_ok a (launch_ctx w a) \<and> ctx_handle (launch_ctx w a) = next_handle w"
  by (auto simp: launch_ctx_def ctx_ok_def pool_inv_def list_all_iff split: option.splits
      dest!: map_of_SomeD)

lemma restore_session_ok:
  "ctx_ok a c \<Longrightarrow> ctx_ok a (restore_session e s c) \<and> ctx_handle (restore_session e s c) = ctx_handle c"
  by (auto simp: restore_session_def ctx_ok_def distinct_assign_all split: option.splits restore_fault.splits)

lemma pool_inv_register:
  assumes inv: "pool_inv w" and miss: "map_of (pool w) a = None"
    and h: "ctx_handle c = next_handle w" and ok: "ctx_ok a c"
  shows "pool_inv (register_ctx a c w)"
proof -
  let ?w = "register_ctx a c w"
  have p: "pool ?w = pool w @ [(a, c)]"
    using miss by (simp add: register_ctx_def update_absent)
  have m: "map_of (pool ?w) = (map_of (pool w))(a \<mapsto> c)"
    by (simp add: register_ctx_def AList.update_conv')
  have l: "live ?w = live w @ [(next_handle w, a)]" and n: "next_handle ?w = Suc (next_handle w)"
    and dk: "disk ?w = disk w"
    using h by (simp_all add: register_ctx_def)
  have old: "\<forall>(b, d) \<in> set (pool w). ctx_handle d < next_handle w"
  proof (clarify)
    fix b d
    assume "(b, d) \<in> set (pool w)"
    with inv have "map_of (pool w) b = Some d"
      by (simp add: pool_inv_def map_of_is_SomeI)
    with inv show "ctx_handle d < next_handle w"
      by (rule pool_inv_handle_fresh)
  qed
  have nolive: "\<forall>(h', b) \<in> set (live w). b \<noteq> a"
    using inv miss by (fastforce simp: pool_inv_def list_all_iff)
  have c1: "distinct (map fst (pool ?w))"
    using inv miss by (simp add: p pool_inv_def map_of_eq_None_iff)
  have c2: "distinct (map (ctx_handle \<circ> snd) (pool ?w))"
    using inv old h by (fastforce simp: p pool_inv_def)
  have c3: "list_all (\<lambda>(b, d). ctx_ok b d \<and> (ctx_handle d, b) \<in> set (live ?w)) (pool ?w)"
    using inv ok h by (auto simp: p l pool_inv_def list_all_iff)
  have c4: "list_all (\<lambda>(h', b). h' < next_handle ?w \<and>
      map_option ctx_handle (map_of (pool ?w) b) = Some h') (live ?w)"
    unfolding list_all_iff
  proof (clarify)
    fix h' b
    assume hb: "(h', b) \<in> set (live ?w)"
    show "h' < next_handle ?w \<and> map_option ctx_handle (map_of (pool ?w) b) = Some h'"
    proof (cases "(h', b) \<in> set (live w)")
      case True
      with nolive have "b \<noteq> a" by auto
      with True inv show ?thesis
        by (auto simp: m n pool_inv_def list_all_iff)
    next
      case False
      with hb h show ?thesis by (simp add: l m n)
    qed
  qed
  have c5: "list_all (\<lambda>(b, pf). distinct (map fst (pf_cookies pf)) \<and> distinct (map fst (pf_storage pf)))
      (disk ?w)"
    using inv by (simp add: dk pool_inv_def)
  show ?thesis
    using c1 c2 c3 c4 c5 by (simp add: pool_inv_def)
qed


lemma getBrowserContext_hit:
  "map_of (pool w) a = Some c \<Longrightarrow> getBrowserContext le now a w = (Inr c, w)"
  by (simp add: getBrowserContext_def)

lemma getBrowserContext_cases:
  assumes "getBrowserContext le now a w = (r, w')"
  shows "(\<exists>c. map_of (pool w) a = Some c \<and> r = Inr c \<and> w' = w) \<or>
         (map_of (pool w) a = None \<and> (\<exists>m. r = Inl m) \<and> w' = w) \<or>
         (map_of (pool w) a = None \<and> le_load le = None \<and> le_launch le = None \<and>
          (\<exists>c. r = Inr c \<and> w' = register_ctx a c w \<and>
            c = (let s = map_of (browser_sessions (db w)) a in
                 if session_valid s now then restore_session (le_restore le) (the s) (launch_ctx w a)
                 else launch_ctx w a)))"
  using assms
  by (auto simp: getBrowserContext_def loadSession_def thrw_def Let_def split: option.splits)

lemma getBrowserContext_inv:
  assumes inv: "pool_inv w" and g: "getBrowserContext le now a w = (r, w')"
  shows "pool_inv w'"
  using getBrowserContext_cases [OF g]
proof (elim disjE exE conjE)
  fix c
  assume miss: "map_of (pool w) a = None" and w': "w' = register_ctx a c w"
    and c: "c = (let s = map_of (browser_sessions (db w)) a in
                 if session_valid s now then restore_session (le_restore le) (the s) (launch_ctx w a)
                 else launch_ctx w a)"
  have l: "ctx_ok a (launch_ctx w a) \<and> ctx_handle (launch_ctx w a) = next_handle w"
    by (rule launch_ctx_ok [OF inv])
  then have "ctx_ok a c \<and> ctx_handle c = next_handle w"
    using restore_session_ok [of a "launch_ctx w a"] by (simp add: c Let_def)
  with inv miss show ?thesis
    by (simp add: w' pool_inv_register)
qed (use inv in simp_all)

lemma getBrowserContext_Inr_pool:
  "getBrowserContext le now a w = (Inr c, w') \<Longrightarrow> map_of (pool w') a = Some c"
  using getBrowserContext_cases [of le now a w "Inr c" w']
  by (auto simp: register_ctx_def AList.update_conv')


text \<open>
  Acquisition is idempotent: once a context has been acquired for an account, acquiring again returns the same context and leaves the world unchanged, whatever the launch environment and the clock.
\<close>

lemma getBrowserContext_reuse:
  assumes g: "getBrowserContext le now a w = (Inr c, w')"
  shows "getBrowserContext le' now' a w' = (Inr c, w')"
proof -
  from g have "map_of (pool w') a = Some c" by (rule getBrowserContext_Inr_pool)
  then show ?thesis by (rule getBrowserContext_hit)
qed

lemma getBrowserContext_Inl_unchanged:
  "getBrowserContext le now a w = (Inl m, w') \<Longrightarrow> w' = w"
  using getBrowserContext_cases [of le now a w "Inl m" w'] by auto

lemma getBrowserContext_injection:
  assumes miss: "map_of (pool w) a = None"
    and env: "le_load le = None" "le_launch le = None" "le_restore le = None"
  shows "getBrowserContext le now a w =
     (let c0 = launch_ctx w a;
          c = (case map_of (browser_sessions (db w)) a of
                 Some s \<Rightarrow> if now < ses_expires_at s
                   then c0\<lparr>ctx_cookies := assign_all (ctx_cookies c0) (ses_cookies s),
                           ctx_storage := assign_all (ctx_storage c0) (ses_local_storage s)\<rparr>
                   else c0
               | None \<Rightarrow> c0)
      in (Inr c, register_ctx a c w))"
  using miss env
  by (auto simp: getBrowserContext_def loadSession_def session_valid_def restore_session_def
      launch_ctx_def Let_def split: option.splits)

lemma saveBrowserSession_stores:
  "0 < ctx_pages c \<Longrightarrow> saveBrowserSession None now a c w = (Inr (), w') \<Longrightarrow>
   map_of (browser_sessions (db w')) a = Some \<lparr>ses_cookies = ctx_cookies c,
     ses_local_storage = ctx_storage c, ses_expires_at = now + session_ttl, ses_updated_at = now\<rparr>
   \<and> pool w' = pool w \<and> live w' = live w \<and> disk w' = disk w"
  by (auto simp: saveBrowserSession_def saveSession_def AList.update_conv')

lemma saveBrowserSession_frame:
  "saveBrowserSession e now a c w = (r, w') \<Longrightarrow>
   pool w' = pool w \<and> live w' = live w \<and> disk w' = disk w \<and> next_handle w' = next_handle w
   \<and> accounts (db w') = accounts (db w) \<and> requests (db w') = requests (db w)
   \<and> usage_logs (db w') = usage_logs (db w) \<and> quotas (db w') = quotas (db w)"
  by (auto simp: saveBrowserSession_def saveSession_def thrw_def split: if_splits option.splits)

lemma pool_inv_cong:
  "pool w' = pool w \<Longrightarrow> live w' = live w \<Longrightarrow> disk w' = disk w \<Longrightarrow>
   next_handle w' = next_handle w \<Longrightarrow> pool_inv w' = pool_inv w"
  by (simp only: pool_inv_def)

lemma pool_inv_db [simp]: "pool_inv (w\<lparr>db := d\<rparr>) = pool_inv w"
  by (rule pool_inv_cong) simp_all

lemma saveBrowserSession_inv:
  assumes "pool_inv w" and "saveBrowserSession e now a c w = (r, w')"
  shows "pool_inv w'"
proof -
  from saveBrowserSession_frame [OF assms(2)]
  have "pool_inv w' = pool_inv w" by (intro pool_inv_cong) simp_all
  with assms(1) show ?thesis by simp
qed


text \<open>
  C6: A session saved from a context and restored by a later acquisition of the same account, before it expires and into a fresh profile, gives back the saved cookies and local storage.
\<close>

theorem session_roundtrip:
  assumes ok: "ctx_ok a c" and pg: "0 < ctx_pages c"
    and save: "saveBrowserSession None t a c w = (Inr (), w1)"
    and fresh: "map_of (pool w2) a = None" "map_of (disk w2) a = None"
    and same: "map_of (browser_sessions (db w2)) a = map_of (browser_sessions (db w1)) a"
    and before: "t' < t + session_ttl"
    and acq: "getBrowserContext \<lparr>le_load = None, le_launch = None, le_restore = None\<rparr> t' a w2 = (Inr c', w3)"
  shows "ctx_cookies c' = ctx_cookies c \<and> ctx_storage c' = ctx_storage c"
proof -
  let ?le = "\<lparr>le_load = None, le_launch = None, le_restore = None\<rparr>"
  have s: "map_of (browser_sessions (db w2)) a = Some \<lparr>ses_cookies = ctx_cookies c,
     ses_local_storage = ctx_storage c, ses_expires_at = t + session_ttl, ses_updated_at = t\<rparr>"
    using saveBrowserSession_stores [OF pg save] same by simp
  have d: "distinct (map fst (ctx_cookies c))" "distinct (map fst (ctx_storage c))"
    using ok by (simp_all add: ctx_ok_def)
  have l: "launch_ctx w2 a = \<lparr>ctx_handle = next_handle w2, ctx_account = a, ctx_cookies = [],
                 ctx_storage = [], ctx_pages = 1\<rparr>"
    using fresh(2) by (simp add: launch_ctx_def)
  have "getBrowserContext ?le t' a w2 = (Inr ((launch_ctx w2 a)\<lparr>ctx_cookies := ctx_cookies c,
        ctx_storage := ctx_storage c\<rparr>), register_ctx a ((launch_ctx w2 a)\<lparr>ctx_cookies := ctx_cookies c,
        ctx_storage := ctx_storage c\<rparr>) w2)"
    using getBrowserContext_injection [OF fresh(1), of ?le t'] s before d l by (simp add: Let_def)
  with acq have "c' = (launch_ctx w2 a)\<lparr>ctx_cookies := ctx_cookies c, ctx_storage := ctx_storage c\<rparr>"
    by simp
  then show ?thesis by simp
qed


text \<open>
  Closing the context of an account preserves the pool invariant, whether or not the close rejects.
\<close>

lemma closeContext_inv:
  assumes inv: "pool_inv w" and cl: "closeContext e a w = (r, w')"
  shows "pool_inv w'"
proof (cases "map_of (pool w) a")
  case None
  with cl inv show ?thesis by (simp add: closeContext_def)
next
  case (Some c)
  show ?thesis
  proof (cases e)
    case (Some m)
    with \<open>map_of (pool w) a = Some c\<close> cl inv show ?thesis by (simp add: closeContext_def)
  next
    case None
    note pc = \<open>map_of (pool w) a = Some c\<close>
    have w': "w' = close_effect a c (w\<lparr>pool := AList.delete a (pool w)\<rparr>)"
      using cl pc None by (simp add: closeContext_def)
    have okc: "ctx_ok a c" and lc: "(ctx_handle c, a) \<in> set (live w)"
      using pool_inv_pooled_live [OF inv pc] by auto
    have same_a: "\<And>h. (h, a) \<in> set (live w) \<Longrightarrow> h = ctx_handle c"
      using inv pc by (fastforce simp: pool_inv_def list_all_iff)
    have d: "AList.delete a (pool w) = filter (\<lambda>p. fst p \<noteq> a) (pool w)"
      unfolding AList.delete_eq by (rule filter_cong) auto
    have c1: "distinct (map fst (pool w'))"
      using inv by (simp add: w' close_effect_def AList.distinct_delete pool_inv_def)
    have c2: "distinct (map (ctx_handle \<circ> snd) (pool w'))"
      using inv by (simp add: w' close_effect_def d distinct_map_filter pool_inv_def)
    have c3: "list_all (\<lambda>(b, d). ctx_ok b d \<and> (ctx_handle d, b) \<in> set (live w')) (pool w')"
      using inv by (auto simp: w' close_effect_def d pool_inv_def list_all_iff)
    have c4: "list_all (\<lambda>(h, b). h < next_handle w' \<and>
        map_option ctx_handle (map_of (pool w') b) = Some h) (live w')"
      unfolding list_all_iff
    proof (clarify)
      fix h b
      assume "(h, b) \<in> set (live w')"
      then have hb: "(h, b) \<in> set (live w)" and ne: "(h, b) \<noteq> (ctx_handle c, a)"
        by (simp_all add: w' close_effect_def)
      have "b \<noteq> a" using same_a hb ne by auto
      moreover obtain c' where "map_of (pool w) b = Some c'" and "ctx_handle c' = h"
        using pool_inv_live_pooled [OF inv hb] by blast
      moreover have "h < next_handle w"
        using inv hb by (auto simp: pool_inv_def list_all_iff)
      ultimately show "h < next_handle w' \<and> map_option ctx_handle (map_of (pool w') b) = Some h"
        by (simp add: w' close_effect_def)
    qed
    have c5: "list_all (\<lambda>(b, p). distinct (map fst (pf_cookies p)) \<and> distinct (map fst (pf_storage p)))
        (disk w')"
      using inv okc set_update_subset [of a _ "disk w"]
      by (fastforce simp: w' close_effect_def pool_inv_def list_all_iff ctx_ok_def)
    show ?thesis
      using c1 c2 c3 c4 c5 by (simp add: pool_inv_def)
  qed
qed

lemma close_each_frame:
  "pool (close_each errs cs w) = pool w \<and> next_handle (close_each errs cs w) = next_handle w
   \<and> db (close_each errs cs w) = db w"
  by (induction cs arbitrary: w) (auto simp: close_effect_def split: option.splits)

lemma close_each_live:
  "set (live (close_each errs cs w)) =
     set (live w) - {(ctx_handle c, a) | a c. (a, c) \<in> set cs \<and> errs a = None}"
  by (induction cs arbitrary: w) (auto simp: close_effect_def split: option.splits)

lemma closeAllContexts_live:
  assumes inv: "pool_inv w"
  shows "set (live (closeAllContexts errs w)) = {(h, a) \<in> set (live w). errs a \<noteq> None}"
proof -
  have "(h, a) \<in> set (live w) \<Longrightarrow> errs a = None \<Longrightarrow>
        \<exists>c. (a, c) \<in> set (pool w) \<and> ctx_handle c = h" for h a
    using pool_inv_live_pooled [OF inv] by (blast dest: map_of_SomeD)
  then show ?thesis
    by (auto simp: closeAllContexts_def close_each_live) (metis option.exhaust)
qed

text \<open>
  Closing all contexts empties the pool; the contexts whose close rejected stay live in the browser and no others do.
\<close>

theorem closeAllContexts_result:
  assumes inv: "pool_inv w"
  shows "pool (closeAllContexts errs w) = [] \<and>
    set (live (closeAllContexts errs w)) = {(h, a) \<in> set (live w). errs a \<noteq> None}"
  using closeAllContexts_live [OF inv] by (simp add: closeAllContexts_def)


lemma getBrowserContext_split:
  "map_of (pool w) a = None \<Longrightarrow>
   getBrowserContext \<lparr>le_load = None, le_launch = None, le_restore = None\<rparr> now a w =
     (Inr (fst (acq_finish now a w)), snd (acq_finish now a w))"
  by (simp add: getBrowserContext_def acq_finish_def loadSession_def Let_def)

text \<open>Under the pool invariant the browser has at most one live context per account.\<close>

lemma pool_inv_one_live:
  assumes inv: "pool_inv w"
  shows "one_live_per_account w"
  unfolding one_live_per_account_def
proof (clarify)
  fix h1 a h2
  assume l1: "(h1, a) \<in> set (live w)" and l2: "(h2, a) \<in> set (live w)"
  obtain c1 where "map_of (pool w) a = Some c1" "ctx_handle c1 = h1"
    using pool_inv_live_pooled [OF inv l1] by blast
  moreover obtain c2 where "map_of (pool w) a = Some c2" "ctx_handle c2 = h2"
    using pool_inv_live_pooled [OF inv l2] by blast
  ultimately show "h1 = h2" by simp
qed

lemma acq_finish_live:
  "acq_finish now a w = (c, w') \<Longrightarrow>
   live w' = live w @ [(next_handle w, a)] \<and> next_handle w' = Suc (next_handle w) \<and>
   ctx_handle c = next_handle w \<and> map_of (pool w') = (map_of (pool w))(a \<mapsto> c)"
  by (auto simp: acq_finish_def register_ctx_def launch_ctx_def restore_session_def
      AList.update_conv' Let_def split: option.splits)

text \<open>
  C10: Two jobs acquiring the context of an account the pool does not hold, interleaved at the first await, launch two live contexts for the account; the pool keeps only the second, so the first stays live with no pool entry that could close it.
\<close>

theorem acquire_race:
  fixes t1 t2 :: nat
  assumes miss: "map_of (pool w) a = None" and ts: "t1 \<noteq> t2"
  shows "\<exists>s. (acq_step now)\<^sup>*\<^sup>* \<lparr>aw = w, apc = \<lambda>_. Acq_idle\<rparr> s \<and>
    (next_handle w, a) \<in> set (live (aw s)) \<and> (Suc (next_handle w), a) \<in> set (live (aw s)) \<and>
    map_option ctx_handle (map_of (pool (aw s)) a) = Some (Suc (next_handle w))"
proof -
  let ?s0 = "\<lparr>aw = w, apc = \<lambda>_. Acq_idle\<rparr>"
  let ?s1 = "?s0\<lparr>apc := (apc ?s0)(t1 := Acq_loading a)\<rparr>"
  let ?s2 = "?s1\<lparr>apc := (apc ?s1)(t2 := Acq_loading a)\<rparr>"
  obtain c1 w1 where f1: "acq_finish now a w = (c1, w1)" by (cases "acq_finish now a w")
  let ?s3 = "\<lparr>aw = w1, apc = (apc ?s2)(t1 := Acq_done c1)\<rparr>"
  obtain c2 w2 where f2: "acq_finish now a w1 = (c2, w2)" by (cases "acq_finish now a w1")
  let ?s4 = "\<lparr>aw = w2, apc = (apc ?s3)(t2 := Acq_done c2)\<rparr>"
  have st1: "acq_step now ?s0 ?s1"
    using miss by (intro acq_step.begin_miss) simp_all
  have st2: "acq_step now ?s1 ?s2"
    using miss ts by (intro acq_step.begin_miss) simp_all
  have st3: "acq_step now ?s2 ?s3"
    using f1 by (intro acq_step.finish) simp_all
  have st4: "acq_step now ?s3 ?s4"
    using f2 ts by (intro acq_step.finish) simp_all
  have run: "(acq_step now)\<^sup>*\<^sup>* ?s0 ?s4"
    using st1 st2 st3 st4 by (meson rtranclp.rtrancl_into_rtrancl rtranclp.rtrancl_refl)
  have l1: "live w1 = live w @ [(next_handle w, a)]" "next_handle w1 = Suc (next_handle w)"
    using acq_finish_live [OF f1] by simp_all
  have l2: "live w2 = live w1 @ [(next_handle w1, a)]" "ctx_handle c2 = next_handle w1"
     "map_of (pool w2) a = Some c2"
    using acq_finish_live [OF f2] by simp_all
  show ?thesis
    using run l1 l2 by (intro exI [of _ ?s4]) simp
qed


text \<open>
  C5: A newly created context gets the stored session injected exactly when it has not
  expired: its cookies and storage are the profile's updated with the session's when
  \<open>now < expires_at\<close>, and the profile's alone otherwise.
\<close>

theorem getBrowserContext_session_injection:
  assumes miss: "map_of (pool w) a = None"
    and env: "le_load le = None" "le_launch le = None" "le_restore le = None"
    and s: "map_of (browser_sessions (db w)) a = Some s"
    and g: "getBrowserContext le now a w = (r, w')"
  shows "\<exists>c. r = Inr c \<and> w' = register_ctx a c w \<and>
    ctx_cookies c = (if now < ses_expires_at s
      then assign_all (ctx_cookies (launch_ctx w a)) (ses_cookies s)
      else ctx_cookies (launch_ctx w a)) \<and>
    ctx_storage c = (if now < ses_expires_at s
      then assign_all (ctx_storage (launch_ctx w a)) (ses_local_storage s)
      else ctx_storage (launch_ctx w a))"
  using getBrowserContext_injection [OF miss env, of now] g s by (auto simp: Let_def)

subsection \<open>The invariant over runs of the pool\<close>

lemma takeScreenshot_inv: "pool_inv w \<Longrightarrow> pool_inv (snd (takeScreenshot cfg out now a name w))"
  by (auto simp: takeScreenshot_def Let_def split: shot_outcome.splits)

lemma pool_apply_inv:
  assumes inv: "pool_inv w"
  shows "pool_inv (pool_apply op w)"
proof (cases op)
  case (Op_acquire le now a)
  then show ?thesis
    using getBrowserContext_inv [OF _ prod.collapse [symmetric]] inv by (simp add: pool_apply_def)
next
  case (Op_save err now a)
  then show ?thesis
    using saveBrowserSession_inv [OF _ prod.collapse [symmetric]] inv
    by (simp add: pool_apply_def split: option.splits)
next
  case (Op_screenshot cfg out now a name)
  then show ?thesis using takeScreenshot_inv inv by (simp add: pool_apply_def)
next
  case (Op_close err a)
  then show ?thesis
    using closeContext_inv [OF _ prod.collapse [symmetric]] inv by (simp add: pool_apply_def)
qed

lemma pool_reach_inv: "pool_reach w \<Longrightarrow> pool_inv w"
proof (induction rule: pool_reach.induct)
  case (init w)
  then show ?case by (simp add: pool_inv_def profiles_ok_def)
next
  case (step w op)
  then show ?case by (simp add: pool_apply_inv)
qed

text \<open>
  C4: The core invariant of the specification, one live browser resource per account,
  holds in every state the pool reaches: from a freshly started worker, after any
  sequence of acquisitions, session saves, screenshots and closes, the browser holds at
  most one live context per account.
\<close>

theorem pool_reach_one_live: "pool_reach w \<Longrightarrow> one_live_per_account w"
  by (rule pool_inv_one_live [OF pool_reach_inv])

end
