(* ===== verification/Dispatcher.thy ===== *)
theory Dispatcher
  imports Pool
begin

text \<open>
  The job processor of \<open>src/browser-worker/src/worker.ts\<close>: the async function that
  \<open>createWorker\<close> hands to BullMQ for each \<open>chat-request\<close> job. One call of
  \<open>process_job\<close> is one run of that function on the world of \<open>Pool\<close>: it marks the
  request \<open>processing\<close>, acquires the account's context, runs the provider adapter,
  and then either records the success (quota, usage log, session, last use, result) or
  runs the \<open>catch\<close> block (screenshot, error log, failed status, and \<open>expired\<close> for an
  authentication error). What the environment decides is a field of \<open>job_env\<close>: the
  clock at the start and at the end of the run, the outcome of the two acquisitions (the
  one of the \<open>try\<close> block and the one of the \<open>catch\<close> block), the web page, the
  error each throwing database helper returns, and the outcome of the screenshot. The
  \<open>supabase.from(\<dots>).update(\<dots>)\<close> calls written directly in \<open>worker.ts\<close> do not
  look at the returned error; they are the row updates \<open>mark_processing\<close>,
  \<open>touch_account\<close>, \<open>mark_completed\<close> and \<open>mark_failed\<close>, which cannot throw.
\<close>

record chat_request_job =
  job_request_id :: string
  job_account_id :: string
  job_provider :: string
  job_prompt :: string
  job_priority :: int

datatype db_call = Call_updateQuota | Call_logUsage_success | Call_saveSession
  | Call_logUsage_error | Call_updateAccountStatus

record job_env =
  je_start :: time
  je_end :: time
  je_launch :: launch_env
  je_relaunch :: launch_env
  je_page :: page_env
  je_fault :: "db_call \<Rightarrow> string option"
  je_shot :: shot_outcome

subsection \<open>Row updates written in \<open>worker.ts\<close>\<close>

definition set_request :: "string \<Rightarrow> (request \<Rightarrow> request) \<Rightarrow> db \<Rightarrow> db" where
  "set_request rid f d = d\<lparr>requests := AList.map_entry rid f (requests d)\<rparr>"

definition mark_processing :: "string \<Rightarrow> db \<Rightarrow> db" where
  "mark_processing rid d = set_request rid (\<lambda>r. r\<lparr>req_status := Processing\<rparr>) d"

definition touch_account :: "string \<Rightarrow> time \<Rightarrow> db \<Rightarrow> db" where
  "touch_account a now d =
     d\<lparr>accounts := AList.map_entry a (\<lambda>r. r\<lparr>acc_last_used_at := Some now\<rparr>) (accounts d)\<rparr>"

definition mark_completed ::
  "string \<Rightarrow> string \<Rightarrow> chat_response \<Rightarrow> int \<Rightarrow> time \<Rightarrow> db \<Rightarrow> db" where
  "mark_completed rid p resp lat now d =
     set_request rid (\<lambda>r. r\<lparr>req_status := Completed, req_provider_used := Some p,
        req_response := Some (cr_text resp), req_tokens := Some (cr_tokens resp),
        req_latency := Some lat, req_completed_at := Some now\<rparr>) d"

definition mark_failed :: "string \<Rightarrow> string \<Rightarrow> int \<Rightarrow> time \<Rightarrow> db \<Rightarrow> db" where
  "mark_failed rid msg lat now d =
     set_request rid (\<lambda>r. r\<lparr>req_status := Failed, req_error := Some msg, req_latency := Some lat,
        req_completed_at := Some now\<rparr>) d"

text \<open>\<open>errorMessage.includes('Session expired') || errorMessage.includes('not logged in')\<close>\<close>

definition is_auth_error :: "string \<Rightarrow> bool" where
  "is_auth_error m \<longleftrightarrow> js_includes m ''Session expired'' \<or> js_includes m ''not logged in''"

subsection \<open>Running the adapter on the context\<close>

text \<open>\<open>context.pages()[0] || await context.newPage()\<close>\<close>

definition ensure_page :: "ctx \<Rightarrow> ctx" where
  "ensure_page c = c\<lparr>ctx_pages := max 1 (ctx_pages c)\<rparr>"

text \<open>
  \<open>automateChat(provider, page, prompt)\<close> on the page of the context: the result of
  the adapter, and the context after the site has written its cookies and storage (once
  an adapter has navigated; an unknown provider throws before it touches the page).
\<close>

definition run_automation :: "string \<Rightarrow> page_env \<Rightarrow> string \<Rightarrow> ctx \<Rightarrow> chat_response res \<times> ctx" where
  "run_automation p pg prompt c =
     (automateChat p pg prompt,
      if parse_provider p \<noteq> None \<and> pe_goto pg = None
      then c\<lparr>ctx_cookies := assign_all (ctx_cookies c) (pe_set_cookies pg),
             ctx_storage := assign_all (ctx_storage c) (pe_set_storage pg)\<rparr>
      else c)"

subsection \<open>The \<open>catch\<close> block\<close>

text \<open>
  The screenshot of the \<open>catch\<close> block: \<open>getBrowserContext(account_id).catch(() => null)\<close>
  (which launches a context if the pool has none), then \<open>takeScreenshot\<close> on its
  first page if there is one.
\<close>

definition capture_failure :: "config \<Rightarrow> job_env \<Rightarrow> string \<Rightarrow> string \<Rightarrow> world \<Rightarrow> world" where
  "capture_failure cfg env a rid w =
     (case getBrowserContext (je_relaunch env) (je_end env) a w of
        (Inl _, w1) \<Rightarrow> w1
      | (Inr c, w1) \<Rightarrow>
          if 0 < ctx_pages c
          then snd (takeScreenshot cfg (je_shot env) (je_end env) a (''error-'' @ rid) w1)
          else w1)"

definition job_failed ::
  "config \<Rightarrow> job_env \<Rightarrow> chat_request_job \<Rightarrow> string \<Rightarrow> world \<Rightarrow> chat_response res \<times> world" where
  "job_failed cfg env job m w =
     (let a = job_account_id job; rid = job_request_id job; p = job_provider job;
          t1 = je_end env; lat = je_end env - je_start env;
          w1 = capture_failure cfg env a rid w
      in case logUsage (je_fault env Call_logUsage_error) a p (Some rid) 0 lat Usage_error (Some m)
                (db w1) of
           Inl m' \<Rightarrow> (Inl m', w1)
         | Inr d \<Rightarrow>
             let d' = mark_failed rid m lat t1 d
             in if is_auth_error m
                then (case updateAccountStatus (je_fault env Call_updateAccountStatus) a Expired t1 d' of
                        Inl m' \<Rightarrow> (Inl m', w1\<lparr>db := d'\<rparr>)
                      | Inr d'' \<Rightarrow> (Inl m, w1\<lparr>db := d''\<rparr>))
                else (Inl m, w1\<lparr>db := d'\<rparr>))"

subsection \<open>The \<open>try\<close> block after the automation\<close>

definition job_success ::
  "config \<Rightarrow> job_env \<Rightarrow> chat_request_job \<Rightarrow> chat_response \<Rightarrow> ctx \<Rightarrow> world
     \<Rightarrow> chat_response res \<times> world" where
  "job_success cfg env job r c w =
     (let a = job_account_id job; rid = job_request_id job; p = job_provider job;
          t1 = je_end env; lat = je_end env - je_start env
      in case updateQuota (je_fault env Call_updateQuota) a p (cr_tokens r) (db w) of
           Inl m \<Rightarrow> job_failed cfg env job m w
         | Inr d1 \<Rightarrow>
         case logUsage (je_fault env Call_logUsage_success) a p (Some rid) (cr_tokens r) lat
                Usage_success None d1 of
           Inl m \<Rightarrow> job_failed cfg env job m (w\<lparr>db := d1\<rparr>)
         | Inr d2 \<Rightarrow>
         case saveBrowserSession (je_fault env Call_saveSession) t1 a c (w\<lparr>db := d2\<rparr>) of
           (Inl m, w3) \<Rightarrow> job_failed cfg env job m w3
         | (Inr _, w3) \<Rightarrow>
             (Inr r, w3\<lparr>db := mark_completed rid p r lat t1 (touch_account a t1 (db w3))\<rparr>))"

subsection \<open>One job\<close>

definition process_job ::
  "config \<Rightarrow> job_env \<Rightarrow> chat_request_job \<Rightarrow> world \<Rightarrow> chat_response res \<times> world" where
  "process_job cfg env job w =
     (let a = job_account_id job;
          w1 = w\<lparr>db := mark_processing (job_request_id job) (db w)\<rparr>
      in case getBrowserContext (je_launch env) (je_start env) a w1 of
           (Inl m, w2) \<Rightarrow> job_failed cfg env job m w2
         | (Inr c, w2) \<Rightarrow>
             (case run_automation (job_provider job) (je_page env) (job_prompt job) (ensure_page c) of
                (res, c2) \<Rightarrow>
                  let w3 = w2\<lparr>pool := AList.update a c2 (pool w2)\<rparr>
                  in case res of
                       Inl m \<Rightarrow> job_failed cfg env job m w3
                     | Inr r \<Rightarrow> job_success cfg env job r c2 w3))"

subsection \<open>The lifecycle of a request\<close>

text \<open>
  The status of a request row, as the specification draws it: \<open>queued\<close> to
  \<open>processing\<close>, then one of the two terminal states.
\<close>

inductive req_trans :: "req_status \<Rightarrow> req_status \<Rightarrow> bool" where
  start: "req_trans Queued Processing"
| complete: "req_trans Processing Completed"
| fail: "req_trans Processing Failed"

subsection \<open>The contract of a job\<close>

text \<open>
  What a job returns, stated without the pool and the tables: \<open>acquire_error\<close> is the
  error of acquiring the account's context (none when the pool has one),
  \<open>failure_outcome\<close> the value the \<open>catch\<close> block rethrows (the error of a failing
  helper, or the original message), and \<open>job_outcome\<close> the result of the job.
\<close>

definition failure_outcome :: "job_env \<Rightarrow> string \<Rightarrow> chat_response res" where
  "failure_outcome env m =
     (case je_fault env Call_logUsage_error of
        Some m' \<Rightarrow> Inl m'
      | None \<Rightarrow> (case je_fault env Call_updateAccountStatus of
                   Some m'' \<Rightarrow> if is_auth_error m then Inl m'' else Inl m
                 | None \<Rightarrow> Inl m))"

definition acquire_error :: "launch_env \<Rightarrow> world \<Rightarrow> string \<Rightarrow> string option" where
  "acquire_error le w a =
     (if map_of (pool w) a \<noteq> None then None
      else case le_load le of Some m \<Rightarrow> Some m | None \<Rightarrow> le_launch le)"

definition job_outcome :: "job_env \<Rightarrow> chat_request_job \<Rightarrow> world \<Rightarrow> chat_response res" where
  "job_outcome env job w =
     (case acquire_error (je_launch env) w (job_account_id job) of
        Some m \<Rightarrow> failure_outcome env m
      | None \<Rightarrow>
          (case automateChat (job_provider job) (je_page env) (job_prompt job) of
             Inl m \<Rightarrow> failure_outcome env m
           | Inr r \<Rightarrow>
               (case je_fault env Call_updateQuota of
                  Some m \<Rightarrow> failure_outcome env m
                | None \<Rightarrow> (case je_fault env Call_logUsage_success of
                    Some m \<Rightarrow> failure_outcome env m
                  | None \<Rightarrow> (case je_fault env Call_saveSession of
                      Some m \<Rightarrow> failure_outcome env m
                    | None \<Rightarrow> Inr r)))))"

lemmas dispatcher_defs [model_defs] = set_request_def mark_processing_def touch_account_def
  mark_completed_def mark_failed_def is_auth_error_def ensure_page_def run_automation_def
  capture_failure_def job_failed_def job_success_def process_job_def failure_outcome_def
  acquire_error_def job_outcome_def

subsection \<open>Properties of the job processor\<close>

lemma getBrowserContext_db [simp]: "db (snd (getBrowserContext le now a w)) = db w"
  using getBrowserContext_cases [of le now a w "fst (getBrowserContext le now a w)"
      "snd (getBrowserContext le now a w)"]
  by (auto simp: register_ctx_def)

lemma takeScreenshot_frame:
  "w' = snd (takeScreenshot cfg out now a name w) \<Longrightarrow>
   pool w' = pool w \<and> live w' = live w \<and> disk w' = disk w \<and> next_handle w' = next_handle w \<and>
   db w' = (db w)\<lparr>screenshots := screenshots (db w')\<rparr>"
  by (auto simp: takeScreenshot_def Let_def split: shot_outcome.splits)

lemma capture_failure_db:
  "db (capture_failure cfg env a rid w) =
     (db w)\<lparr>screenshots := screenshots (db (capture_failure cfg env a rid w))\<rparr>"
proof -
  obtain g w1 where g: "getBrowserContext (je_relaunch env) (je_end env) a w = (g, w1)"
    by (cases "getBrowserContext (je_relaunch env) (je_end env) a w")
  have d1: "db w1 = db w"
    using getBrowserContext_db [of "je_relaunch env" "je_end env" a w] g by simp
  show ?thesis
  proof (cases g)
    case (Inl m)
    with g d1 show ?thesis by (simp add: capture_failure_def)
  next
    case (Inr c)
    have "db (snd (takeScreenshot cfg (je_shot env) (je_end env) a (''error-'' @ rid) w1)) =
      (db w1)\<lparr>screenshots := screenshots (db (snd (takeScreenshot cfg (je_shot env) (je_end env) a
         (''error-'' @ rid) w1)))\<rparr>"
      using takeScreenshot_frame [OF refl] by blast
    with Inr g d1 show ?thesis by (simp add: capture_failure_def)
  qed
qed

lemma capture_failure_inv:
  assumes inv: "pool_inv w"
  shows "pool_inv (capture_failure cfg env a rid w)"
proof -
  obtain g w1 where g: "getBrowserContext (je_relaunch env) (je_end env) a w = (g, w1)"
    by (cases "getBrowserContext (je_relaunch env) (je_end env) a w")
  have i1: "pool_inv w1" using getBrowserContext_inv [OF inv g] .
  have "pool_inv (snd (takeScreenshot cfg (je_shot env) (je_end env) a (''error-'' @ rid) w1))"
    using takeScreenshot_frame [OF refl, of cfg "je_shot env" "je_end env" a "''error-'' @ rid" w1] i1
    by (subst pool_inv_cong) simp_all
  with i1 g show ?thesis
    by (auto simp: capture_failure_def split: sum.splits)
qed


lemma capture_failure_tables [simp]:
  "accounts (db (capture_failure cfg env a rid w)) = accounts (db w)"
  "requests (db (capture_failure cfg env a rid w)) = requests (db w)"
  "usage_logs (db (capture_failure cfg env a rid w)) = usage_logs (db w)"
  "quotas (db (capture_failure cfg env a rid w)) = quotas (db w)"
  "browser_sessions (db (capture_failure cfg env a rid w)) = browser_sessions (db w)"
  "alerts (db (capture_failure cfg env a rid w)) = alerts (db w)"
  by (subst capture_failure_db, simp)+

lemma job_failed_effects:
  assumes jf: "job_failed cfg env job m w = (r, w')"
  shows "requests (db w') =
      (if je_fault env Call_logUsage_error = None
       then requests (mark_failed (job_request_id job) m (je_end env - je_start env) (je_end env) (db w))
       else requests (db w))
    \<and> usage_logs (db w') = usage_logs (db w) @
      (if je_fault env Call_logUsage_error = None
       then [\<lparr>ul_account = job_account_id job, ul_provider = job_provider job,
              ul_request = Some (job_request_id job), ul_tokens = 0, ul_cost = 0,
              ul_latency = je_end env - je_start env, ul_status = Usage_error, ul_error = Some m\<rparr>]
       else [])
    \<and> accounts (db w') =
      (if je_fault env Call_logUsage_error = None \<and> is_auth_error m
          \<and> je_fault env Call_updateAccountStatus = None
       then AList.map_entry (job_account_id job)
              (\<lambda>x. x\<lparr>acc_status := Expired, acc_updated_at := je_end env\<rparr>) (accounts (db w))
       else accounts (db w))
    \<and> quotas (db w') = quotas (db w)
    \<and> browser_sessions (db w') = browser_sessions (db w)
    \<and> r = (case je_fault env Call_logUsage_error of
             Some m' \<Rightarrow> Inl m'
           | None \<Rightarrow> (case je_fault env Call_updateAccountStatus of
                        Some m'' \<Rightarrow> if is_auth_error m then Inl m'' else Inl m
                      | None \<Rightarrow> Inl m))"
  using jf
  by (auto simp: job_failed_def Let_def logUsage_def updateAccountStatus_def mark_failed_def
      set_request_def split: option.splits if_splits)

lemma job_failed_inv:
  "pool_inv w \<Longrightarrow> job_failed cfg env job m w = (r, w') \<Longrightarrow> pool_inv w'"
  by (auto simp: job_failed_def Let_def logUsage_def updateAccountStatus_def thrw_def
      intro: capture_failure_inv split: option.splits if_splits)


lemma job_failed_result: "fst (job_failed cfg env job m w) = failure_outcome env m"
  by (auto simp: job_failed_def failure_outcome_def Let_def logUsage_def updateAccountStatus_def
      thrw_def split: option.splits)

lemma job_success_result:
  "0 < ctx_pages c \<Longrightarrow>
   fst (job_success cfg env job r c w) =
     (case je_fault env Call_updateQuota of
        Some m \<Rightarrow> failure_outcome env m
      | None \<Rightarrow> (case je_fault env Call_logUsage_success of
          Some m \<Rightarrow> failure_outcome env m
        | None \<Rightarrow> (case je_fault env Call_saveSession of
            Some m \<Rightarrow> failure_outcome env m
          | None \<Rightarrow> Inr r)))"
  by (auto simp: job_success_def Let_def updateQuota_def logUsage_def saveBrowserSession_def
      saveSession_def job_failed_result split: option.splits prod.splits)

lemma run_automation_ctx:
  "snd (run_automation p pg prompt c) = c' \<Longrightarrow> ctx_ok a c \<Longrightarrow>
   ctx_ok a c' \<and> ctx_handle c' = ctx_handle c \<and> ctx_pages c' = ctx_pages c"
  by (auto simp: run_automation_def ctx_ok_def distinct_assign_all)

lemma run_automation_pages [simp]:
  "ctx_pages (snd (run_automation p pg prompt c)) = ctx_pages c"
  by (simp add: run_automation_def)

lemma run_automation_result [simp]: "fst (run_automation p pg prompt c) = automateChat p pg prompt"
  by (simp add: run_automation_def)

lemma ensure_page_ok [simp]:
  "ctx_ok a (ensure_page c) = ctx_ok a c" "ctx_handle (ensure_page c) = ctx_handle c"
  "0 < ctx_pages (ensure_page c)" "ctx_pages (ensure_page c) \<noteq> 0"
  by (simp_all add: ensure_page_def ctx_ok_def)

lemma getBrowserContext_result:
  "fst (getBrowserContext le now a w) = Inl m \<longleftrightarrow> acquire_error le w a = Some m"
  by (auto simp: getBrowserContext_def acquire_error_def loadSession_def thrw_def Let_def
      split: option.splits)

lemma acquire_error_processing [simp]:
  "acquire_error le (w\<lparr>db := d\<rparr>) a = acquire_error le w a"
  by (simp add: acquire_error_def)


lemma process_job_acq_fail:
  "getBrowserContext (je_launch env) (je_start env) (job_account_id job)
     (w\<lparr>db := mark_processing (job_request_id job) (db w)\<rparr>) = (Inl m, w2) \<Longrightarrow>
   process_job cfg env job w = job_failed cfg env job m w2"
  by (simp add: process_job_def Let_def)

lemma process_job_run:
  "getBrowserContext (je_launch env) (je_start env) (job_account_id job)
     (w\<lparr>db := mark_processing (job_request_id job) (db w)\<rparr>) = (Inr c, w2) \<Longrightarrow>
   process_job cfg env job w =
     (let c2 = snd (run_automation (job_provider job) (je_page env) (job_prompt job) (ensure_page c));
          w3 = w2\<lparr>pool := AList.update (job_account_id job) c2 (pool w2)\<rparr>
      in case automateChat (job_provider job) (je_page env) (job_prompt job) of
           Inl m \<Rightarrow> job_failed cfg env job m w3
         | Inr r \<Rightarrow> job_success cfg env job r c2 w3)"
  by (simp add: process_job_def Let_def case_prod_beta)

lemma acquire_error_of_result:
  assumes "getBrowserContext le now a w = (g, w2)"
  shows "acquire_error le w a = (case g of Inl m \<Rightarrow> Some m | Inr _ \<Rightarrow> None)"
proof (cases g)
  case (Inl m)
  with assms getBrowserContext_result [of le now a w m] show ?thesis by simp
next
  case (Inr c)
  show ?thesis
  proof (cases "acquire_error le w a")
    case (Some m)
    with getBrowserContext_result [of le now a w m] assms Inr show ?thesis by simp
  qed (simp add: Inr)
qed

lemma process_job_fst: "fst (process_job cfg env job w) = job_outcome env job w"
proof -
  let ?a = "job_account_id job"
  let ?w1 = "w\<lparr>db := mark_processing (job_request_id job) (db w)\<rparr>"
  obtain g w2 where g: "getBrowserContext (je_launch env) (je_start env) ?a ?w1 = (g, w2)"
    by (cases "getBrowserContext (je_launch env) (je_start env) ?a ?w1")
  have ae: "acquire_error (je_launch env) w ?a = (case g of Inl m \<Rightarrow> Some m | Inr _ \<Rightarrow> None)"
    using acquire_error_of_result [OF g] by simp
  show ?thesis
  proof (cases g)
    case (Inl m)
    with g have "process_job cfg env job w = job_failed cfg env job m w2"
      by (simp add: process_job_acq_fail)
    with Inl ae show ?thesis by (simp add: job_failed_result job_outcome_def)
  next
    case (Inr c)
    let ?c2 = "snd (run_automation (job_provider job) (je_page env) (job_prompt job) (ensure_page c))"
    have pg: "0 < ctx_pages ?c2" by simp
    from g Inr have pj: "process_job cfg env job w =
       (case automateChat (job_provider job) (je_page env) (job_prompt job) of
           Inl m \<Rightarrow> job_failed cfg env job m (w2\<lparr>pool := AList.update ?a ?c2 (pool w2)\<rparr>)
         | Inr r \<Rightarrow> job_success cfg env job r ?c2 (w2\<lparr>pool := AList.update ?a ?c2 (pool w2)\<rparr>))"
      by (simp add: process_job_run Let_def)
    show ?thesis
    proof (cases "automateChat (job_provider job) (je_page env) (job_prompt job)")
      case (Inl m)
      with pj Inr ae show ?thesis by (simp add: job_failed_result job_outcome_def)
    next
      case (Inr r)
      with pj \<open>g = Inr c\<close> ae show ?thesis
        by (simp add: job_success_result [OF pg] job_outcome_def)
    qed
  qed
qed

lemma getBrowserContext_acquire_ok:
  assumes "acquire_error le w a = None"
  obtains c w2 where "getBrowserContext le now a w = (Inr c, w2)"
proof -
  obtain g w2 where g: "getBrowserContext le now a w = (g, w2)"
    by (cases "getBrowserContext le now a w")
  with acquire_error_of_result [OF g] assms obtain c where "g = Inr c"
    by (cases g) auto
  with g that show ?thesis by blast
qed

lemma process_job_success_tables:
  assumes acq: "acquire_error (je_launch env) w (job_account_id job) = None"
    and run: "automateChat (job_provider job) (je_page env) (job_prompt job) = Inr r"
    and ok: "je_fault env Call_updateQuota = None" "je_fault env Call_logUsage_success = None"
      "je_fault env Call_saveSession = None"
    and pj: "process_job cfg env job w = (res, w')"
  shows "res = Inr r
    \<and> requests (db w') = requests (mark_completed (job_request_id job) (job_provider job) r
        (je_end env - je_start env) (je_end env) (mark_processing (job_request_id job) (db w)))
    \<and> usage_logs (db w') = usage_logs (db w) @
        [\<lparr>ul_account = job_account_id job, ul_provider = job_provider job,
          ul_request = Some (job_request_id job), ul_tokens = cr_tokens r,
          ul_cost = calculateCost (job_provider job) (cr_tokens r),
          ul_latency = je_end env - je_start env, ul_status = Usage_success, ul_error = None\<rparr>]
    \<and> quotas (db w') = quotas (update_quota_usage (job_account_id job) (job_provider job)
        (cr_tokens r) (db w))
    \<and> accounts (db w') = accounts (touch_account (job_account_id job) (je_end env) (db w))"
proof -
  let ?w1 = "w\<lparr>db := mark_processing (job_request_id job) (db w)\<rparr>"
  obtain c w2 where g: "getBrowserContext (je_launch env) (je_start env) (job_account_id job) ?w1
      = (Inr c, w2)"
  proof -
    have "acquire_error (je_launch env) ?w1 (job_account_id job) = None" using acq by simp
    from getBrowserContext_acquire_ok [OF this, of "je_start env"] that show ?thesis by blast
  qed
  have d2: "db w2 = db ?w1"
    using getBrowserContext_db [of "je_launch env" "je_start env" "job_account_id job" ?w1] g by simp
  let ?c2 = "snd (run_automation (job_provider job) (je_page env) (job_prompt job) (ensure_page c))"
  have pg: "0 < ctx_pages ?c2" by simp
  have "process_job cfg env job w = job_success cfg env job r ?c2
      (w2\<lparr>pool := AList.update (job_account_id job) ?c2 (pool w2)\<rparr>)"
    using process_job_run [OF g] run by (simp add: Let_def)
  with pj pg ok d2 show ?thesis
    by (auto simp: job_success_def Let_def updateQuota_def logUsage_def saveBrowserSession_def
        saveSession_def mark_completed_def touch_account_def mark_processing_def set_request_def
        update_quota_usage_def)
qed


text \<open>
  C2: On the success path (the context is acquired, the adapter answers, and the quota, usage-log and session writes succeed) the job returns the adapter's response, the request row is completed with the provider, text, tokens, latency and completion time, one success usage log is appended and the quota counters of the account are charged.
\<close>

theorem process_job_success:
  assumes acq: "acquire_error (je_launch env) w (job_account_id job) = None"
    and run: "automateChat (job_provider job) (je_page env) (job_prompt job) = Inr r"
    and ok: "je_fault env Call_updateQuota = None" "je_fault env Call_logUsage_success = None"
      "je_fault env Call_saveSession = None"
    and pj: "process_job cfg env job w = (res, w')"
  shows "res = Inr r
    \<and> map_of (requests (db w')) (job_request_id job) =
        map_option (\<lambda>q. q\<lparr>req_status := Completed, req_provider_used := Some (job_provider job),
           req_response := Some (cr_text r), req_tokens := Some (cr_tokens r),
           req_latency := Some (je_end env - je_start env), req_completed_at := Some (je_end env)\<rparr>)
          (map_of (requests (db w)) (job_request_id job))
    \<and> usage_logs (db w') = usage_logs (db w) @
        [\<lparr>ul_account = job_account_id job, ul_provider = job_provider job,
          ul_request = Some (job_request_id job), ul_tokens = cr_tokens r,
          ul_cost = calculateCost (job_provider job) (cr_tokens r),
          ul_latency = je_end env - je_start env, ul_status = Usage_success, ul_error = None\<rparr>]
    \<and> quotas (db w') = quotas (update_quota_usage (job_account_id job) (job_provider job)
        (cr_tokens r) (db w))"
  using process_job_success_tables [OF acq run ok pj]
  by (simp add: mark_completed_def mark_processing_def set_request_def map_entry_same
      option.map_comp comp_def)

lemma pool_inv_put:
  assumes inv: "pool_inv w" and pc: "map_of (pool w) a = Some c"
    and h: "ctx_handle c' = ctx_handle c" and ok: "ctx_ok a c'"
  shows "pool_inv (w\<lparr>pool := AList.update a c' (pool w)\<rparr>)"
proof -
  let ?w = "w\<lparr>pool := AList.update a c' (pool w)\<rparr>"
  have m: "map_of (pool ?w) = (map_of (pool w))(a \<mapsto> c')"
    by (simp add: AList.update_conv')
  have lc: "(ctx_handle c, a) \<in> set (live w)"
    using pool_inv_pooled_live [OF inv pc] by simp
  have c1: "distinct (map fst (pool ?w))"
    using inv pc by (simp add: update_present_keys pool_inv_def)
  have c2: "distinct (map (ctx_handle \<circ> snd) (pool ?w))"
    using inv update_present_map_snd [OF pc, of ctx_handle c'] h
    by (simp add: pool_inv_def comp_def)
  have c3: "list_all (\<lambda>(b, d). ctx_ok b d \<and> (ctx_handle d, b) \<in> set (live ?w)) (pool ?w)"
    using inv ok h lc set_update_subset [of a c' "pool w"]
    by (fastforce simp: pool_inv_def list_all_iff)
  have c4: "list_all (\<lambda>(h', b). h' < next_handle ?w \<and>
      map_option ctx_handle (map_of (pool ?w) b) = Some h') (live ?w)"
    unfolding list_all_iff
  proof (clarify)
    fix h' b
    assume hb: "(h', b) \<in> set (live ?w)"
    then have hb0: "(h', b) \<in> set (live w)" by simp
    obtain d where "map_of (pool w) b = Some d" "ctx_handle d = h'"
      using pool_inv_live_pooled [OF inv hb0] by blast
    moreover have "h' < next_handle w"
      using inv hb0 by (auto simp: pool_inv_def list_all_iff)
    ultimately show "h' < next_handle ?w \<and> map_option ctx_handle (map_of (pool ?w) b) = Some h'"
      using pc h by (cases "b = a") (simp_all add: AList.update_conv')
  qed
  have c5: "list_all (\<lambda>(b, p). distinct (map fst (pf_cookies p)) \<and> distinct (map fst (pf_storage p)))
      (disk ?w)"
    using inv by (simp add: pool_inv_def)
  show ?thesis using c1 c2 c3 c4 c5 by (simp add: pool_inv_def)
qed

lemma process_job_failed_path:
  assumes cause: "acquire_error (je_launch env) w (job_account_id job) = Some m \<or>
      (acquire_error (je_launch env) w (job_account_id job) = None \<and>
       automateChat (job_provider job) (je_page env) (job_prompt job) = Inl m)"
  shows "\<exists>w2. db w2 = mark_processing (job_request_id job) (db w) \<and>
    process_job cfg env job w = job_failed cfg env job m w2 \<and> (pool_inv w \<longrightarrow> pool_inv w2)"
proof -
  let ?a = "job_account_id job"
  let ?w1 = "w\<lparr>db := mark_processing (job_request_id job) (db w)\<rparr>"
  obtain g w2 where g: "getBrowserContext (je_launch env) (je_start env) ?a ?w1 = (g, w2)"
    by (cases "getBrowserContext (je_launch env) (je_start env) ?a ?w1")
  have ae: "acquire_error (je_launch env) w ?a = (case g of Inl m \<Rightarrow> Some m | Inr _ \<Rightarrow> None)"
    using acquire_error_of_result [OF g] by simp
  have d2: "db w2 = db ?w1"
    using getBrowserContext_db [of "je_launch env" "je_start env" ?a ?w1] g by simp
  have i2: "pool_inv w \<Longrightarrow> pool_inv w2"
    using getBrowserContext_inv [OF _ g] by simp
  show ?thesis
  proof (cases g)
    case (Inl m')
    with cause ae have "m' = m" by auto
    with Inl g d2 i2 show ?thesis by (intro exI [of _ w2]) (simp add: process_job_acq_fail)
  next
    case (Inr c)
    with cause ae have run: "automateChat (job_provider job) (je_page env) (job_prompt job) = Inl m"
      by auto
    let ?c2 = "snd (run_automation (job_provider job) (je_page env) (job_prompt job) (ensure_page c))"
    let ?w3 = "w2\<lparr>pool := AList.update ?a ?c2 (pool w2)\<rparr>"
    have "process_job cfg env job w = job_failed cfg env job m ?w3"
      using process_job_run [OF g [unfolded Inr]] run by (simp add: Let_def)
    moreover have "pool_inv w \<Longrightarrow> pool_inv ?w3"
    proof -
      assume inv: "pool_inv w"
      have pc: "map_of (pool w2) ?a = Some c"
        using getBrowserContext_Inr_pool g Inr by simp
      have okc: "ctx_ok ?a c" using pool_inv_pooled_live [OF i2 [OF inv] pc] by simp
      have "ctx_ok ?a ?c2 \<and> ctx_handle ?c2 = ctx_handle c"
        using run_automation_ctx [where p = "job_provider job" and pg = "je_page env" and
            prompt = "job_prompt job" and c = "ensure_page c" and a = ?a, OF refl] okc by simp
      then show "pool_inv ?w3" using pool_inv_put [OF i2 [OF inv] pc] by simp
    qed
    ultimately show ?thesis using d2 by (intro exI [of _ ?w3]) simp
  qed
qed

lemma job_success_paths:
  assumes js: "job_success cfg env job r c w = (res, w')" and pg: "0 < ctx_pages c"
  shows "(res = Inr r \<and>
      accounts (db w') = accounts (touch_account (job_account_id job) (je_end env) (db w)) \<and>
      requests (db w') = requests (mark_completed (job_request_id job) (job_provider job) r
         (je_end env - je_start env) (je_end env) (db w)) \<and>
      pool w' = pool w \<and> live w' = live w \<and> disk w' = disk w \<and> next_handle w' = next_handle w)
    \<or> (\<exists>m w3. job_failed cfg env job m w3 = (res, w') \<and> accounts (db w3) = accounts (db w) \<and>
      requests (db w3) = requests (db w) \<and> pool w3 = pool w \<and> live w3 = live w \<and>
      disk w3 = disk w \<and> next_handle w3 = next_handle w)"
    (is "?ok \<or> ?fail")
proof (cases "je_fault env Call_updateQuota")
  case (Some m)
  with js have "job_failed cfg env job m w = (res, w')"
    by (simp add: job_success_def Let_def updateQuota_def)
  then have ?fail by blast
  then show ?thesis ..
next
  case q: None
  let ?d1 = "update_quota_usage (job_account_id job) (job_provider job) (cr_tokens r) (db w)"
  show ?thesis
  proof (cases "je_fault env Call_logUsage_success")
    case (Some m)
    with q js have "job_failed cfg env job m (w\<lparr>db := ?d1\<rparr>) = (res, w')"
      by (simp add: job_success_def Let_def updateQuota_def logUsage_def)
    then have ?fail by (intro exI [of _ m] exI [of _ "w\<lparr>db := ?d1\<rparr>"]) simp
    then show ?thesis ..
  next
    case l: None
    let ?d2 = "?d1\<lparr>usage_logs := usage_logs ?d1 @ [\<lparr>ul_account = job_account_id job,
       ul_provider = job_provider job, ul_request = Some (job_request_id job), ul_tokens = cr_tokens r,
       ul_cost = calculateCost (job_provider job) (cr_tokens r), ul_latency = je_end env - je_start env,
       ul_status = Usage_success, ul_error = None\<rparr>]\<rparr>"
    show ?thesis
    proof (cases "je_fault env Call_saveSession")
      case (Some m)
      with q l js pg have "job_failed cfg env job m (w\<lparr>db := ?d2\<rparr>) = (res, w')"
        by (simp add: job_success_def Let_def updateQuota_def logUsage_def saveBrowserSession_def
            saveSession_def)
      then have ?fail by (intro exI [of _ m] exI [of _ "w\<lparr>db := ?d2\<rparr>"]) simp
      then show ?thesis ..
    next
      case None
      with q l js pg have ?ok
        by (auto simp: job_success_def Let_def updateQuota_def logUsage_def saveBrowserSession_def
            saveSession_def mark_completed_def touch_account_def set_request_def)
      then show ?thesis ..
    qed
  qed
qed

lemma process_job_paths:
  assumes pj: "process_job cfg env job w = (res, w')"
  shows "(\<exists>r. res = Inr r \<and>
      accounts (db w') = accounts (touch_account (job_account_id job) (je_end env) (db w)) \<and>
      requests (db w') = requests (mark_completed (job_request_id job) (job_provider job) r
         (je_end env - je_start env) (je_end env) (mark_processing (job_request_id job) (db w))) \<and>
      (pool_inv w \<longrightarrow> pool_inv w'))
    \<or> (\<exists>m w3. job_failed cfg env job m w3 = (res, w') \<and> accounts (db w3) = accounts (db w) \<and>
      requests (db w3) = requests (mark_processing (job_request_id job) (db w)) \<and>
      (pool_inv w \<longrightarrow> pool_inv w3))"
    (is "?ok \<or> ?fail")
proof -
  let ?a = "job_account_id job"
  let ?w1 = "w\<lparr>db := mark_processing (job_request_id job) (db w)\<rparr>"
  have acc1: "accounts (mark_processing (job_request_id job) (db w)) = accounts (db w)"
    by (simp add: mark_processing_def set_request_def)
  obtain g w2 where g: "getBrowserContext (je_launch env) (je_start env) ?a ?w1 = (g, w2)"
    by (cases "getBrowserContext (je_launch env) (je_start env) ?a ?w1")
  have ae: "acquire_error (je_launch env) w ?a = (case g of Inl m \<Rightarrow> Some m | Inr _ \<Rightarrow> None)"
    using acquire_error_of_result [OF g] by simp
  show ?thesis
  proof (cases "\<exists>m. g = Inl m \<or> (g \<noteq> Inl m \<and>
      automateChat (job_provider job) (je_page env) (job_prompt job) = Inl m)")
    case True
    then obtain m where "acquire_error (je_launch env) w ?a = Some m \<or>
        (acquire_error (je_launch env) w ?a = None \<and>
         automateChat (job_provider job) (je_page env) (job_prompt job) = Inl m)"
      using ae by (cases g) auto
    from process_job_failed_path [OF this, of cfg] obtain w3 where
      "db w3 = mark_processing (job_request_id job) (db w)"
      "process_job cfg env job w = job_failed cfg env job m w3" "pool_inv w \<longrightarrow> pool_inv w3"
      by blast
    with pj acc1 have ?fail by (intro exI [of _ m] exI [of _ w3]) simp
    then show ?thesis ..
  next
    case False
    then obtain c r where gc: "g = Inr c"
      and run: "automateChat (job_provider job) (je_page env) (job_prompt job) = Inr r"
      by (cases g; cases "automateChat (job_provider job) (je_page env) (job_prompt job)") auto
    let ?c2 = "snd (run_automation (job_provider job) (je_page env) (job_prompt job) (ensure_page c))"
    let ?w3 = "w2\<lparr>pool := AList.update ?a ?c2 (pool w2)\<rparr>"
    have d2: "db w2 = db ?w1"
      using getBrowserContext_db [of "je_launch env" "je_start env" ?a ?w1] g by simp
    have js: "job_success cfg env job r ?c2 ?w3 = (res, w')"
      using process_job_run [OF g [unfolded gc]] run pj by (simp add: Let_def)
    have i3: "pool_inv w \<Longrightarrow> pool_inv ?w3"
    proof -
      assume inv: "pool_inv w"
      have i2: "pool_inv w2" using getBrowserContext_inv [OF _ g] inv by simp
      have pc: "map_of (pool w2) ?a = Some c"
        using getBrowserContext_Inr_pool g gc by simp
      have okc: "ctx_ok ?a c" using pool_inv_pooled_live [OF i2 pc] by simp
      have "ctx_ok ?a ?c2 \<and> ctx_handle ?c2 = ctx_handle c"
        using run_automation_ctx [where p = "job_provider job" and pg = "je_page env" and
            prompt = "job_prompt job" and c = "ensure_page c" and a = ?a, OF refl] okc by simp
      then show "pool_inv ?w3" using pool_inv_put [OF i2 pc] by simp
    qed
    have pg: "0 < ctx_pages ?c2" by simp
    from job_success_paths [OF js pg] show ?thesis
    proof
      assume ok: "res = Inr r \<and>
        accounts (db w') = accounts (touch_account ?a (je_end env) (db ?w3)) \<and>
        requests (db w') = requests (mark_completed (job_request_id job) (job_provider job) r
           (je_end env - je_start env) (je_end env) (db ?w3)) \<and>
        pool w' = pool ?w3 \<and> live w' = live ?w3 \<and> disk w' = disk ?w3 \<and> next_handle w' = next_handle ?w3"
      then have "pool_inv w' = pool_inv ?w3" by (intro pool_inv_cong) simp_all
      with ok d2 i3 have ?ok
        by (auto simp: touch_account_def mark_processing_def set_request_def mark_completed_def)
      then show ?thesis ..
    next
      assume "\<exists>m w3. job_failed cfg env job m w3 = (res, w') \<and> accounts (db w3) = accounts (db ?w3) \<and>
        requests (db w3) = requests (db ?w3) \<and> pool w3 = pool ?w3 \<and> live w3 = live ?w3 \<and>
        disk w3 = disk ?w3 \<and> next_handle w3 = next_handle ?w3"
      then obtain m w4 where f: "job_failed cfg env job m w4 = (res, w')"
        and e: "accounts (db w4) = accounts (db ?w3)" "requests (db w4) = requests (db ?w3)"
          "pool w4 = pool ?w3" "live w4 = live ?w3" "disk w4 = disk ?w3" "next_handle w4 = next_handle ?w3"
        by blast
      have "pool_inv w4 = pool_inv ?w3" using e by (intro pool_inv_cong) simp_all
      with f e d2 i3 acc1 have ?fail by (intro exI [of _ m] exI [of _ w4]) simp
      then show ?thesis ..
    qed
  qed
qed

lemma failure_outcome_Inl: "\<exists>m'. failure_outcome env m = Inl m'"
  by (auto simp: failure_outcome_def split: option.splits)

lemma process_job_failure_db:
  assumes cause: "acquire_error (je_launch env) w (job_account_id job) = Some m \<or>
      (acquire_error (je_launch env) w (job_account_id job) = None \<and>
       automateChat (job_provider job) (je_page env) (job_prompt job) = Inl m)"
    and pj: "process_job cfg env job w = (res, w')"
  shows "res = failure_outcome env m
    \<and> requests (db w') = (if je_fault env Call_logUsage_error = None
        then requests (mark_failed (job_request_id job) m (je_end env - je_start env) (je_end env)
               (mark_processing (job_request_id job) (db w)))
        else requests (mark_processing (job_request_id job) (db w)))
    \<and> usage_logs (db w') = usage_logs (db w) @
      (if je_fault env Call_logUsage_error = None
       then [\<lparr>ul_account = job_account_id job, ul_provider = job_provider job,
              ul_request = Some (job_request_id job), ul_tokens = 0, ul_cost = 0,
              ul_latency = je_end env - je_start env, ul_status = Usage_error, ul_error = Some m\<rparr>]
       else [])
    \<and> accounts (db w') =
      (if je_fault env Call_logUsage_error = None \<and> is_auth_error m
          \<and> je_fault env Call_updateAccountStatus = None
       then AList.map_entry (job_account_id job)
              (\<lambda>x. x\<lparr>acc_status := Expired, acc_updated_at := je_end env\<rparr>) (accounts (db w))
       else accounts (db w))"
proof -
  from process_job_failed_path [OF cause, of cfg] obtain w2 where
    d2: "db w2 = mark_processing (job_request_id job) (db w)" and
    jf: "process_job cfg env job w = job_failed cfg env job m w2" by blast
  with pj have jf': "job_failed cfg env job m w2 = (res, w')" by simp
  have "res = failure_outcome env m"
    using job_failed_result [of cfg env job m w2] jf' by simp
  with job_failed_effects [OF jf'] d2 show ?thesis
    by (simp add: mark_processing_def mark_failed_def set_request_def)
qed

text \<open>
  C3: Every run of the job processor, on every path and whatever the environment does, preserves the pool invariant.
\<close>

theorem process_job_preserves_pool_inv:
  "pool_inv w \<Longrightarrow> pool_inv (snd (process_job cfg env job w))"
proof -
  assume inv: "pool_inv w"
  obtain res w' where pj: "process_job cfg env job w = (res, w')"
    by (cases "process_job cfg env job w")
  from process_job_paths [OF pj] have "pool_inv w'"
  proof
    assume "\<exists>m w3. job_failed cfg env job m w3 = (res, w') \<and> accounts (db w3) = accounts (db w) \<and>
      requests (db w3) = requests (mark_processing (job_request_id job) (db w)) \<and>
      (pool_inv w \<longrightarrow> pool_inv w3)"
    with inv show "pool_inv w'" by (blast intro: job_failed_inv)
  qed (use inv in blast)
  with pj show ?thesis by simp
qed

text \<open>
  A job changes the status of at most one account, its own, and only to expired.
\<close>

theorem process_job_status_safety:
  assumes pj: "process_job cfg env job w = (res, w')"
  shows "map_option acc_status (map_of (accounts (db w')) b) =
           map_option acc_status (map_of (accounts (db w)) b)
      \<or> (b = job_account_id job \<and> map_option acc_status (map_of (accounts (db w')) b) = Some Expired)"
  using process_job_paths [OF pj]
proof
  assume "\<exists>r. res = Inr r \<and>
      accounts (db w') = accounts (touch_account (job_account_id job) (je_end env) (db w)) \<and>
      requests (db w') = requests (mark_completed (job_request_id job) (job_provider job) r
         (je_end env - je_start env) (je_end env) (mark_processing (job_request_id job) (db w))) \<and>
      (pool_inv w \<longrightarrow> pool_inv w')"
  then have "accounts (db w') = accounts (touch_account (job_account_id job) (je_end env) (db w))"
    by blast
  then show ?thesis
    by (cases "b = job_account_id job")
       (simp_all add: touch_account_def map_entry_same map_entry_other option.map_comp comp_def)
next
  assume "\<exists>m w3. job_failed cfg env job m w3 = (res, w') \<and> accounts (db w3) = accounts (db w) \<and>
      requests (db w3) = requests (mark_processing (job_request_id job) (db w)) \<and>
      (pool_inv w \<longrightarrow> pool_inv w3)"
  then obtain m w3 where f: "job_failed cfg env job m w3 = (res, w')"
    and a3: "accounts (db w3) = accounts (db w)" by blast
  show ?thesis
    using job_failed_effects [OF f] a3
    by (cases "b = job_account_id job"; cases "map_of (accounts (db w)) b")
       (auto simp: map_entry_same map_entry_other)
qed

text \<open>
  C7: When the error log can be written, a job whose request row exists leaves it in a terminal state reached from processing: completed when the job returns a response, failed when it throws.
\<close>

theorem process_job_lifecycle:
  assumes q: "map_of (requests (db w)) (job_request_id job) = Some q"
    and lf: "je_fault env Call_logUsage_error = None"
    and pj: "process_job cfg env job w = (res, w')"
  shows "\<exists>q'. map_of (requests (db w')) (job_request_id job) = Some q' \<and>
    req_status q' = (case res of Inr _ \<Rightarrow> Completed | Inl _ \<Rightarrow> Failed) \<and>
    req_trans Processing (req_status q')"
  using process_job_paths [OF pj]
proof
  assume "\<exists>r. res = Inr r \<and>
      accounts (db w') = accounts (touch_account (job_account_id job) (je_end env) (db w)) \<and>
      requests (db w') = requests (mark_completed (job_request_id job) (job_provider job) r
         (je_end env - je_start env) (je_end env) (mark_processing (job_request_id job) (db w))) \<and>
      (pool_inv w \<longrightarrow> pool_inv w')"
  with q show ?thesis
    by (auto simp: mark_completed_def mark_processing_def set_request_def map_entry_same
        intro: req_trans.complete)
next
  assume "\<exists>m w3. job_failed cfg env job m w3 = (res, w') \<and> accounts (db w3) = accounts (db w) \<and>
      requests (db w3) = requests (mark_processing (job_request_id job) (db w)) \<and>
      (pool_inv w \<longrightarrow> pool_inv w3)"
  then obtain m w3 where f: "job_failed cfg env job m w3 = (res, w')"
    and r3: "requests (db w3) = requests (mark_processing (job_request_id job) (db w))" by blast
  have "res = failure_outcome env m"
    using job_failed_result [of cfg env job m w3] f by simp
  then obtain m' where res: "res = Inl m'" using failure_outcome_Inl by metis
  have "requests (db w') = requests (mark_failed (job_request_id job) m (je_end env - je_start env)
      (je_end env) (db w3))"
    using job_failed_effects [OF f] lf by simp
  with r3 q show ?thesis
    unfolding res
    by (auto simp: mark_failed_def mark_processing_def set_request_def map_entry_same
        intro: req_trans.fail)
qed

lemma is_auth_error_auth_lost_msg [simp]: "is_auth_error (auth_lost_msg l)"
proof -
  have "auth_lost_msg l = [] @ ''Session expired'' @ '' - not logged in to '' @ l"
    by (simp add: auth_lost_msg_def)
  then show ?thesis by (simp only: is_auth_error_def js_includes_infix simp_thms)
qed

text \<open>
  The message an adapter throws when the login probe fails is classified by the
  dispatcher as an authentication error, for every provider.
\<close>

theorem lost_login_is_auth_error:
  assumes "automateChat p pg prompt = Inl m" "parse_provider p = Some k"
    and "pe_goto pg = None" "\<not> pe_logged_in pg"
  shows "is_auth_error m"
  using assms by (auto simp: automateChat_parse adapter_kind_label_defs)

text \<open>
  C8: When the page loads but the adapter's login probe fails, for any of the four
  providers, the job throws the adapter's message, marks the account expired and the
  request failed with that message as its error.
\<close>

theorem process_job_auth_lost:
  assumes acq: "acquire_error (je_launch env) w (job_account_id job) = None"
    and prov: "parse_provider (job_provider job) = Some k"
    and probe: "pe_goto (je_page env) = None" "\<not> pe_logged_in (je_page env)"
    and ok: "je_fault env Call_logUsage_error = None" "je_fault env Call_updateAccountStatus = None"
    and pj: "process_job cfg env job w = (res, w')"
  shows "res = Inl (auth_lost_msg (kind_label k))
    \<and> map_option acc_status (map_of (accounts (db w')) (job_account_id job)) =
        map_option (\<lambda>_. Expired) (map_of (accounts (db w)) (job_account_id job))
    \<and> map_option req_status (map_of (requests (db w')) (job_request_id job)) =
        map_option (\<lambda>_. Failed) (map_of (requests (db w)) (job_request_id job))
    \<and> map_option req_error (map_of (requests (db w')) (job_request_id job)) =
        map_option (\<lambda>_. Some (auth_lost_msg (kind_label k))) (map_of (requests (db w)) (job_request_id job))"
proof -
  have run: "automateChat (job_provider job) (je_page env) (job_prompt job) = Inl (auth_lost_msg (kind_label k))"
    using prov probe by (simp add: automateChat_parse adapter_kind_label_defs thrw_def)
  have "is_auth_error (auth_lost_msg (kind_label k))" by simp
  then show ?thesis
    using process_job_failure_db [OF disjI2 [OF conjI [OF acq run]] pj] ok
    by (simp add: failure_outcome_def mark_failed_def mark_processing_def set_request_def
        map_entry_same option.map_comp comp_def)
qed

text \<open>
  C11: When saving the session fails after the quota and the success log were written, the request is marked failed although it was answered, the quota stays charged, and two usage logs (success, then error) are recorded for it.
\<close>

theorem process_job_save_failure:
  assumes acq: "acquire_error (je_launch env) w (job_account_id job) = None"
    and run: "automateChat (job_provider job) (je_page env) (job_prompt job) = Inr r"
    and ok: "je_fault env Call_updateQuota = None" "je_fault env Call_logUsage_success = None"
      "je_fault env Call_logUsage_error = None"
    and save: "je_fault env Call_saveSession = Some e"
    and pj: "process_job cfg env job w = (res, w')"
  shows "res = failure_outcome env e
    \<and> map (\<lambda>l. (ul_request l, ul_status l)) (usage_logs (db w')) =
        map (\<lambda>l. (ul_request l, ul_status l)) (usage_logs (db w)) @
        [(Some (job_request_id job), Usage_success), (Some (job_request_id job), Usage_error)]
    \<and> quotas (db w') = quotas (update_quota_usage (job_account_id job) (job_provider job)
        (cr_tokens r) (db w))
    \<and> map_option req_status (map_of (requests (db w')) (job_request_id job)) =
        map_option (\<lambda>_. Failed) (map_of (requests (db w)) (job_request_id job))"
proof -
  have "job_outcome env job w = failure_outcome env e"
    using acq run ok save by (simp add: job_outcome_def)
  then have res: "res = failure_outcome env e"
    using process_job_fst [of cfg env job w] pj by simp
  let ?w1 = "w\<lparr>db := mark_processing (job_request_id job) (db w)\<rparr>"
  obtain c w2 where g: "getBrowserContext (je_launch env) (je_start env) (job_account_id job) ?w1
      = (Inr c, w2)"
  proof -
    have "acquire_error (je_launch env) ?w1 (job_account_id job) = None" using acq by simp
    from getBrowserContext_acquire_ok [OF this, of "je_start env"] that show ?thesis by blast
  qed
  have d2: "db w2 = db ?w1"
    using getBrowserContext_db [of "je_launch env" "je_start env" "job_account_id job" ?w1] g by simp
  let ?c2 = "snd (run_automation (job_provider job) (je_page env) (job_prompt job) (ensure_page c))"
  let ?w3 = "w2\<lparr>pool := AList.update (job_account_id job) ?c2 (pool w2)\<rparr>"
  let ?d1 = "update_quota_usage (job_account_id job) (job_provider job) (cr_tokens r) (db ?w3)"
  let ?d2 = "?d1\<lparr>usage_logs := usage_logs ?d1 @ [\<lparr>ul_account = job_account_id job,
       ul_provider = job_provider job, ul_request = Some (job_request_id job), ul_tokens = cr_tokens r,
       ul_cost = calculateCost (job_provider job) (cr_tokens r), ul_latency = je_end env - je_start env,
       ul_status = Usage_success, ul_error = None\<rparr>]\<rparr>"
  have "process_job cfg env job w = job_success cfg env job r ?c2 ?w3"
    using process_job_run [OF g] run by (simp add: Let_def)
  also have "\<dots> = job_failed cfg env job e (?w3\<lparr>db := ?d2\<rparr>)"
    using ok save by (simp add: job_success_def Let_def updateQuota_def logUsage_def
        saveBrowserSession_def saveSession_def)
  finally have "job_failed cfg env job e (?w3\<lparr>db := ?d2\<rparr>) = (res, w')" using pj by simp
  from job_failed_effects [OF this] d2 ok show ?thesis
    using res by (simp add: update_quota_usage_def mark_failed_def mark_processing_def set_request_def
        map_entry_same option.map_comp comp_def)
qed

text \<open>
  C12: When the job fails and writing the error usage log also fails, the request row stays in processing: the catch block throws before it marks the request failed.
\<close>

theorem process_job_stuck_processing:
  assumes cause: "acquire_error (je_launch env) w (job_account_id job) = Some m \<or>
      (acquire_error (je_launch env) w (job_account_id job) = None \<and>
       automateChat (job_provider job) (je_page env) (job_prompt job) = Inl m)"
    and lf: "je_fault env Call_logUsage_error = Some e"
    and pj: "process_job cfg env job w = (res, w')"
  shows "res = Inl e \<and>
    map_option req_status (map_of (requests (db w')) (job_request_id job)) =
      map_option (\<lambda>_. Processing) (map_of (requests (db w)) (job_request_id job))"
  using process_job_failure_db [OF cause pj] lf
  by (simp add: failure_outcome_def mark_processing_def set_request_def map_entry_same
      option.map_comp comp_def)

text \<open>
  C13: A completed request whose job is delivered again and fails is turned into a failed one, a transition the lifecycle of a request does not have.
\<close>

theorem process_job_reopens_completed:
  assumes q: "map_of (requests (db w)) (job_request_id job) = Some q" "req_status q = Completed"
    and cause: "acquire_error (je_launch env) w (job_account_id job) = Some m \<or>
      (acquire_error (je_launch env) w (job_account_id job) = None \<and>
       automateChat (job_provider job) (je_page env) (job_prompt job) = Inl m)"
    and lf: "je_fault env Call_logUsage_error = None"
    and pj: "process_job cfg env job w = (res, w')"
  shows "map_option req_status (map_of (requests (db w')) (job_request_id job)) = Some Failed
    \<and> \<not> req_trans\<^sup>*\<^sup>* Completed Failed"
proof -
  have "\<not> req_trans\<^sup>*\<^sup>* Completed Failed"
  proof
    assume "req_trans\<^sup>*\<^sup>* Completed Failed"
    then show False
      by (cases rule: converse_rtranclpE) (auto elim: req_trans.cases)
  qed
  with process_job_failure_db [OF cause pj] q lf show ?thesis
    by (simp add: mark_failed_def mark_processing_def set_request_def map_entry_same)
qed

text \<open>
  The result of a job does not depend on the screenshot configuration or on the outcome of the screenshot.
\<close>

theorem process_job_screenshot_independent:
  "fst (process_job cfg env job w) =
   fst (process_job (cfg\<lparr>cfg_screenshot_on_error := b\<rparr>) (env\<lparr>je_shot := s\<rparr>) job w)"
proof -
  have "je_fault (env\<lparr>je_shot := s\<rparr>) = je_fault env" "je_page (env\<lparr>je_shot := s\<rparr>) = je_page env"
    "je_launch (env\<lparr>je_shot := s\<rparr>) = je_launch env" by simp_all
  then have "job_outcome env job w = job_outcome (env\<lparr>je_shot := s\<rparr>) job w"
    unfolding job_outcome_def failure_outcome_def by (simp only:)
  then show ?thesis by (simp only: process_job_fst)
qed

text \<open>
  C1: The job processor refines its contract \<open>job_outcome\<close>: the value a job returns is
  determined by the acquisition, the adapter and the database faults alone, as
  \<open>job_outcome\<close> states it without the pool, the screenshot or the tables.
\<close>

theorem process_job_outcome: "fst (process_job cfg env job w) = job_outcome env job w"
  by (rule process_job_fst)

subsection \<open>The primary keys under a job\<close>

lemma db_keys_set_request [db_keys_simps]: "db_keys (set_request rid f d) = db_keys d"
  by (simp add: set_request_def db_keys_def)

lemma db_keys_marks [db_keys_simps]:
  "db_keys (mark_processing rid d) = db_keys d"
  "db_keys (mark_completed rid p r lat now d) = db_keys d"
  "db_keys (mark_failed rid m lat now d) = db_keys d"
  "db_keys (touch_account a now d) = db_keys d"
  by (simp_all add: mark_processing_def mark_completed_def mark_failed_def db_keys_set_request)
    (simp add: touch_account_def db_keys_def)

lemma db_keys_capture_failure [db_keys_simps]:
  "db_keys (db (capture_failure cfg env a rid w)) = db_keys (db w)"
  by (simp add: db_keys_def)

lemma job_failed_keys:
  assumes jf: "job_failed cfg env job m w = (r, w')"
  shows "db_keys (db w') = db_keys (db w)"
proof -
  let ?w1 = "capture_failure cfg env (job_account_id job) (job_request_id job) w"
  let ?lat = "je_end env - je_start env"
  show ?thesis
  proof (cases "logUsage (je_fault env Call_logUsage_error) (job_account_id job) (job_provider job)
      (Some (job_request_id job)) 0 ?lat Usage_error (Some m) (db ?w1)")
    case (Inl m')
    with jf show ?thesis by (auto simp: job_failed_def Let_def db_keys_capture_failure)
  next
    case l: (Inr d)
    let ?d' = "mark_failed (job_request_id job) m ?lat (je_end env) d"
    have kd: "db_keys ?d' = db_keys (db w)"
      using db_keys_logUsage [OF l] by (simp add: db_keys_marks db_keys_capture_failure)
    show ?thesis
    proof (cases "is_auth_error m \<and> (\<exists>d''. updateAccountStatus (je_fault env Call_updateAccountStatus)
        (job_account_id job) Expired (je_end env) ?d' = Inr d'')")
      case True
      then obtain d'' where u: "updateAccountStatus (je_fault env Call_updateAccountStatus)
          (job_account_id job) Expired (je_end env) ?d' = Inr d''" and ae: "is_auth_error m" by blast
      with jf l have "db w' = d''" by (auto simp: job_failed_def Let_def)
      with db_keys_updateAccountStatus [OF u] kd show ?thesis by simp
    next
      case False
      with jf l have "db w' = ?d'"
        by (auto simp: job_failed_def Let_def split: sum.splits if_splits)
      with kd show ?thesis by simp
    qed
  qed
qed

lemma saveBrowserSession_wf:
  "db_wf (db w) \<Longrightarrow> saveBrowserSession e now a c w = (r, w') \<Longrightarrow> db_wf (db w')"
  by (auto simp: saveBrowserSession_def split: if_splits sum.splits dest: db_wf_saveSession)

lemma job_failed_wf:
  "job_failed cfg env job m v = (res, w') \<Longrightarrow> db_wf (db v) \<Longrightarrow> db_wf (db w')"
  by (rule db_wf_keysI, assumption, rule job_failed_keys)

lemma job_success_wf:
  assumes wf: "db_wf (db w)" and js: "job_success cfg env job r c w = (res, w')"
  shows "db_wf (db w')"
proof -
  let ?a = "job_account_id job" and ?p = "job_provider job" and ?lat = "je_end env - je_start env"
  show ?thesis
  proof (cases "updateQuota (je_fault env Call_updateQuota) ?a ?p (cr_tokens r) (db w)")
    case (Inl m)
    with js have "job_failed cfg env job m w = (res, w')" by (simp add: job_success_def Let_def)
    then show ?thesis using wf by (rule job_failed_wf)
  next
    case q: (Inr d1)
    have "d1 = update_quota_usage ?a ?p (cr_tokens r) (db w)"
      using q by (auto simp: updateQuota_def thrw_def split: option.splits)
    then have w1: "db_wf d1"
      by (intro db_wf_keysI [OF wf]) (simp add: db_keys_update_quota_usage)
    show ?thesis
    proof (cases "logUsage (je_fault env Call_logUsage_success) ?a ?p (Some (job_request_id job))
        (cr_tokens r) ?lat Usage_success None d1")
      case (Inl m)
      with js q have "job_failed cfg env job m (w\<lparr>db := d1\<rparr>) = (res, w')"
        by (simp add: job_success_def Let_def)
      then show ?thesis by (rule job_failed_wf) (simp add: w1)
    next
      case l: (Inr d2)
      have w2: "db_wf (db (w\<lparr>db := d2\<rparr>))"
        using db_wf_keysI [OF w1 db_keys_logUsage [OF l]] by simp
      obtain s w3 where sv: "saveBrowserSession (je_fault env Call_saveSession) (je_end env) ?a c
          (w\<lparr>db := d2\<rparr>) = (s, w3)"
        by (cases "saveBrowserSession (je_fault env Call_saveSession) (je_end env) ?a c (w\<lparr>db := d2\<rparr>)")
      have w3: "db_wf (db w3)" by (rule saveBrowserSession_wf [OF w2 sv])
      show ?thesis
      proof (cases s)
        case (Inl m)
        with js q l sv have "job_failed cfg env job m w3 = (res, w')"
          by (simp add: job_success_def Let_def)
        then show ?thesis using w3 by (rule job_failed_wf)
      next
        case (Inr u)
        with js q l sv have "db w' = mark_completed (job_request_id job) ?p r ?lat (je_end env)
            (touch_account ?a (je_end env) (db w3))"
          by (auto simp: job_success_def Let_def)
        then show ?thesis by (intro db_wf_keysI [OF w3]) (simp add: db_keys_marks)
      qed
    qed
  qed
qed

lemma process_job_wf:
  assumes wf: "db_wf (db w)" and pj: "process_job cfg env job w = (res, w')"
  shows "db_wf (db w')"
proof -
  let ?w1 = "w\<lparr>db := mark_processing (job_request_id job) (db w)\<rparr>"
  have w1: "db_wf (mark_processing (job_request_id job) (db w))"
    by (rule db_wf_keysI [OF wf]) (simp add: db_keys_marks)
  obtain g w2 where g: "getBrowserContext (je_launch env) (je_start env) (job_account_id job) ?w1 = (g, w2)"
    by (cases "getBrowserContext (je_launch env) (je_start env) (job_account_id job) ?w1")
  have d2: "db w2 = db ?w1"
    using getBrowserContext_db [of "je_launch env" "je_start env" "job_account_id job" ?w1] g by simp
  show ?thesis
  proof (cases g)
    case (Inl m)
    with pj g have "job_failed cfg env job m w2 = (res, w')" by (simp add: process_job_acq_fail)
    then show ?thesis by (rule job_failed_wf) (simp add: w1 d2)
  next
    case (Inr c)
    let ?c2 = "snd (run_automation (job_provider job) (je_page env) (job_prompt job) (ensure_page c))"
    let ?w3 = "w2\<lparr>pool := AList.update (job_account_id job) ?c2 (pool w2)\<rparr>"
    have w3: "db_wf (db ?w3)" using w1 d2 by simp
    show ?thesis
    proof (cases "automateChat (job_provider job) (je_page env) (job_prompt job)")
      case (Inl m)
      with pj g Inr have "job_failed cfg env job m ?w3 = (res, w')"
        by (simp add: process_job_run Let_def)
      then show ?thesis using w3 by (rule job_failed_wf)
    next
      case (Inr r)
      with pj g \<open>g = Inr c\<close> have "job_success cfg env job r ?c2 ?w3 = (res, w')"
        by (simp add: process_job_run Let_def)
      with w3 show ?thesis by (rule job_success_wf)
    qed
  qed
qed

end
