(* ===== verification/Intake.thy ===== *)
theory Intake
  imports Dispatcher
begin

text \<open>
  The intake endpoint \<open>POST /api/v1/chat\<close> of \<open>src/supabase/functions/chat/index.ts\<close>:
  the request handler passed to \<open>serve\<close>, \<open>hashAPIKey\<close>, \<open>checkRateLimit\<close>,
  \<open>selectBestAccount\<close> and \<open>getAccountIds\<close>. The state is the database, the table
  \<open>api_keys\<close> and the Redis store; Redis keeps string counters with an optional expiry
  (in seconds) and lists, with the semantics of \<open>GET\<close>, \<open>SETEX\<close>, \<open>INCR\<close> and
  \<open>LPUSH\<close>. A list element is the job message the handler serialises. What the request
  and the platform decide is a field of \<open>intake_env\<close>: the method, the
  \<open>Authorization\<close> header, the SHA-256 digest function, the clock, the parsed body (or
  the error of \<open>req.json()\<close>), the UUID, and the errors of the insert and of the push.
  The SQL function \<open>get_available_account\<close> is not part of the repository; it is modelled
  from the specification: an active account of the caller for the provider whose daily
  quotas are not exhausted.
\<close>

record api_key =
  ak_user :: string
  ak_hash :: string
  ak_revoked :: bool
  ak_rate_limit_per_minute :: int
  ak_expires_at :: "time option"
  ak_last_used_at :: "time option"

record redis =
  rd_strings :: "(string, int \<times> int option) table"
  rd_lists :: "(string, chat_request_job list) table"

record istate =
  is_db :: db
  is_keys :: "(string, api_key) table"
  is_redis :: redis

record chat_body =
  cb_prompt :: "string option"
  cb_provider :: "string option"
  cb_priority :: "string option"

record intake_env =
  ie_method :: string
  ie_auth :: "string option"
  ie_sha256 :: "string \<Rightarrow> nat list"
  ie_now :: time
  ie_body :: "chat_body res"
  ie_uuid :: string
  ie_insert_error :: "string option"
  ie_lpush_error :: "string option"

datatype outcome = Out_preflight | Out_rate_limited time | Out_failed string
  | Out_queued string string "(string, int) table"

subsection \<open>Redis\<close>

definition redis_get :: "string \<Rightarrow> int \<Rightarrow> redis \<Rightarrow> int option" where
  "redis_get k now r =
     (case map_of (rd_strings r) k of
        Some (v, Some e) \<Rightarrow> if now < e then Some v else None
      | Some (v, None) \<Rightarrow> Some v
      | None \<Rightarrow> None)"

definition redis_setex :: "string \<Rightarrow> int \<Rightarrow> int \<Rightarrow> int \<Rightarrow> redis \<Rightarrow> redis" where
  "redis_setex k ttl v now r = r\<lparr>rd_strings := AList.update k (v, Some (now + ttl)) (rd_strings r)\<rparr>"

text \<open>\<open>INCR\<close> keeps the expiry of a live key and creates a persistent key with value 1 otherwise.\<close>

definition redis_incr :: "string \<Rightarrow> int \<Rightarrow> redis \<Rightarrow> redis" where
  "redis_incr k now r =
     (case redis_get k now r of
        Some v \<Rightarrow> r\<lparr>rd_strings := AList.update k (v + 1, snd (the (map_of (rd_strings r) k))) (rd_strings r)\<rparr>
      | None \<Rightarrow> r\<lparr>rd_strings := AList.update k (1, None) (rd_strings r)\<rparr>)"

definition redis_lpush :: "string \<Rightarrow> chat_request_job \<Rightarrow> redis \<Rightarrow> redis" where
  "redis_lpush k x r =
     r\<lparr>rd_lists := AList.update k (x # (case map_of (rd_lists r) k of Some xs \<Rightarrow> xs | None \<Rightarrow> []))
        (rd_lists r)\<rparr>"

subsection \<open>\<open>hashAPIKey\<close>\<close>

text \<open>\<open>b.toString(16).padStart(2, '0')\<close> for a byte \<open>b\<close>.\<close>

definition hex_digit :: "nat \<Rightarrow> char" where
  "hex_digit n = (if n < 10 then char_of (48 + n) else char_of (87 + n))"

definition hex_byte :: "nat \<Rightarrow> string" where
  "hex_byte b = [hex_digit (b div 16), hex_digit (b mod 16)]"

definition hashAPIKey :: "(string \<Rightarrow> nat list) \<Rightarrow> string \<Rightarrow> string" where
  "hashAPIKey sha key = concat (map hex_byte (sha key))"

subsection \<open>\<open>checkRateLimit\<close>\<close>

record rate_limit =
  rl_exceeded :: bool
  rl_remaining :: int
  rl_reset_at :: time

definition rate_key :: "string \<Rightarrow> int \<Rightarrow> string" where
  "rate_key kid window = ''ratelimit:'' @ kid @ '':'' @ dec_string (nat window)"

text \<open>
  The read of the counter (lines 185 to 189) and what follows it (lines 191 to 202):
  between the two another request may run.
\<close>

definition rl_count :: "string \<Rightarrow> int \<Rightarrow> time \<Rightarrow> redis \<Rightarrow> int" where
  "rl_count kid win now_ms r =
     (let now = now_ms div 1000; window = now div win
      in case redis_get (rate_key kid window) now r of Some v \<Rightarrow> v | None \<Rightarrow> 0)"

definition rl_finish :: "string \<Rightarrow> int \<Rightarrow> int \<Rightarrow> time \<Rightarrow> int \<Rightarrow> redis \<Rightarrow> rate_limit \<times> redis" where
  "rl_finish kid limit win now_ms count r =
     (let now = now_ms div 1000; window = now div win; key = rate_key kid window;
          reset = (window + 1) * win * 1000
      in if count = 0
         then (\<lparr>rl_exceeded = False, rl_remaining = limit - 1, rl_reset_at = reset\<rparr>,
               redis_setex key win 1 now r)
         else if limit \<le> count
         then (\<lparr>rl_exceeded = True, rl_remaining = 0, rl_reset_at = reset\<rparr>, r)
         else (\<lparr>rl_exceeded = False, rl_remaining = limit - count - 1, rl_reset_at = reset\<rparr>,
               redis_incr key now r))"

definition checkRateLimit :: "string \<Rightarrow> int \<Rightarrow> int \<Rightarrow> time \<Rightarrow> redis \<Rightarrow> rate_limit \<times> redis" where
  "checkRateLimit kid limit win now_ms r = rl_finish kid limit win now_ms (rl_count kid win now_ms r) r"

text \<open>
  Requests of one key handled at once by several isolates of the edge function: each
  thread reads the counter, then finishes on what it read.
\<close>

datatype rl_pc = RL_idle | RL_read int | RL_done bool

record rl_sys =
  rs_redis :: redis
  rs_pc :: "nat \<Rightarrow> rl_pc"

inductive rl_step :: "string \<Rightarrow> int \<Rightarrow> int \<Rightarrow> time \<Rightarrow> rl_sys \<Rightarrow> rl_sys \<Rightarrow> bool"
  for kid limit win now where
  read: "rs_pc s t = RL_idle \<Longrightarrow>
    rl_step kid limit win now s (s\<lparr>rs_pc := (rs_pc s)(t := RL_read (rl_count kid win now (rs_redis s)))\<rparr>)"
| finish: "rs_pc s t = RL_read c \<Longrightarrow> rl_finish kid limit win now c (rs_redis s) = (rl, r') \<Longrightarrow>
    rl_step kid limit win now s \<lparr>rs_redis = r', rs_pc = (rs_pc s)(t := RL_done (\<not> rl_exceeded rl))\<rparr>"

subsection \<open>\<open>selectBestAccount\<close>\<close>

definition account_available :: "string \<Rightarrow> string \<Rightarrow> db \<Rightarrow> string \<times> account \<Rightarrow> bool" where
  "account_available p u d x \<longleftrightarrow>
     (case x of (a, acc) \<Rightarrow> acc_user acc = u \<and> acc_provider acc = p \<and> acc_status acc = Active \<and>
        list_all (\<lambda>(k, q). q_account q = a \<and> q_provider q = p \<longrightarrow> q_daily_used q < q_daily_limit q)
          (quotas d))"

definition get_available_account :: "string \<Rightarrow> string \<Rightarrow> db \<Rightarrow> string option" where
  "get_available_account p u d = map_option fst (find (account_available p u d) (accounts d))"

definition provider_order :: "string list" where
  "provider_order = [''deepseek'', ''gemini'', ''chatgpt'', ''claude'']"

text \<open>The auto loop returns its result and the providers it queried, in order.\<close>

fun select_auto :: "string \<Rightarrow> db \<Rightarrow> string list \<Rightarrow> (string option \<times> string) \<times> string list" where
  "select_auto u d [] = ((None, ''none''), [])"
| "select_auto u d (p # ps) =
     (case get_available_account p u d of
        Some a \<Rightarrow> ((Some a, p), [p])
      | None \<Rightarrow> (case select_auto u d ps of (r, tried) \<Rightarrow> (r, p # tried)))"

definition selectBestAccount :: "string \<Rightarrow> string \<Rightarrow> db \<Rightarrow> (string option \<times> string) \<times> string list" where
  "selectBestAccount u p d =
     (if p \<noteq> ''auto'' then ((get_available_account p u d, p), [p])
      else select_auto u d provider_order)"

subsection \<open>The handler\<close>

text \<open>\<open>req.headers.get('Authorization')?.replace('Bearer ', '')\<close>, then \<open>if (!apiKey)\<close>.\<close>

fun replace_first :: "string \<Rightarrow> string \<Rightarrow> string" where
  "replace_first [] pat = []"
| "replace_first (c # s) pat =
     (if take (length pat) (c # s) = pat then drop (length pat) (c # s) else c # replace_first s pat)"

definition auth_key :: "string option \<Rightarrow> string option" where
  "auth_key h = (case h of None \<Rightarrow> None
     | Some v \<Rightarrow> let k = replace_first v ''Bearer '' in if k = [] then None else Some k)"

text \<open>\<open>.eq('key_hash', h).eq('revoked', false).single()\<close>: exactly one row, or an error.\<close>

definition find_api_key :: "string \<Rightarrow> (string, api_key) table \<Rightarrow> (string \<times> api_key) option" where
  "find_api_key h keys =
     (case filter (\<lambda>(i, k). ak_hash k = h \<and> \<not> ak_revoked k) keys of [x] \<Rightarrow> Some x | _ \<Rightarrow> None)"

definition validate_prompt :: "string option \<Rightarrow> string option" where
  "validate_prompt p =
     (case p of None \<Rightarrow> Some ''Missing prompt''
      | Some s \<Rightarrow> if s = [] then Some ''Missing prompt''
                 else if 10000 < length s then Some ''Prompt too long (max 10,000 characters)''
                 else None)"

definition priority_of :: "string option \<Rightarrow> int" where
  "priority_of p = (if p = Some ''high'' then 1 else if p = Some ''low'' then 10 else 5)"

definition request_id :: "string \<Rightarrow> string" where
  "request_id uuid = ''req_'' @ take 16 (filter (\<lambda>c. c \<noteq> CHR ''-'') uuid)"

definition getAccountIds :: "string \<Rightarrow> db \<Rightarrow> string list" where
  "getAccountIds u d = map fst (filter (\<lambda>(a, x). acc_user x = u) (accounts d))"

definition quota_remaining :: "string \<Rightarrow> db \<Rightarrow> (string, int) table" where
  "quota_remaining u d =
     fold (\<lambda>(k, q) acc. AList.update (q_provider q) (q_daily_limit q - q_daily_used q) acc)
       (filter (\<lambda>(k, q). q_account q \<in> set (getAccountIds u d)) (quotas d)) []"

definition job_list_key :: string where
  "job_list_key = ''bullmq:chat-requests:wait''"

text \<open>The row inserted into \<open>requests\<close> (lines 94 to 104).\<close>

definition new_request_row :: "string \<Rightarrow> string \<Rightarrow> string \<Rightarrow> string \<Rightarrow> int \<Rightarrow> request" where
  "new_request_row u prompt provider a prio =
     \<lparr>req_user = u, req_prompt = prompt,
      req_provider_requested = (if provider = ''auto'' then None else Some provider),
      req_provider_used = None, req_account = Some a, req_status = Queued,
      req_priority = prio, req_response = None, req_tokens = None, req_latency = None,
      req_error = None, req_completed_at = None\<rparr>"

text \<open>The job message pushed to Redis (lines 111 to 124).\<close>

definition job_message :: "string \<Rightarrow> string \<Rightarrow> string \<Rightarrow> string \<Rightarrow> int \<Rightarrow> chat_request_job" where
  "job_message rid a actual prompt prio =
     \<lparr>job_request_id = rid, job_account_id = a, job_provider = actual,
      job_prompt = prompt, job_priority = prio\<rparr>"

text \<open>
  From the insert of the request to the response (lines 92 to 159): the insert, the push,
  the quota summary and the update of \<open>last_used_at\<close>.
\<close>

definition enqueue_request ::
  "intake_env \<Rightarrow> string \<Rightarrow> string \<Rightarrow> string \<Rightarrow> string \<Rightarrow> string \<Rightarrow> string \<Rightarrow> int \<Rightarrow> istate \<Rightarrow> outcome \<times> istate" where
  "enqueue_request env u kid a provider actual prompt prio st =
     (let rid = request_id (ie_uuid env); row = new_request_row u prompt provider a prio
      in if ie_insert_error env \<noteq> None \<or> map_of (requests (is_db st)) rid \<noteq> None
         then (Out_failed (case ie_insert_error env of Some m \<Rightarrow> m
                        | None \<Rightarrow> ''duplicate key value violates unique constraint''), st)
         else
         let st2 = st\<lparr>is_db := (is_db st)\<lparr>requests := requests (is_db st) @ [(rid, row)]\<rparr>\<rparr>
         in case ie_lpush_error env of
              Some m \<Rightarrow> (Out_failed m, st2)
            | None \<Rightarrow>
              let st3 = st2\<lparr>is_redis := redis_lpush job_list_key
                     (job_message rid a actual prompt prio) (is_redis st2)\<rparr>;
                  qr = quota_remaining u (is_db st3);
                  st4 = st3\<lparr>is_keys := AList.map_entry kid
                     (\<lambda>k. k\<lparr>ak_last_used_at := Some (ie_now env)\<rparr>) (is_keys st3)\<rparr>
              in (Out_queued rid actual qr, st4))"

text \<open>The request once the key is known and the rate limit passed (lines 70 to 89).\<close>

definition accept_request ::
  "intake_env \<Rightarrow> string \<Rightarrow> api_key \<Rightarrow> chat_body \<Rightarrow> istate \<Rightarrow> outcome \<times> istate" where
  "accept_request env kid kd body st =
     (case validate_prompt (cb_prompt body) of
        Some m \<Rightarrow> (Out_failed m, st)
      | None \<Rightarrow>
      let provider = (case cb_provider body of Some p \<Rightarrow> if p = [] then ''auto'' else p | None \<Rightarrow> ''auto'');
          sel = fst (selectBestAccount (ak_user kd) provider (is_db st))
      in case fst sel of
           None \<Rightarrow> (Out_failed ''No available accounts - all quotas exceeded or no accounts configured'', st)
         | Some a \<Rightarrow> enqueue_request env (ak_user kd) kid a provider (snd sel) (the (cb_prompt body))
                      (priority_of (cb_priority body)) st)"

definition chat_handler :: "intake_env \<Rightarrow> istate \<Rightarrow> outcome \<times> istate" where
  "chat_handler env st =
     (if ie_method env = ''OPTIONS'' then (Out_preflight, st)
      else case auth_key (ie_auth env) of
        None \<Rightarrow> (Out_failed ''Missing API key'', st)
      | Some key \<Rightarrow>
        case find_api_key (hashAPIKey (ie_sha256 env) key) (is_keys st) of
          None \<Rightarrow> (Out_failed ''Invalid API key'', st)
        | Some (kid, kd) \<Rightarrow>
          case checkRateLimit kid 100 60 (ie_now env) (is_redis st) of
            (rl, r1) \<Rightarrow>
              let st1 = st\<lparr>is_redis := r1\<rparr>
              in if rl_exceeded rl then (Out_rate_limited (rl_reset_at rl), st1)
                 else case ie_body env of
                        Inl m \<Rightarrow> (Out_failed m, st1)
                      | Inr body \<Rightarrow> accept_request env kid kd body st1)"

definition http_status :: "outcome \<Rightarrow> nat" where
  "http_status r = (case r of Out_preflight \<Rightarrow> 200 | Out_rate_limited _ \<Rightarrow> 429
     | Out_failed _ \<Rightarrow> 400 | Out_queued _ _ _ \<Rightarrow> 202)"

text \<open>
  Reading the hexadecimal digest back, and the sequential composition of rate-limit
  checks: the number of requests admitted out of a list of request times.
\<close>

definition hex_val :: "char \<Rightarrow> nat" where
  "hex_val c = (let n = of_char c in if n < 58 then n - 48 else n - 87)"

fun unhex :: "string \<Rightarrow> nat list" where
  "unhex (a # b # s) = (16 * hex_val a + hex_val b) # unhex s"
| "unhex _ = []"

fun rl_admitted :: "string \<Rightarrow> int \<Rightarrow> int \<Rightarrow> time list \<Rightarrow> redis \<Rightarrow> nat \<times> redis" where
  "rl_admitted kid limit win [] r = (0, r)"
| "rl_admitted kid limit win (t # ts) r =
     (case checkRateLimit kid limit win t r of
        (rl, r1) \<Rightarrow> (case rl_admitted kid limit win ts r1 of
          (n, r2) \<Rightarrow> (if rl_exceeded rl then n else Suc n, r2)))"

lemmas intake_defs [model_defs] = redis_get_def redis_setex_def redis_incr_def redis_lpush_def
  hex_digit_def hex_byte_def hashAPIKey_def rate_key_def rl_count_def rl_finish_def
  checkRateLimit_def
  account_available_def get_available_account_def provider_order_def selectBestAccount_def
  auth_key_def find_api_key_def validate_prompt_def priority_of_def request_id_def
  getAccountIds_def quota_remaining_def job_list_key_def new_request_row_def job_message_def
  enqueue_request_def accept_request_def chat_handler_def
  http_status_def

text \<open>
  The worker consumes the BullMQ queue \<open>chat-requests\<close> (\<open>worker.ts\<close>, lines 28 and 29);
  BullMQ keeps the waiting jobs of a queue \<open>q\<close> under the Redis key \<open>bull:q:wait\<close>.
\<close>

definition worker_queue :: string where
  "worker_queue = ''chat-requests''"

definition bull_wait_key :: "string \<Rightarrow> string" where
  "bull_wait_key q = ''bull:'' @ q @ '':wait''"

text \<open>The invariant of the rate-limit counter of one window, and two states that agree
  except on the Redis counters.\<close>

definition rl_inv :: "string \<Rightarrow> int \<Rightarrow> int \<Rightarrow> int \<Rightarrow> nat \<Rightarrow> redis \<Rightarrow> bool" where
  "rl_inv kid limit win w k r \<longleftrightarrow>
     (if k = 0 then map_of (rd_strings r) (rate_key kid w) = None
      else int k \<le> limit \<and>
        (\<exists>e. map_of (rd_strings r) (rate_key kid w) = Some (int k, Some e) \<and> (w + 1) * win \<le> e))"

definition same_but_counters :: "istate \<Rightarrow> istate \<Rightarrow> bool" where
  "same_but_counters st st1 \<longleftrightarrow>
     is_db st1 = is_db st \<and> is_keys st1 = is_keys st \<and> rd_lists (is_redis st1) = rd_lists (is_redis st)"

subsection \<open>Properties of the intake\<close>

lemma hex_val_digit [simp]: "n < 16 \<Longrightarrow> hex_val (hex_digit n) = n"
  by (auto simp: hex_val_def hex_digit_def Let_def of_char_of)

lemma unhex_hex [simp]: "\<forall>b\<in>set bs. b < 256 \<Longrightarrow> unhex (concat (map hex_byte bs)) = bs"
proof (induction bs)
  case Nil
  then show ?case by simp
next
  case (Cons b bs)
  then have b: "b < 256" by simp
  then have "b div 16 < 16" "b mod 16 < 16" by (simp_all add: div_less_iff_less_mult)
  with Cons show ?case by (simp add: hex_byte_def)
qed

lemma window_bounds:
  fixes s win :: int
  assumes "0 < win"
  shows "s div win * win \<le> s \<and> s < (s div win + 1) * win"
proof -
  have "s div win * win + s mod win = s" by (rule div_mult_mod_eq)
  moreover have "0 \<le> s mod win" "s mod win < win" using assms by simp_all
  moreover have "(s div win + 1) * win = s div win * win + win" by (simp add: distrib_right)
  ultimately show ?thesis by linarith
qed

lemma rl_check_step:
  assumes win: "0 < win" and lim: "1 \<le> limit" and tw: "t div 1000 div win = w"
    and inv: "rl_inv kid limit win w k r"
    and c: "checkRateLimit kid limit win t r = (rl, r')"
  shows "(rl_exceeded rl \<longleftrightarrow> limit \<le> int k) \<and>
    rl_inv kid limit win w (if rl_exceeded rl then k else Suc k) r'"
proof -
  let ?s = "t div 1000"
  have b: "w * win \<le> ?s" "?s < (w + 1) * win"
    using window_bounds [OF win, of ?s] tw by simp_all
  show ?thesis
  proof (cases "k = 0")
    case True
    with inv have "map_of (rd_strings r) (rate_key kid w) = None" by (simp add: rl_inv_def)
    then have "rl_count kid win t r = 0" by (simp add: rl_count_def redis_get_def tw)
    moreover have "(w + 1) * win \<le> ?s + win" using b by (simp add: algebra_simps)
    ultimately show ?thesis
      using c True lim tw by (auto simp: checkRateLimit_def rl_finish_def rl_inv_def redis_setex_def
          AList.update_conv')
  next
    case False
    with inv obtain e where e: "map_of (rd_strings r) (rate_key kid w) = Some (int k, Some e)"
      "(w + 1) * win \<le> e" "int k \<le> limit" by (auto simp: rl_inv_def)
    then have g: "redis_get (rate_key kid w) ?s r = Some (int k)"
      using b by (simp add: redis_get_def)
    then have "rl_count kid win t r = int k" by (simp add: rl_count_def tw)
    then show ?thesis
      using c False e g tw by (auto simp: checkRateLimit_def rl_finish_def rl_inv_def redis_incr_def
          AList.update_conv' Let_def split: if_splits)
  qed
qed

lemma rl_admitted_count:
  assumes win: "0 < win" and lim: "1 \<le> limit"
    and ts: "\<forall>t\<in>set ts. t div 1000 div win = w" and inv: "rl_inv kid limit win w k r"
  shows "fst (rl_admitted kid limit win ts r) = min (length ts) (nat limit - k)"
  using ts inv
proof (induction ts arbitrary: k r)
  case Nil
  then show ?case by simp
next
  case (Cons t ts)
  obtain rl r1 where c: "checkRateLimit kid limit win t r = (rl, r1)"
    by (cases "checkRateLimit kid limit win t r")
  have tw: "t div 1000 div win = w" using Cons.prems(1) by simp
  from rl_check_step [OF win lim tw Cons.prems(2) c]
  have st: "rl_exceeded rl \<longleftrightarrow> limit \<le> int k"
    and i1: "rl_inv kid limit win w (if rl_exceeded rl then k else Suc k) r1" by blast+
  have k: "int k \<le> limit" using Cons.prems(2) lim by (auto simp: rl_inv_def split: if_splits)
  have ih: "fst (rl_admitted kid limit win ts r1) =
      min (length ts) (nat limit - (if rl_exceeded rl then k else Suc k))"
    using Cons.prems(1) i1 by (intro Cons.IH) simp_all
  obtain n r2 where n: "rl_admitted kid limit win ts r1 = (n, r2)"
    by (cases "rl_admitted kid limit win ts r1")
  show ?case
  proof (cases "rl_exceeded rl")
    case True
    with st k have "nat limit - k = 0" by simp
    with True c ih n show ?thesis by simp
  next
    case False
    with st have "nat limit - k = Suc (nat limit - Suc k)" by simp
    with False c ih n show ?thesis by simp
  qed
qed

text \<open>
  C26: Requests of one API key handled one after the other within one rate-limit window
  are admitted up to the limit: of \<open>n\<close> requests, \<open>min n limit\<close> pass.
\<close>

theorem rate_limit_sequential:
  assumes "0 < win" "1 \<le> limit" "\<forall>t\<in>set ts. t div 1000 div win = w"
    and "map_of (rd_strings r) (rate_key kid w) = None"
  shows "fst (rl_admitted kid limit win ts r) = min (length ts) (nat limit)"
  using rl_admitted_count [OF assms(1-3), of kid 0 r] assms(4) by (simp add: rl_inv_def)

text \<open>
  C25: Two requests of one API key handled at once both pass the rate limit while the
  counter records one of them: the read and the write of \<open>checkRateLimit\<close> are not
  atomic, so concurrent requests exceed the limit.
\<close>

theorem rate_limit_race:
  assumes miss: "map_of (rd_strings r) (rate_key kid (now div 1000 div win)) = None"
    and ts: "t1 \<noteq> t2" and lim: "1 \<le> limit"
  shows "\<exists>s. (rl_step kid limit win now)\<^sup>*\<^sup>* \<lparr>rs_redis = r, rs_pc = \<lambda>_. RL_idle\<rparr> s \<and>
    rs_pc s t1 = RL_done True \<and> rs_pc s t2 = RL_done True \<and>
    map_option fst (map_of (rd_strings (rs_redis s)) (rate_key kid (now div 1000 div win))) = Some 1"
proof -
  let ?key = "rate_key kid (now div 1000 div win)"
  have c0: "rl_count kid win now r = 0" using miss by (simp add: rl_count_def redis_get_def)
  let ?s0 = "\<lparr>rs_redis = r, rs_pc = \<lambda>_. RL_idle\<rparr>"
  let ?s1 = "?s0\<lparr>rs_pc := (rs_pc ?s0)(t1 := RL_read 0)\<rparr>"
  let ?s2 = "?s1\<lparr>rs_pc := (rs_pc ?s1)(t2 := RL_read 0)\<rparr>"
  obtain rl1 r1 where f1: "rl_finish kid limit win now 0 r = (rl1, r1)"
    by (cases "rl_finish kid limit win now 0 r")
  let ?s3 = "\<lparr>rs_redis = r1, rs_pc = (rs_pc ?s2)(t1 := RL_done (\<not> rl_exceeded rl1))\<rparr>"
  obtain rl2 r2 where f2: "rl_finish kid limit win now 0 r1 = (rl2, r2)"
    by (cases "rl_finish kid limit win now 0 r1")
  let ?s4 = "\<lparr>rs_redis = r2, rs_pc = (rs_pc ?s3)(t2 := RL_done (\<not> rl_exceeded rl2))\<rparr>"
  have "rl_step kid limit win now ?s0 ?s1"
    using rl_step.read [where s = ?s0 and t = t1 and kid = kid and limit = limit and win = win and now = now] c0
    by simp
  moreover have "rl_step kid limit win now ?s1 ?s2"
    using rl_step.read [where s = ?s1 and t = t2 and kid = kid and limit = limit and win = win and now = now] c0 ts
    by simp
  moreover have "rl_step kid limit win now ?s2 ?s3"
    using f1 by (intro rl_step.finish) simp_all
  moreover have "rl_step kid limit win now ?s3 ?s4"
    using f2 ts by (intro rl_step.finish) simp_all
  ultimately have "(rl_step kid limit win now)\<^sup>*\<^sup>* ?s0 ?s4"
    by (meson rtranclp.rtrancl_into_rtrancl rtranclp.rtrancl_refl)
  moreover have "\<not> rl_exceeded rl1" "\<not> rl_exceeded rl2"
    "map_option fst (map_of (rd_strings r2) ?key) = Some 1"
    using f1 f2 by (auto simp: rl_finish_def redis_setex_def Let_def AList.update_conv')
  ultimately show ?thesis
    using ts by (intro exI [of _ ?s4]) simp
qed

text \<open>
  C29: The API-key digest is the hexadecimal encoding of the SHA-256 bytes, two digits a
  byte, and it decodes back to those bytes: the encoding loses nothing.
\<close>

theorem hashAPIKey_roundtrip:
  assumes "\<forall>b\<in>set (sha key). b < 256"
  shows "unhex (hashAPIKey sha key) = sha key \<and> length (hashAPIKey sha key) = 2 * length (sha key)"
proof -
  have "length (concat (map hex_byte bs)) = 2 * length bs" for bs
    by (induction bs) (simp_all add: hex_byte_def)
  with assms show ?thesis by (simp add: hashAPIKey_def)
qed

text \<open>
  C28: In \<open>auto\<close> mode the selector returns the account of the first provider, in the
  order deepseek, gemini, chatgpt, claude, that has an available account, after querying
  exactly the providers before it and none after it.
\<close>

theorem selectBestAccount_auto:
  assumes p: "p \<in> set provider_order" and a: "get_available_account p u d = Some a"
    and before: "\<forall>q\<in>set (takeWhile (\<lambda>q. q \<noteq> p) provider_order). get_available_account q u d = None"
  shows "selectBestAccount u ''auto'' d = ((Some a, p), takeWhile (\<lambda>q. q \<noteq> p) provider_order @ [p])"
proof -
  have "p = ''deepseek'' \<or> p = ''gemini'' \<or> p = ''chatgpt'' \<or> p = ''claude''"
    using p by (simp add: provider_order_def)
  then show ?thesis
  proof (elim disjE)
    assume "p = ''deepseek''"
    with a show ?thesis by (simp add: selectBestAccount_def provider_order_def)
  next
    assume "p = ''gemini''"
    with a before show ?thesis by (simp add: selectBestAccount_def provider_order_def)
  next
    assume "p = ''chatgpt''"
    with a before show ?thesis by (simp add: selectBestAccount_def provider_order_def)
  next
    assume "p = ''claude''"
    with a before show ?thesis by (simp add: selectBestAccount_def provider_order_def)
  qed
qed

lemma rl_finish_lists [simp]: "rd_lists (snd (rl_finish kid limit win now c r)) = rd_lists r"
  by (simp add: rl_finish_def Let_def redis_setex_def redis_incr_def split: option.splits)

lemma checkRateLimit_lists: "checkRateLimit kid limit win now r = (rl, r') \<Longrightarrow> rd_lists r' = rd_lists r"
  using rl_finish_lists [of kid limit win now "rl_count kid win now r" r] by (simp add: checkRateLimit_def)

lemma enqueue_request_cases:
  assumes "enqueue_request env u kid a provider actual prompt prio st = (out, st')"
  shows "(\<exists>m. out = Out_failed m \<and> st' = st) \<or>
    (\<exists>m. out = Out_failed m \<and> ie_lpush_error env = Some m \<and>
       map_of (requests (is_db st)) (request_id (ie_uuid env)) = None \<and>
       st' = st\<lparr>is_db := (is_db st)\<lparr>requests := requests (is_db st) @
         [(request_id (ie_uuid env), new_request_row u prompt provider a prio)]\<rparr>\<rparr>) \<or>
    (out = Out_queued (request_id (ie_uuid env)) actual (quota_remaining u (is_db st')) \<and>
     map_of (requests (is_db st)) (request_id (ie_uuid env)) = None \<and>
     is_db st' = (is_db st)\<lparr>requests := requests (is_db st) @
         [(request_id (ie_uuid env), new_request_row u prompt provider a prio)]\<rparr> \<and>
     is_redis st' = redis_lpush job_list_key
         (job_message (request_id (ie_uuid env)) a actual prompt prio) (is_redis st) \<and>
     is_keys st' = AList.map_entry kid (\<lambda>k. k\<lparr>ak_last_used_at := Some (ie_now env)\<rparr>) (is_keys st))"
  using assms by (auto simp: enqueue_request_def Let_def split: if_splits option.splits)

lemma accept_request_cases:
  assumes "accept_request env kid kd body st = (out, st')"
  shows "(\<exists>m. out = Out_failed m \<and> st' = st) \<or>
    (\<exists>a provider actual. validate_prompt (cb_prompt body) = None \<and>
       enqueue_request env (ak_user kd) kid a provider actual (the (cb_prompt body))
         (priority_of (cb_priority body)) st = (out, st'))"
  using assms by (auto simp: accept_request_def Let_def split: option.splits)

lemma chat_handler_cases:
  assumes h: "chat_handler env st = (out, st')"
  shows "(same_but_counters st st' \<and> (\<forall>x y z. out \<noteq> Out_queued x y z)) \<or>
    (\<exists>kid kd body st1. same_but_counters st st1 \<and> accept_request env kid kd body st1 = (out, st'))"
proof (cases "ie_method env = ''OPTIONS''")
  case True
  with h show ?thesis by (auto simp: chat_handler_def same_but_counters_def)
next
  case m: False
  show ?thesis
  proof (cases "auth_key (ie_auth env)")
    case None
    with h m show ?thesis by (auto simp: chat_handler_def same_but_counters_def)
  next
    case (Some key)
    show ?thesis
    proof (cases "find_api_key (hashAPIKey (ie_sha256 env) key) (is_keys st)")
      case None
      with h m Some show ?thesis by (auto simp: chat_handler_def same_but_counters_def)
    next
      case (Some x)
      obtain kid kd where x: "x = (kid, kd)" by (cases x)
      obtain rl r1 where c: "checkRateLimit kid 100 60 (ie_now env) (is_redis st) = (rl, r1)"
        by (cases "checkRateLimit kid 100 60 (ie_now env) (is_redis st)")
      have s1: "same_but_counters st (st\<lparr>is_redis := r1\<rparr>)"
        using checkRateLimit_lists [OF c] by (simp add: same_but_counters_def)
      have e: "chat_handler env st =
          (if rl_exceeded rl then (Out_rate_limited (rl_reset_at rl), st\<lparr>is_redis := r1\<rparr>)
           else case ie_body env of Inl m \<Rightarrow> (Out_failed m, st\<lparr>is_redis := r1\<rparr>)
             | Inr body \<Rightarrow> accept_request env kid kd body (st\<lparr>is_redis := r1\<rparr>))"
        using m \<open>auth_key (ie_auth env) = Some key\<close> Some x c by (simp add: chat_handler_def Let_def)
      show ?thesis
        using h s1 unfolding e by (auto split: if_splits sum.splits)
    qed
  qed
qed

lemma validate_prompt_None:
  "validate_prompt p = None \<longleftrightarrow> (\<exists>s. p = Some s \<and> s \<noteq> [] \<and> length s \<le> 10000)"
  by (auto simp: validate_prompt_def split: option.splits)

lemma redis_lpush_lists:
  "map_of (rd_lists (redis_lpush k x r)) k' =
     (if k' = k then Some (x # (case map_of (rd_lists r) k of Some xs \<Rightarrow> xs | None \<Rightarrow> []))
      else map_of (rd_lists r) k')"
  by (simp add: redis_lpush_def update_conv')

lemma chat_handler_queued_path:
  assumes "chat_handler env st = (Out_queued rid p qr, st')"
  obtains kid and kd :: api_key and body :: chat_body and st1 a provider
  where "same_but_counters st st1"
    "validate_prompt (cb_prompt body) = None"
    "enqueue_request env (ak_user kd) kid a provider p (the (cb_prompt body))
       (priority_of (cb_priority body)) st1 = (Out_queued rid p qr, st')"
proof -
  from chat_handler_cases [OF assms] obtain kid kd body st1 where
    s: "same_but_counters st st1" and ar: "accept_request env kid kd body st1 = (Out_queued rid p qr, st')"
    by blast
  from accept_request_cases [OF ar] obtain a provider actual where
    v: "validate_prompt (cb_prompt body) = None" and
    e: "enqueue_request env (ak_user kd) kid a provider actual (the (cb_prompt body))
          (priority_of (cb_priority body)) st1 = (Out_queued rid p qr, st')"
    by blast
  from enqueue_request_cases [OF e] have "actual = p" by auto
  with e have "enqueue_request env (ak_user kd) kid a provider p (the (cb_prompt body))
      (priority_of (cb_priority body)) st1 = (Out_queued rid p qr, st')" by simp
  with s v show ?thesis by (rule that)
qed

lemma enqueue_request_lists:
  assumes "enqueue_request env u kid a provider actual prompt prio st = (out, st')" "k \<noteq> job_list_key"
  shows "map_of (rd_lists (is_redis st')) k = map_of (rd_lists (is_redis st)) k"
  using enqueue_request_cases [OF assms(1)] assms(2) by (auto simp: redis_lpush_lists)

lemma chat_handler_lists:
  assumes h: "chat_handler env st = (out, st')" and k: "k \<noteq> job_list_key"
  shows "map_of (rd_lists (is_redis st')) k = map_of (rd_lists (is_redis st)) k"
  using chat_handler_cases [OF h]
proof (elim disjE exE conjE)
  fix kid kd body st1
  assume s: "same_but_counters st st1" and ar: "accept_request env kid kd body st1 = (out, st')"
  have "map_of (rd_lists (is_redis st')) k = map_of (rd_lists (is_redis st1)) k"
    using accept_request_cases [OF ar] enqueue_request_lists [OF _ k] by blast
  with s show ?thesis by (simp add: same_but_counters_def)
qed (simp add: same_but_counters_def)

text \<open>
  C22: A request the intake accepts (HTTP 202) adds one \<open>queued\<close> row under a fresh id and
  pushes, at the head of the list \<open>bullmq:chat-requests:wait\<close>, a job that carries that
  id, the row's account, prompt and priority, and the provider the response reports;
  the prompt is non-empty and at most 10000 characters long.
\<close>

theorem chat_handler_queued:
  assumes "chat_handler env st = (Out_queued rid p qr, st')"
  shows "rid = request_id (ie_uuid env) \<and> map_of (requests (is_db st)) rid = None \<and>
    (\<exists>row job. requests (is_db st') = requests (is_db st) @ [(rid, row)] \<and>
       map_of (rd_lists (is_redis st')) job_list_key =
         Some (job # (case map_of (rd_lists (is_redis st)) job_list_key of Some xs \<Rightarrow> xs | None \<Rightarrow> [])) \<and>
       req_status row = Queued \<and> job_request_id job = rid \<and> req_account row = Some (job_account_id job) \<and>
       job_provider job = p \<and> job_prompt job = req_prompt row \<and> job_priority job = req_priority row \<and>
       req_prompt row \<noteq> [] \<and> length (req_prompt row) \<le> 10000)"
proof -
  obtain kid and kd :: api_key and body :: chat_body and st1 a provider where
    s: "same_but_counters st st1" and v: "validate_prompt (cb_prompt body) = None" and
    e: "enqueue_request env (ak_user kd) kid a provider p (the (cb_prompt body))
          (priority_of (cb_priority body)) st1 = (Out_queued rid p qr, st')"
    by (rule chat_handler_queued_path [OF assms])
  define row where "row = new_request_row (ak_user kd) (the (cb_prompt body)) provider a (priority_of (cb_priority body))"
  define job where "job = job_message rid a p (the (cb_prompt body)) (priority_of (cb_priority body))"
  have q: "rid = request_id (ie_uuid env)" "map_of (requests (is_db st1)) rid = None"
    "is_db st' = (is_db st1)\<lparr>requests := requests (is_db st1) @ [(rid, row)]\<rparr>"
    "is_redis st' = redis_lpush job_list_key job (is_redis st1)"
    using enqueue_request_cases [OF e] unfolding row_def job_def by auto
  have sb: "is_db st1 = is_db st" "rd_lists (is_redis st1) = rd_lists (is_redis st)"
    using s by (simp_all add: same_but_counters_def)
  obtain pr where pr: "cb_prompt body = Some pr" "pr \<noteq> []" "length pr \<le> 10000"
    using v by (auto simp: validate_prompt_None)
  have r: "req_status row = Queued \<and> job_request_id job = rid \<and> req_account row = Some (job_account_id job) \<and>
       job_provider job = p \<and> job_prompt job = req_prompt row \<and> job_priority job = req_priority row \<and>
       req_prompt row \<noteq> [] \<and> length (req_prompt row) \<le> 10000"
    using pr unfolding row_def job_def new_request_row_def job_message_def by simp
  have l: "map_of (rd_lists (is_redis st')) job_list_key =
      Some (job # (case map_of (rd_lists (is_redis st)) job_list_key of Some xs \<Rightarrow> xs | None \<Rightarrow> []))"
    using q(4) sb(2) by (simp add: redis_lpush_lists)
  have rq: "requests (is_db st') = requests (is_db st) @ [(rid, row)]"
    using q(3) sb(1) by simp
  have "map_of (requests (is_db st)) rid = None"
    using q(2) sb(1) by simp
  then show ?thesis
    using q(1) rq l r by (intro conjI exI [of _ row] exI [of _ job]) simp_all
qed

lemma enqueue_request_failed:
  assumes "enqueue_request env u kid a provider actual prompt prio st = (Out_failed m, st')"
  shows "rd_lists (is_redis st') = rd_lists (is_redis st) \<and> is_keys st' = is_keys st \<and>
    (is_db st' = is_db st \<or> (ie_lpush_error env = Some m \<and> (\<exists>row. req_status row = Queued \<and>
       is_db st' = (is_db st)\<lparr>requests := requests (is_db st) @ [(request_id (ie_uuid env), row)]\<rparr>)))"
proof -
  have "req_status (new_request_row u prompt provider a prio) = Queued"
    by (simp add: new_request_row_def)
  then show ?thesis using enqueue_request_cases [OF assms] by auto
qed

lemma accept_request_outcome:
  assumes "accept_request env kid kd body st = (out, st')"
  shows "(\<exists>m. out = Out_failed m) \<or> (\<exists>rid p qr. out = Out_queued rid p qr)"
  using accept_request_cases [OF assms] enqueue_request_cases by fast

lemma find_api_key_map:
  assumes g: "\<And>i k. ak_hash (g i k) = ak_hash k \<and> ak_revoked (g i k) = ak_revoked k"
  shows "find_api_key h (map (\<lambda>(i, k). (i, g i k)) keys) =
    map_option (\<lambda>(i, k). (i, g i k)) (find_api_key h keys)"
proof -
  let ?f = "\<lambda>(i, k). (i, g i k)" and ?P = "\<lambda>(i, k). ak_hash k = h \<and> \<not> ak_revoked k"
  have "filter ?P (map ?f keys) = map ?f (filter ?P keys)"
    by (induction keys) (auto simp: g)
  moreover have "(case map ?f ys of [x] \<Rightarrow> Some x | _ \<Rightarrow> None) =
      map_option ?f (case ys of [x] \<Rightarrow> Some x | _ \<Rightarrow> None)" for ys :: "(string \<times> api_key) list"
    by (cases ys; cases "tl ys") auto
  ultimately show ?thesis by (simp add: find_api_key_def)
qed

lemma enqueue_request_keys:
  "fst (enqueue_request env u kid a provider actual prompt prio (st\<lparr>is_keys := K\<rparr>)) =
   fst (enqueue_request env u kid a provider actual prompt prio st)"
  by (cases "ie_lpush_error env") (simp_all add: enqueue_request_def Let_def)

lemma accept_request_keys:
  assumes "ak_user kd' = ak_user kd"
  shows "fst (accept_request env kid kd' body (st\<lparr>is_keys := K\<rparr>)) = fst (accept_request env kid kd body st)"
  using assms by (simp add: accept_request_def enqueue_request_keys Let_def split: option.split)

text \<open>
  C24: A request the intake rejects with an error (HTTP 400) pushes no job and changes no
  API key; the database is unchanged, except when the push to Redis fails after the
  insert: then a \<open>queued\<close> request row stays behind with no job that could ever
  process it.
\<close>

theorem chat_handler_failed:
  assumes h: "chat_handler env st = (Out_failed m, st')"
  shows "rd_lists (is_redis st') = rd_lists (is_redis st) \<and> is_keys st' = is_keys st \<and>
    (is_db st' = is_db st \<or> (ie_lpush_error env = Some m \<and> (\<exists>row. req_status row = Queued \<and>
       is_db st' = (is_db st)\<lparr>requests := requests (is_db st) @ [(request_id (ie_uuid env), row)]\<rparr>)))"
  using chat_handler_cases [OF h]
proof (elim disjE exE conjE)
  fix kid kd body st1
  assume s: "same_but_counters st st1" and ar: "accept_request env kid kd body st1 = (Out_failed m, st')"
  have "st' = st1 \<or> (\<exists>a provider actual. enqueue_request env (ak_user kd) kid a provider actual
      (the (cb_prompt body)) (priority_of (cb_priority body)) st1 = (Out_failed m, st'))"
    using accept_request_cases [OF ar] by blast
  then show ?thesis
    using s enqueue_request_failed by (fastforce simp: same_but_counters_def)
qed (simp add: same_but_counters_def)

text \<open>
  A request rejected by the rate limiter (HTTP 429) changes neither the database nor
  the API keys nor the job lists: it is rejected before any account is touched.
\<close>

theorem chat_handler_rate_limited:
  assumes h: "chat_handler env st = (Out_rate_limited t, st')"
  shows "is_db st' = is_db st \<and> is_keys st' = is_keys st \<and> rd_lists (is_redis st') = rd_lists (is_redis st)"
  using chat_handler_cases [OF h] accept_request_outcome by (fastforce simp: same_but_counters_def)

text \<open>
  C23: The intake never changes the BullMQ wait list of the queue \<open>chat-requests\<close> that
  the worker consumes: it pushes its jobs under \<open>bullmq:chat-requests:wait\<close>, a key the
  worker does not read, so no accepted request reaches the worker.
\<close>

theorem chat_handler_bull_wait:
  "map_of (rd_lists (is_redis (snd (chat_handler env st)))) (bull_wait_key worker_queue) =
   map_of (rd_lists (is_redis st)) (bull_wait_key worker_queue)"
proof -
  have "bull_wait_key worker_queue \<noteq> job_list_key"
    by (simp add: bull_wait_key_def worker_queue_def job_list_key_def)
  then show ?thesis using chat_handler_lists [OF prod.collapse [symmetric]] by blast
qed

text \<open>
  C27: The outcome of a request does not depend on the expiry date nor on the per-minute
  rate limit stored with the API keys: an expired key is accepted and every key gets the
  hard-coded limit of 100 requests a minute.
\<close>

theorem chat_handler_ignores_expiry:
  "fst (chat_handler env (st\<lparr>is_keys := map (\<lambda>(i, k). (i, k\<lparr>ak_rate_limit_per_minute := l i,
       ak_expires_at := e i\<rparr>)) (is_keys st)\<rparr>)) = fst (chat_handler env st)"
proof -
  let ?g = "\<lambda>i k. k\<lparr>ak_rate_limit_per_minute := l i, ak_expires_at := e i\<rparr>"
  let ?K = "map (\<lambda>(i, k). (i, ?g i k)) (is_keys st)"
  have f: "find_api_key h ?K = map_option (\<lambda>(i, k). (i, ?g i k)) (find_api_key h (is_keys st))" for h
    by (rule find_api_key_map) simp
  show ?thesis
  proof (cases "ie_method env = ''OPTIONS'' \<or> auth_key (ie_auth env) = None")
    case True
    then show ?thesis by (auto simp: chat_handler_def)
  next
    case False
    then obtain key where m: "ie_method env \<noteq> ''OPTIONS''" and k: "auth_key (ie_auth env) = Some key"
      by auto
    show ?thesis
    proof (cases "find_api_key (hashAPIKey (ie_sha256 env) key) (is_keys st)")
      case None
      with m k show ?thesis by (simp add: chat_handler_def f)
    next
      case (Some x)
      obtain kid kd where x: "x = (kid, kd)" by (cases x)
      obtain rl r1 where c: "checkRateLimit kid 100 60 (ie_now env) (is_redis st) = (rl, r1)"
        by (cases "checkRateLimit kid 100 60 (ie_now env) (is_redis st)")
      have u: "st\<lparr>is_keys := ?K, is_redis := r1\<rparr> = st\<lparr>is_redis := r1, is_keys := ?K\<rparr>"
        by (cases st) simp
      have "fst (accept_request env kid (?g kid kd) body (st\<lparr>is_keys := ?K, is_redis := r1\<rparr>)) =
          fst (accept_request env kid kd body (st\<lparr>is_redis := r1\<rparr>))" for body
        unfolding u by (rule accept_request_keys) simp
      then show ?thesis
        using m k Some x c by (simp add: chat_handler_def f Let_def split: sum.split)
    qed
  qed
qed

text \<open>
  A known key whose counter in the current minute has reached 100 is rejected with
  HTTP 429 and the start of the next minute as reset time, before its body is read, and
  the state is left as it was.
\<close>

theorem chat_handler_rate_limit_first:
  assumes "ie_method env \<noteq> ''OPTIONS''" "auth_key (ie_auth env) = Some key"
    and "find_api_key (hashAPIKey (ie_sha256 env) key) (is_keys st) = Some (kid, kd)"
    and "100 \<le> rl_count kid 60 (ie_now env) (is_redis st)"
  shows "chat_handler env st = (Out_rate_limited ((ie_now env div 1000 div 60 + 1) * 60 * 1000), st)"
  using assms by (simp add: chat_handler_def checkRateLimit_def rl_finish_def Let_def)

subsection \<open>The primary keys under a request\<close>

lemma db_wf_add_request:
  "db_wf d \<Longrightarrow> map_of (requests d) rid = None \<Longrightarrow> db_wf (d\<lparr>requests := requests d @ [(rid, row)]\<rparr>)"
  by (auto simp: db_wf_def map_of_eq_None_iff)

lemma enqueue_request_wf:
  assumes "enqueue_request env u kid a provider actual prompt prio st = (out, st')" "db_wf (is_db st)"
  shows "db_wf (is_db st')"
  using enqueue_request_cases [OF assms(1)] assms(2) by (auto intro: db_wf_add_request)

lemma chat_handler_wf:
  assumes h: "chat_handler env st = (out, st')" and wf: "db_wf (is_db st)"
  shows "db_wf (is_db st')"
  using chat_handler_cases [OF h]
proof (elim disjE exE conjE)
  fix kid kd body st1
  assume s: "same_but_counters st st1" and ar: "accept_request env kid kd body st1 = (out, st')"
  have w1: "db_wf (is_db st1)" using s wf by (simp add: same_but_counters_def)
  show ?thesis
    using accept_request_cases [OF ar] w1 enqueue_request_wf by blast
qed (use wf in \<open>simp add: same_but_counters_def\<close>)

end
