(* ===== verification/QuotaTracker.thy ===== *)
theory QuotaTracker
  imports Datastore
begin

text \<open>
  The quota tracker of \<open>src/quota-tracker/src/index.ts\<close>: \<open>checkQuotas\<close>, run every
  \<open>CHECK_INTERVAL\<close>, \<open>checkExpiringSessions\<close>, run daily, and \<open>sendAlert\<close>. The state
  is the database and the list of alerts published on the Redis channel
  \<open>quota_alerts\<close>. What the environment decides is a field of \<open>tracker_env\<close>: the error
  of the initial query, the clock read by \<open>new Date()\<close> at each iteration of the loop,
  the alert threshold, and the errors of the publication and of the insertion of each
  alert.

  Two points of the source fix the model.
  \<^item> The query \<open>select('*, accounts(*)').eq('accounts.status', 'active')\<close> filters
    the embedded account and not the quota rows (PostgREST filters a parent only
    through an \<open>!inner\<close> embedding): every quota row is returned, with its account when
    that account is active and \<open>null\<close> otherwise. \<open>quota_rows\<close> is that result.
  \<^item> The loop reads the usage counters of the snapshot, also after it has reset them in
    the database.
  A division of the source is a JavaScript division of numbers, \<open>js_div\<close>: exact on
  a non-zero divisor, \<open>Infinity\<close> or \<open>NaN\<close> on zero.
\<close>

record tracker_env =
  te_query_error :: "string option"
  te_now :: "nat \<Rightarrow> time"
  te_threshold :: rat
  te_publish_error :: "alert \<Rightarrow> string option"
  te_insert_error :: "alert \<Rightarrow> string option"

record tstate =
  ts_db :: db
  ts_published :: "alert list"

subsection \<open>JavaScript numbers\<close>

datatype js_num = Num rat | PInf | NInf | NaN

definition js_div :: "int \<Rightarrow> int \<Rightarrow> js_num" where
  "js_div a b =
     (if b \<noteq> 0 then Num (of_int a / of_int b)
      else if 0 < a then PInf else if a < 0 then NInf else NaN)"

fun js_ge :: "js_num \<Rightarrow> rat \<Rightarrow> bool" where
  "js_ge (Num x) k \<longleftrightarrow> k \<le> x"
| "js_ge PInf k \<longleftrightarrow> True"
| "js_ge NInf k \<longleftrightarrow> False"
| "js_ge NaN k \<longleftrightarrow> False"

fun js_lt :: "js_num \<Rightarrow> rat \<Rightarrow> bool" where
  "js_lt (Num x) k \<longleftrightarrow> x < k"
| "js_lt PInf k \<longleftrightarrow> False"
| "js_lt NInf k \<longleftrightarrow> True"
| "js_lt NaN k \<longleftrightarrow> False"

subsection \<open>The calendar of \<open>new Date(year, month + 1, 1)\<close>\<close>

text \<open>
  Civil dates in the proleptic Gregorian calendar, as \<open>Date\<close> computes them (in UTC,
  the time zone of the service's container): \<open>days_from_civil\<close> and
  \<open>civil_from_days\<close> convert between a date (month from 1) and the number of days
  since 1970-01-01. \<open>next_month_start now\<close> is the first instant of the month after
  that of \<open>now\<close>; month 13 is January of the next year, as \<open>Date\<close> normalises it.
\<close>

definition days_from_civil :: "int \<Rightarrow> int \<Rightarrow> int \<Rightarrow> int" where
  "days_from_civil y m d =
     (let y' = (if m \<le> 2 then y - 1 else y);
          era = y' div 400; yoe = y' - era * 400;
          doy = (153 * (if 2 < m then m - 3 else m + 9) + 2) div 5 + d - 1;
          doe = yoe * 365 + yoe div 4 - yoe div 100 + doy
      in era * 146097 + doe - 719468)"

definition civil_from_days :: "int \<Rightarrow> int \<times> int \<times> int" where
  "civil_from_days z0 =
     (let z = z0 + 719468; era = z div 146097; doe = z - era * 146097;
          yoe = (doe - doe div 1460 + doe div 36524 - doe div 146096) div 365;
          doy = doe - (365 * yoe + yoe div 4 - yoe div 100);
          mp = (5 * doy + 2) div 153;
          d = doy - (153 * mp + 2) div 5 + 1;
          m = (if mp < 10 then mp + 3 else mp - 9)
      in (yoe + era * 400 + (if m \<le> 2 then 1 else 0), m, d))"

definition next_month_start :: "time \<Rightarrow> time" where
  "next_month_start now =
     (case civil_from_days (now div day_ms) of
        (y, m, _) \<Rightarrow> (if m = 12 then days_from_civil (y + 1) 1 1 else days_from_civil y (m + 1) 1)
                      * day_ms)"

subsection \<open>Alerts and row updates\<close>

text \<open>
  \<open>sendAlert\<close>: publish, then insert; a rejected publication is caught and logged, and
  the insertion's error is returned by the client and never read.
\<close>

definition sendAlert :: "tracker_env \<Rightarrow> alert \<Rightarrow> tstate \<Rightarrow> tstate" where
  "sendAlert env al st =
     (case te_publish_error env al of
        Some _ \<Rightarrow> st
      | None \<Rightarrow>
          let st1 = st\<lparr>ts_published := ts_published st @ [al]\<rparr>
          in case te_insert_error env al of
               Some _ \<Rightarrow> st1
             | None \<Rightarrow> st1\<lparr>ts_db := (ts_db st1)\<lparr>alerts := alerts (ts_db st1) @ [al]\<rparr>\<rparr>)"

definition quota_alert :: "string \<Rightarrow> quota \<Rightarrow> alert" where
  "quota_alert ty q = \<lparr>al_type = ty, al_account = q_account q, al_provider = Some (q_provider q)\<rparr>"

text \<open>\<open>supabase.from('accounts').update({ status }).eq('id', accountId)\<close>, error not read.\<close>

definition set_account_status :: "string \<Rightarrow> acct_status \<Rightarrow> db \<Rightarrow> db" where
  "set_account_status a st d =
     d\<lparr>accounts := AList.map_entry a (\<lambda>r. r\<lparr>acc_status := st\<rparr>) (accounts d)\<rparr>"

definition set_quota :: "string \<Rightarrow> (quota \<Rightarrow> quota) \<Rightarrow> db \<Rightarrow> db" where
  "set_quota k f d = d\<lparr>quotas := AList.map_entry k f (quotas d)\<rparr>"

definition on_db :: "(db \<Rightarrow> db) \<Rightarrow> tstate \<Rightarrow> tstate" where
  "on_db f st = st\<lparr>ts_db := f (ts_db st)\<rparr>"

subsection \<open>\<open>checkQuotas\<close>\<close>

type_synonym quota_row = "string \<times> quota \<times> account option"

definition quota_rows :: "db \<Rightarrow> quota_row list" where
  "quota_rows d =
     map (\<lambda>(k, q). (k, q, case map_of (accounts d) (q_account q) of
                            Some a \<Rightarrow> if acc_status a = Active then Some a else None
                          | None \<Rightarrow> None))
       (quotas d)"

definition daily_reset :: "time \<Rightarrow> quota \<Rightarrow> quota" where
  "daily_reset now r = r\<lparr>q_daily_used := 0, q_reset_daily_at := now + day_ms, q_updated_at := now\<rparr>"

definition monthly_reset :: "time \<Rightarrow> quota \<Rightarrow> quota" where
  "monthly_reset now r =
     r\<lparr>q_monthly_used := 0, q_reset_monthly_at := Some (next_month_start now), q_updated_at := now\<rparr>"

definition daily_due :: "time \<Rightarrow> quota \<Rightarrow> bool" where
  "daily_due now q \<longleftrightarrow> q_reset_daily_at q \<le> now"

definition monthly_due :: "time \<Rightarrow> quota \<Rightarrow> bool" where
  "monthly_due now q \<longleftrightarrow> (case q_reset_monthly_at q of Some t \<Rightarrow> t \<le> now | None \<Rightarrow> False)"

text \<open>
  One iteration of the loop on the row \<open>(k, q, acc)\<close> of the snapshot, in the three
  sections of the source: the resets, the daily-limit check and the monthly-limit check.
  The resets write the counters of the database; the checks read those of \<open>q\<close>.
\<close>

definition reset_quota :: "time \<Rightarrow> quota_row \<Rightarrow> tstate \<Rightarrow> tstate" where
  "reset_quota now row st =
     (case row of (k, q, acc) \<Rightarrow>
      let st1 = (if daily_due now q
                 then let st' = on_db (set_quota k (daily_reset now)) st
                      in if (case acc of Some x \<Rightarrow> acc_status x = Quota_exceeded | None \<Rightarrow> False)
                         then on_db (set_account_status (q_account q) Active) st' else st'
                 else st)
      in if monthly_due now q then on_db (set_quota k (monthly_reset now)) st1 else st1)"

definition daily_limit_check :: "tracker_env \<Rightarrow> quota \<Rightarrow> tstate \<Rightarrow> tstate" where
  "daily_limit_check env q st =
     (let pct = js_div (q_daily_used q) (q_daily_limit q);
          st1 = (if js_ge pct (te_threshold env) \<and> js_lt pct 1
                 then sendAlert env (quota_alert ''quota_warning'' q) st else st)
      in if js_ge pct 1
         then on_db (set_account_status (q_account q) Quota_exceeded)
                (sendAlert env (quota_alert ''quota_exceeded'' q) st1)
         else st1)"

definition monthly_limit_check :: "tracker_env \<Rightarrow> quota \<Rightarrow> tstate \<Rightarrow> tstate" where
  "monthly_limit_check env q st =
     (case q_monthly_limit q of
        Some l \<Rightarrow> if l \<noteq> 0 \<and> js_ge (js_div (q_monthly_used q) l) 1
                  then on_db (set_account_status (q_account q) Quota_exceeded)
                         (sendAlert env (quota_alert ''monthly_quota_exceeded'' q) st)
                  else st
      | None \<Rightarrow> st)"

definition check_quota :: "tracker_env \<Rightarrow> time \<Rightarrow> quota_row \<Rightarrow> tstate \<Rightarrow> tstate" where
  "check_quota env now row st =
     monthly_limit_check env (fst (snd row)) (daily_limit_check env (fst (snd row)) (reset_quota now row st))"

fun check_each :: "tracker_env \<Rightarrow> nat \<Rightarrow> quota_row list \<Rightarrow> tstate \<Rightarrow> tstate" where
  "check_each env i [] st = st"
| "check_each env i (row # rows) st = check_each env (Suc i) rows (check_quota env (te_now env i) row st)"

definition checkQuotas :: "tracker_env \<Rightarrow> tstate \<Rightarrow> tstate" where
  "checkQuotas env st =
     (case te_query_error env of
        Some _ \<Rightarrow> st
      | None \<Rightarrow> let rows = quota_rows (ts_db st) in
                if rows = [] then st else check_each env 0 rows st)"

subsection \<open>\<open>checkExpiringSessions\<close>\<close>

text \<open>
  The sessions expiring before \<open>now + 7 days\<close>, each with the provider of its account
  when the account is active (\<open>session.accounts?.provider\<close>); the embedded filter
  again keeps the sessions of the other accounts, with no provider.
\<close>

definition expiring_rows :: "time \<Rightarrow> db \<Rightarrow> (string \<times> string option) list" where
  "expiring_rows now d =
     map (\<lambda>(a, s). (a, case map_of (accounts d) a of
                         Some x \<Rightarrow> if acc_status x = Active then Some (acc_provider x) else None
                       | None \<Rightarrow> None))
       (filter (\<lambda>(a, s). ses_expires_at s < now + 7 * day_ms) (browser_sessions d))"

definition checkExpiringSessions :: "tracker_env \<Rightarrow> tstate \<Rightarrow> tstate" where
  "checkExpiringSessions env st =
     (case te_query_error env of
        Some _ \<Rightarrow> st
      | None \<Rightarrow> fold (\<lambda>(a, p) s. sendAlert env
                   \<lparr>al_type = ''session_expiring'', al_account = a, al_provider = p\<rparr> s)
                 (expiring_rows (te_now env 0) (ts_db st)) st)"

text \<open>
  The alerts one row raises, in the order the loop sends them, and the row one
  iteration leaves in the table; both are read off the snapshot \<open>q\<close>.
\<close>

definition row_alerts :: "rat \<Rightarrow> quota \<Rightarrow> alert list" where
  "row_alerts thr q =
     (let pct = js_div (q_daily_used q) (q_daily_limit q)
      in (if js_ge pct thr \<and> js_lt pct 1 then [quota_alert ''quota_warning'' q] else []) @
         (if js_ge pct 1 then [quota_alert ''quota_exceeded'' q] else []) @
         (case q_monthly_limit q of
            Some l \<Rightarrow> if l \<noteq> 0 \<and> js_ge (js_div (q_monthly_used q) l) 1
                      then [quota_alert ''monthly_quota_exceeded'' q] else []
          | None \<Rightarrow> []))"

definition reset_row :: "time \<Rightarrow> quota \<Rightarrow> quota" where
  "reset_row now q =
     (if monthly_due now q then monthly_reset now else id) ((if daily_due now q then daily_reset now else id) q)"

lemmas tracker_defs [model_defs] = js_div_def days_from_civil_def civil_from_days_def
  next_month_start_def sendAlert_def quota_alert_def set_account_status_def set_quota_def
  on_db_def quota_rows_def daily_reset_def monthly_reset_def daily_due_def monthly_due_def
  reset_quota_def daily_limit_check_def monthly_limit_check_def check_quota_def
  checkQuotas_def expiring_rows_def checkExpiringSessions_def row_alerts_def reset_row_def

subsection \<open>Properties of the tracker\<close>

definition acct_status_of :: "db \<Rightarrow> string \<Rightarrow> acct_status option" where
  "acct_status_of d b = map_option acc_status (map_of (accounts d) b)"

text \<open>\<open>only_exceeded d d'\<close>: from \<open>d\<close> to \<open>d'\<close> an account keeps its status or becomes
  \<open>quota_exceeded\<close>.\<close>

definition only_exceeded :: "db \<Rightarrow> db \<Rightarrow> bool" where
  "only_exceeded d d' \<longleftrightarrow>
     (\<forall>b. acct_status_of d' b = acct_status_of d b \<or>
          acct_status_of d' b = map_option (\<lambda>_. Quota_exceeded) (map_of (accounts d) b))"

lemma only_exceeded_refl [simp, intro]: "only_exceeded d d"
  by (simp add: only_exceeded_def)

lemma only_exceeded_trans [trans]:
  assumes "only_exceeded d1 d2" "only_exceeded d2 d3"
  shows "only_exceeded d1 d3"
  unfolding only_exceeded_def
proof
  fix b
  have "map_of (accounts d2) b = None \<longleftrightarrow> map_of (accounts d1) b = None"
    using assms(1) by (auto simp: only_exceeded_def acct_status_of_def dest: spec [of _ b])
  with assms show "acct_status_of d3 b = acct_status_of d1 b \<or>
      acct_status_of d3 b = map_option (\<lambda>_. Quota_exceeded) (map_of (accounts d1) b)"
    unfolding only_exceeded_def acct_status_of_def
    by (cases "map_of (accounts d1) b"; cases "map_of (accounts d2) b") (auto dest!: spec [of _ b])
qed

lemma acct_status_of_set [simp]:
  "acct_status_of (set_account_status a st d) b =
     (if b = a then map_option (\<lambda>_. st) (map_of (accounts d) b) else acct_status_of d b)"
  by (simp add: acct_status_of_def set_account_status_def map_entry_same map_entry_other
      option.map_comp comp_def)

lemma only_exceeded_set: "only_exceeded d (set_account_status a Quota_exceeded d)"
  unfolding only_exceeded_def by simp

lemma sendAlert_db: "ts_db (sendAlert env al st) = (ts_db st)\<lparr>alerts := alerts (ts_db (sendAlert env al st))\<rparr>"
  by (simp add: sendAlert_def Let_def split: option.splits)

lemma sendAlert_tables [simp]:
  "accounts (ts_db (sendAlert env al st)) = accounts (ts_db st)"
  "quotas (ts_db (sendAlert env al st)) = quotas (ts_db st)"
  "requests (ts_db (sendAlert env al st)) = requests (ts_db st)"
  "browser_sessions (ts_db (sendAlert env al st)) = browser_sessions (ts_db st)"
  "usage_logs (ts_db (sendAlert env al st)) = usage_logs (ts_db st)"
  by (simp_all add: sendAlert_def Let_def split: option.splits)

lemma sendAlert_published:
  "ts_published (sendAlert env al st) =
     ts_published st @ (if te_publish_error env al = None then [al] else [])"
  by (simp add: sendAlert_def Let_def split: option.splits)

lemma set_quota_tables [simp]:
  "accounts (set_quota k f d) = accounts d" "alerts (set_quota k f d) = alerts d"
  "quotas (set_account_status a s d) = quotas d" "alerts (set_account_status a s d) = alerts d"
  by (simp_all add: set_quota_def set_account_status_def)

lemma acct_status_of_quota [simp]: "acct_status_of (set_quota k f d) = acct_status_of d"
  by (simp add: acct_status_of_def fun_eq_iff)

lemma acct_status_of_alert [simp]:
  "acct_status_of (ts_db (sendAlert env al st)) = acct_status_of (ts_db st)"
  by (simp add: acct_status_of_def fun_eq_iff)

lemma quota_rows_active:
  "(k, q, acc) \<in> set (quota_rows d) \<Longrightarrow> (\<forall>x. acc = Some x \<longrightarrow> acc_status x = Active)"
  by (auto simp: quota_rows_def split: option.splits if_splits)

lemma only_exceeded_eq: "acct_status_of d' = acct_status_of d \<Longrightarrow> only_exceeded d d'"
  by (simp add: only_exceeded_def)

lemma only_exceeded_keeps:
  "only_exceeded d d' \<Longrightarrow> acct_status_of d b = Some Quota_exceeded \<Longrightarrow>
   acct_status_of d' b = Some Quota_exceeded"
  unfolding only_exceeded_def acct_status_of_def by (auto dest!: spec [of _ b])

lemma only_exceeded_dom:
  "only_exceeded d d' \<Longrightarrow> map_of (accounts d) b \<noteq> None \<Longrightarrow> map_of (accounts d') b \<noteq> None"
  unfolding only_exceeded_def acct_status_of_def by (auto dest!: spec [of _ b])

lemma map_entry_comp: "AList.map_entry k g (AList.map_entry k f t) = AList.map_entry k (g \<circ> f) t"
  by (induction t) auto

lemma map_entry_id [simp]: "AList.map_entry k id t = t"
  by (induction t) auto

lemma reset_quota_status:
  "(\<forall>x. acc = Some x \<longrightarrow> acc_status x \<noteq> Quota_exceeded) \<Longrightarrow>
   acct_status_of (ts_db (reset_quota now (k, q, acc) st)) = acct_status_of (ts_db st)"
  by (cases acc) (simp_all add: reset_quota_def Let_def on_db_def)

lemma reset_quota_quotas:
  "(\<forall>x. acc = Some x \<longrightarrow> acc_status x \<noteq> Quota_exceeded) \<Longrightarrow>
   quotas (ts_db (reset_quota now (k, q, acc) st)) =
     AList.map_entry k (\<lambda>r. (if monthly_due now q then monthly_reset now else id)
        ((if daily_due now q then daily_reset now else id) r)) (quotas (ts_db st))"
  by (cases acc) (simp_all add: reset_quota_def Let_def on_db_def set_quota_def map_entry_comp
      comp_def)

lemma reset_quota_out [simp]:
  "ts_published (reset_quota now row st) = ts_published st"
  "alerts (ts_db (reset_quota now row st)) = alerts (ts_db st)"
  by (simp_all add: reset_quota_def Let_def on_db_def split: prod.splits)

lemma limit_checks_quotas [simp]:
  "quotas (ts_db (daily_limit_check env q st)) = quotas (ts_db st)"
  "quotas (ts_db (monthly_limit_check env q st)) = quotas (ts_db st)"
  by (simp_all add: daily_limit_check_def monthly_limit_check_def Let_def on_db_def
      split: option.splits)

lemma only_exceeded_setI:
  "only_exceeded d d' \<Longrightarrow> only_exceeded d (set_account_status a Quota_exceeded d')"
  using only_exceeded_trans only_exceeded_set by blast

lemma only_exceeded_alertI:
  "only_exceeded d (ts_db st) \<Longrightarrow> only_exceeded d (ts_db (sendAlert env al st))"
  by (simp add: only_exceeded_def)

lemma daily_limit_check_oe: "only_exceeded (ts_db st) (ts_db (daily_limit_check env q st))"
  by (simp add: daily_limit_check_def Let_def on_db_def only_exceeded_setI only_exceeded_alertI only_exceeded_refl)

lemma monthly_limit_check_oe: "only_exceeded (ts_db st) (ts_db (monthly_limit_check env q st))"
  by (simp add: monthly_limit_check_def on_db_def only_exceeded_setI only_exceeded_alertI only_exceeded_refl
      split: option.splits)

lemma check_quota_oe:
  assumes "\<forall>x. acc = Some x \<longrightarrow> acc_status x \<noteq> Quota_exceeded"
  shows "only_exceeded (ts_db st) (ts_db (check_quota env now (k, q, acc) st))"
proof -
  let ?st1 = "reset_quota now (k, q, acc) st"
  have "only_exceeded (ts_db st) (ts_db ?st1)"
    using reset_quota_status [OF assms] by (rule only_exceeded_eq)
  also have "only_exceeded (ts_db ?st1) (ts_db (daily_limit_check env q ?st1))"
    by (rule daily_limit_check_oe)
  also have "only_exceeded (ts_db (daily_limit_check env q ?st1))
      (ts_db (monthly_limit_check env q (daily_limit_check env q ?st1)))"
    by (rule monthly_limit_check_oe)
  finally show ?thesis by (simp add: check_quota_def)
qed

lemma check_each_append:
  "check_each env i (xs @ ys) st = check_each env (i + length xs) ys (check_each env i xs st)"
  by (induction xs arbitrary: i st) simp_all

definition rows_not_exceeded :: "quota_row list \<Rightarrow> bool" where
  "rows_not_exceeded rows \<longleftrightarrow>
     list_all (\<lambda>(k, q, acc). \<forall>x. acc = Some x \<longrightarrow> acc_status x \<noteq> Quota_exceeded) rows"

lemma rows_not_exceeded_quota_rows [simp]: "rows_not_exceeded (quota_rows d)"
  by (auto simp: rows_not_exceeded_def quota_rows_def list_all_iff split: option.splits if_splits)

lemma rows_not_exceeded_append [simp]:
  "rows_not_exceeded (xs @ ys) \<longleftrightarrow> rows_not_exceeded xs \<and> rows_not_exceeded ys"
  "rows_not_exceeded (r # ys) \<longleftrightarrow>
     (case r of (k, q, acc) \<Rightarrow> \<forall>x. acc = Some x \<longrightarrow> acc_status x \<noteq> Quota_exceeded) \<and> rows_not_exceeded ys"
  by (auto simp: rows_not_exceeded_def split: prod.splits)

lemma check_each_oe:
  "rows_not_exceeded rows \<Longrightarrow> only_exceeded (ts_db st) (ts_db (check_each env i rows st))"
proof (induction rows arbitrary: i st)
  case Nil
  then show ?case by simp
next
  case (Cons r rows)
  obtain k q acc where r: "r = (k, q, acc)" by (cases r) auto
  have "only_exceeded (ts_db st) (ts_db (check_quota env (te_now env i) r st))"
    using Cons.prems r by (simp add: check_quota_oe)
  also have "only_exceeded (ts_db (check_quota env (te_now env i) r st))
      (ts_db (check_each env (Suc i) rows (check_quota env (te_now env i) r st)))"
    using Cons.prems by (intro Cons.IH) simp
  finally show ?case by simp
qed

lemma checkQuotas_oe: "only_exceeded (ts_db st) (ts_db (checkQuotas env st))"
  by (simp add: checkQuotas_def Let_def check_each_oe split: option.splits)

lemma daily_limit_check_exceeded:
  assumes "js_ge (js_div (q_daily_used q) (q_daily_limit q)) 1"
    and "map_of (accounts (ts_db st)) (q_account q) \<noteq> None"
  shows "acct_status_of (ts_db (daily_limit_check env q st)) (q_account q) = Some Quota_exceeded"
  using assms by (auto simp: daily_limit_check_def Let_def on_db_def)

lemma monthly_limit_check_exceeded:
  assumes "q_monthly_limit q = Some l" "l \<noteq> 0" "js_ge (js_div (q_monthly_used q) l) 1"
    and "map_of (accounts (ts_db st)) (q_account q) \<noteq> None"
  shows "acct_status_of (ts_db (monthly_limit_check env q st)) (q_account q) = Some Quota_exceeded"
  using assms by (auto simp: monthly_limit_check_def on_db_def)

lemma check_quota_quotas:
  assumes "\<forall>x. acc = Some x \<longrightarrow> acc_status x \<noteq> Quota_exceeded"
  shows "quotas (ts_db (check_quota env now (k, q, acc) st)) =
     AList.map_entry k (\<lambda>r. (if monthly_due now q then monthly_reset now else id)
        ((if daily_due now q then daily_reset now else id) r)) (quotas (ts_db st))"
  using reset_quota_quotas [OF assms] by (simp add: check_quota_def)

lemma check_each_other_key:
  "k \<notin> set (map fst rows) \<Longrightarrow> rows_not_exceeded rows \<Longrightarrow>
   map_of (quotas (ts_db (check_each env i rows st))) k = map_of (quotas (ts_db st)) k"
proof (induction rows arbitrary: i st)
  case Nil
  then show ?case by simp
next
  case (Cons r rows)
  obtain k' q acc where r: "r = (k', q, acc)" by (cases r) auto
  with Cons.prems have "k \<noteq> k'" by simp
  with Cons.prems r show ?case
    by (simp add: Cons.IH check_quota_quotas map_entry_other)
qed

lemma map_fst_quota_rows [simp]: "map fst (quota_rows d) = map fst (quotas d)"
  by (induction "quotas d" arbitrary: d) (auto simp: quota_rows_def)

lemma quota_rows_split:
  assumes "quotas d = xs @ (k, q) # ys"
  obtains acc where "quota_rows d = quota_rows (d\<lparr>quotas := xs\<rparr>) @ (k, q, acc) # quota_rows (d\<lparr>quotas := ys\<rparr>)"
  using assms by (simp add: quota_rows_def)

lemma checkQuotas_row:
  assumes ok: "te_query_error env = None" and clock: "te_now env = (\<lambda>_. now)"
    and dist: "distinct (map fst (quotas (ts_db st)))"
  shows "map_of (quotas (ts_db (checkQuotas env st))) k =
     map_option (reset_row now) (map_of (quotas (ts_db st)) k)"
proof (cases "map_of (quotas (ts_db st)) k")
  case None
  then have "k \<notin> set (map fst (quota_rows (ts_db st)))"
    by (simp add: map_of_eq_None_iff image_iff)
  with None ok show ?thesis
    by (simp add: checkQuotas_def Let_def check_each_other_key)
next
  case (Some q)
  then obtain xs ys where split: "quotas (ts_db st) = xs @ (k, q) # ys"
    by (metis map_of_SomeD split_list)
  then obtain acc where rows: "quota_rows (ts_db st) =
      quota_rows ((ts_db st)\<lparr>quotas := xs\<rparr>) @ (k, q, acc) # quota_rows ((ts_db st)\<lparr>quotas := ys\<rparr>)"
    by (rule quota_rows_split)
  let ?xs = "quota_rows ((ts_db st)\<lparr>quotas := xs\<rparr>)" and ?ys = "quota_rows ((ts_db st)\<lparr>quotas := ys\<rparr>)"
  have nx: "rows_not_exceeded ?xs" "rows_not_exceeded ?ys"
    and nr: "\<forall>x. acc = Some x \<longrightarrow> acc_status x \<noteq> Quota_exceeded"
    using rows_not_exceeded_quota_rows [of "ts_db st"] by (simp_all only: rows rows_not_exceeded_append) simp_all
  have kx: "k \<notin> set (map fst ?xs)" and ky: "k \<notin> set (map fst ?ys)"
    using dist split by simp_all
  let ?s1 = "check_each env 0 ?xs st"
  let ?s2 = "check_quota env now (k, q, acc) ?s1"
  have "map_of (quotas (ts_db ?s1)) k = Some q"
    using check_each_other_key [OF kx nx(1)] Some by simp
  then have "map_of (quotas (ts_db ?s2)) k = Some (reset_row now q)"
    by (simp add: check_quota_quotas [OF nr] map_entry_same reset_row_def)
  then show ?thesis
    using ok clock Some check_each_other_key [OF ky nx(2), of env "Suc (length ?xs)" ?s2]
    by (simp add: checkQuotas_def Let_def rows check_each_append)
qed

lemma check_quota_exceeded:
  assumes nr: "\<forall>x. acc = Some x \<longrightarrow> acc_status x \<noteq> Quota_exceeded"
    and acct: "map_of (accounts (ts_db st)) (q_account q) \<noteq> None"
    and cond: "js_ge (js_div (q_daily_used q) (q_daily_limit q)) 1 \<or>
      (\<exists>l. q_monthly_limit q = Some l \<and> l \<noteq> 0 \<and> js_ge (js_div (q_monthly_used q) l) 1)"
  shows "acct_status_of (ts_db (check_quota env now (k, q, acc) st)) (q_account q) = Some Quota_exceeded"
proof -
  let ?s1 = "reset_quota now (k, q, acc) st"
  let ?s2 = "daily_limit_check env q ?s1"
  have a1: "map_of (accounts (ts_db ?s1)) (q_account q) \<noteq> None"
    using reset_quota_status [OF nr, of now k q st] acct
    by (cases "map_of (accounts (ts_db ?s1)) (q_account q)")
       (auto simp: acct_status_of_def fun_eq_iff dest!: spec [of _ "q_account q"])
  have a2: "map_of (accounts (ts_db ?s2)) (q_account q) \<noteq> None"
    using only_exceeded_dom [OF daily_limit_check_oe a1] .
  from cond show ?thesis
  proof
    assume "js_ge (js_div (q_daily_used q) (q_daily_limit q)) 1"
    then have "acct_status_of (ts_db ?s2) (q_account q) = Some Quota_exceeded"
      using a1 by (rule daily_limit_check_exceeded)
    then show ?thesis
      by (simp add: check_quota_def only_exceeded_keeps [OF monthly_limit_check_oe])
  next
    assume "\<exists>l. q_monthly_limit q = Some l \<and> l \<noteq> 0 \<and> js_ge (js_div (q_monthly_used q) l) 1"
    then obtain l where "q_monthly_limit q = Some l" "l \<noteq> 0" "js_ge (js_div (q_monthly_used q) l) 1"
      by blast
    from monthly_limit_check_exceeded [OF this a2] show ?thesis
      by (simp add: check_quota_def)
  qed
qed

lemma checkQuotas_exceeded:
  assumes ok: "te_query_error env = None" and mem: "(k, q) \<in> set (quotas (ts_db st))"
    and acct: "map_of (accounts (ts_db st)) (q_account q) \<noteq> None"
    and cond: "js_ge (js_div (q_daily_used q) (q_daily_limit q)) 1 \<or>
      (\<exists>l. q_monthly_limit q = Some l \<and> l \<noteq> 0 \<and> js_ge (js_div (q_monthly_used q) l) 1)"
  shows "acct_status_of (ts_db (checkQuotas env st)) (q_account q) = Some Quota_exceeded"
proof -
  obtain xs ys where split: "quotas (ts_db st) = xs @ (k, q) # ys"
    using mem by (metis split_list)
  then obtain acc where rows: "quota_rows (ts_db st) =
      quota_rows ((ts_db st)\<lparr>quotas := xs\<rparr>) @ (k, q, acc) # quota_rows ((ts_db st)\<lparr>quotas := ys\<rparr>)"
    by (rule quota_rows_split)
  let ?xs = "quota_rows ((ts_db st)\<lparr>quotas := xs\<rparr>)" and ?ys = "quota_rows ((ts_db st)\<lparr>quotas := ys\<rparr>)"
  have nx: "rows_not_exceeded ?xs" "rows_not_exceeded ?ys"
    and nr: "\<forall>x. acc = Some x \<longrightarrow> acc_status x \<noteq> Quota_exceeded"
    using rows_not_exceeded_quota_rows [of "ts_db st"] by (simp_all only: rows rows_not_exceeded_append) simp_all
  let ?s1 = "check_each env 0 ?xs st"
  let ?s2 = "check_quota env (te_now env (length ?xs)) (k, q, acc) ?s1"
  have "map_of (accounts (ts_db ?s1)) (q_account q) \<noteq> None"
    using only_exceeded_dom [OF check_each_oe [OF nx(1)] acct] .
  then have "acct_status_of (ts_db ?s2) (q_account q) = Some Quota_exceeded"
    using nr cond by (intro check_quota_exceeded)
  then show ?thesis
    using ok only_exceeded_keeps [OF check_each_oe [OF nx(2), of ?s2 env "Suc (length ?xs)"]]
    by (simp add: checkQuotas_def Let_def rows check_each_append)
qed

lemma js_ge_lt_excl: "js_ge p k \<Longrightarrow> \<not> js_lt p k"
  by (cases p) auto

lemma daily_limit_check_out:
  "ts_published (daily_limit_check env q st) = ts_published st @
     filter (\<lambda>al. te_publish_error env al = None)
       (let pct = js_div (q_daily_used q) (q_daily_limit q)
        in (if js_ge pct (te_threshold env) \<and> js_lt pct 1 then [quota_alert ''quota_warning'' q] else []) @
           (if js_ge pct 1 then [quota_alert ''quota_exceeded'' q] else []))"
  "alerts (ts_db (daily_limit_check env q st)) = alerts (ts_db st) @
     filter (\<lambda>al. te_publish_error env al = None \<and> te_insert_error env al = None)
       (let pct = js_div (q_daily_used q) (q_daily_limit q)
        in (if js_ge pct (te_threshold env) \<and> js_lt pct 1 then [quota_alert ''quota_warning'' q] else []) @
           (if js_ge pct 1 then [quota_alert ''quota_exceeded'' q] else []))"
  by (auto simp: daily_limit_check_def Let_def on_db_def sendAlert_def dest: js_ge_lt_excl
      split: option.splits)

lemma monthly_limit_check_out:
  "ts_published (monthly_limit_check env q st) = ts_published st @
     filter (\<lambda>al. te_publish_error env al = None)
       (case q_monthly_limit q of
          Some l \<Rightarrow> if l \<noteq> 0 \<and> js_ge (js_div (q_monthly_used q) l) 1
                    then [quota_alert ''monthly_quota_exceeded'' q] else []
        | None \<Rightarrow> [])"
  "alerts (ts_db (monthly_limit_check env q st)) = alerts (ts_db st) @
     filter (\<lambda>al. te_publish_error env al = None \<and> te_insert_error env al = None)
       (case q_monthly_limit q of
          Some l \<Rightarrow> if l \<noteq> 0 \<and> js_ge (js_div (q_monthly_used q) l) 1
                    then [quota_alert ''monthly_quota_exceeded'' q] else []
        | None \<Rightarrow> [])"
  by (auto simp: monthly_limit_check_def on_db_def sendAlert_def Let_def split: option.splits)

lemma check_quota_out:
  "ts_published (check_quota env now row st) = ts_published st @
     filter (\<lambda>al. te_publish_error env al = None) (row_alerts (te_threshold env) (fst (snd row)))"
  "alerts (ts_db (check_quota env now row st)) = alerts (ts_db st) @
     filter (\<lambda>al. te_publish_error env al = None \<and> te_insert_error env al = None)
       (row_alerts (te_threshold env) (fst (snd row)))"
  by (simp_all add: check_quota_def daily_limit_check_out monthly_limit_check_out row_alerts_def
      Let_def)

lemma check_each_out:
  "ts_published (check_each env i rows st) = ts_published st @
     filter (\<lambda>al. te_publish_error env al = None)
       (concat (map (\<lambda>r. row_alerts (te_threshold env) (fst (snd r))) rows))"
  "alerts (ts_db (check_each env i rows st)) = alerts (ts_db st) @
     filter (\<lambda>al. te_publish_error env al = None \<and> te_insert_error env al = None)
       (concat (map (\<lambda>r. row_alerts (te_threshold env) (fst (snd r))) rows))"
  by (induction rows arbitrary: i st) (simp_all add: check_quota_out)

lemma quota_rows_alerts [simp]:
  "map (\<lambda>r. row_alerts thr (fst (snd r))) (quota_rows d) = map (\<lambda>(k, q). row_alerts thr q) (quotas d)"
  by (induction "quotas d" arbitrary: d) (auto simp: quota_rows_def)

lemma quota_rows_Nil [simp]: "quota_rows d = [] \<longleftrightarrow> quotas d = []"
  by (simp add: quota_rows_def)

lemma checkQuotas_query_error [simp]: "te_query_error env = Some e \<Longrightarrow> checkQuotas env st = st"
  by (simp add: checkQuotas_def)

lemma fold_sendAlert:
  "ts_published (fold (\<lambda>(a, p) s. sendAlert env (f a p) s) xs st) =
     ts_published st @ filter (\<lambda>al. te_publish_error env al = None) (map (\<lambda>(a, p). f a p) xs) \<and>
   ts_db (fold (\<lambda>(a, p) s. sendAlert env (f a p) s) xs st) =
     (ts_db st)\<lparr>alerts := alerts (ts_db st) @
        filter (\<lambda>al. te_publish_error env al = None \<and> te_insert_error env al = None)
          (map (\<lambda>(a, p). f a p) xs)\<rparr>"
  by (induction xs arbitrary: st) (auto simp: sendAlert_def Let_def split: option.splits)

text \<open>
  A run of the tracker changes the status of an account only to
  \<open>quota_exceeded\<close>: every account keeps its status or becomes \<open>quota_exceeded\<close>.
\<close>

theorem checkQuotas_status_change:
  "acct_status_of (ts_db (checkQuotas env st)) b = acct_status_of (ts_db st) b \<or>
   acct_status_of (ts_db (checkQuotas env st)) b =
     map_option (\<lambda>_. Quota_exceeded) (map_of (accounts (ts_db st)) b)"
  using checkQuotas_oe [of st env] by (simp add: only_exceeded_def)

text \<open>
  C18: An account in \<open>quota_exceeded\<close> stays there after a run of the tracker, also when
  the daily reset of its quota is due: the reactivation branch reads the embedded
  account, which the query returns only for active accounts.
\<close>

theorem checkQuotas_no_reactivation:
  "acct_status_of (ts_db st) b = Some Quota_exceeded \<Longrightarrow>
   acct_status_of (ts_db (checkQuotas env st)) b = Some Quota_exceeded"
  by (rule only_exceeded_keeps [OF checkQuotas_oe])

text \<open>
  C16: With one clock reading for the run, every quota row whose daily reset is due gets
  a zero daily counter and its next reset one day later, every row whose monthly reset is
  due gets a zero monthly counter and the first instant of the next month, and nothing
  else of the counters and limits changes.
\<close>

theorem checkQuotas_resets:
  assumes ok: "te_query_error env = None" and clock: "te_now env = (\<lambda>_. now)"
    and dist: "distinct (map fst (quotas (ts_db st)))"
    and q: "map_of (quotas (ts_db st)) k = Some q"
  shows "\<exists>r. map_of (quotas (ts_db (checkQuotas env st))) k = Some r \<and>
    q_daily_used r = (if q_reset_daily_at q \<le> now then 0 else q_daily_used q) \<and>
    q_reset_daily_at r = (if q_reset_daily_at q \<le> now then now + day_ms else q_reset_daily_at q) \<and>
    q_monthly_used r = (if monthly_due now q then 0 else q_monthly_used q) \<and>
    q_reset_monthly_at r = (if monthly_due now q then Some (next_month_start now) else q_reset_monthly_at q) \<and>
    q_daily_limit r = q_daily_limit q \<and> q_monthly_limit r = q_monthly_limit q"
  using checkQuotas_row [OF ok clock dist, of k] q
  by (simp add: reset_row_def daily_due_def daily_reset_def monthly_reset_def)

text \<open>
  C17: A quota whose daily usage has reached its positive limit forces its account to
  \<open>quota_exceeded\<close>, whatever the account's status was.
\<close>

theorem checkQuotas_forces_exceeded:
  assumes ok: "te_query_error env = None" and mem: "(k, q) \<in> set (quotas (ts_db st))"
    and acct: "map_of (accounts (ts_db st)) (q_account q) \<noteq> None"
    and lim: "0 < q_daily_limit q" "q_daily_limit q \<le> q_daily_used q"
  shows "acct_status_of (ts_db (checkQuotas env st)) (q_account q) = Some Quota_exceeded"
proof -
  have "js_ge (js_div (q_daily_used q) (q_daily_limit q)) 1"
    using lim by (simp add: js_div_def)
  then show ?thesis
    using checkQuotas_exceeded [OF ok mem acct] by blast
qed

text \<open>
  C19: On the day its reset is due, a quota that had reached its limit is reset to zero
  usage and its account is nevertheless set to \<open>quota_exceeded\<close>: the limit check reads
  the usage of the snapshot taken before the reset.
\<close>

theorem checkQuotas_stale_reset:
  assumes ok: "te_query_error env = None" and clock: "te_now env = (\<lambda>_. now)"
    and dist: "distinct (map fst (quotas (ts_db st)))"
    and q: "map_of (quotas (ts_db st)) k = Some q"
    and acct: "map_of (accounts (ts_db st)) (q_account q) \<noteq> None"
    and due: "q_reset_daily_at q \<le> now"
    and lim: "0 < q_daily_limit q" "q_daily_limit q \<le> q_daily_used q"
  shows "map_option q_daily_used (map_of (quotas (ts_db (checkQuotas env st))) k) = Some 0 \<and>
    acct_status_of (ts_db (checkQuotas env st)) (q_account q) = Some Quota_exceeded"
proof -
  have "js_ge (js_div (q_daily_used q) (q_daily_limit q)) 1"
    using lim by (simp add: js_div_def)
  then have "acct_status_of (ts_db (checkQuotas env st)) (q_account q) = Some Quota_exceeded"
    using checkQuotas_exceeded [OF ok map_of_SomeD [OF q] acct] by blast
  moreover have "map_option q_daily_used (map_of (quotas (ts_db (checkQuotas env st))) k) = Some 0"
    using checkQuotas_row [OF ok clock dist, of k] q due
    by (simp add: reset_row_def daily_due_def daily_reset_def monthly_reset_def)
  ultimately show ?thesis by simp
qed

text \<open>
  C20: The tracker publishes, in table order, a warning for each quota whose daily ratio
  is in \<open>[threshold, 1)\<close>, an exceeded alert for each daily ratio of at least 1 and a
  monthly alert for each monthly ratio of at least 1; the alerts table receives those
  whose publication and insertion succeed; a failing query publishes nothing.
\<close>

theorem checkQuotas_alerts:
  "ts_published (checkQuotas env st) = ts_published st @
     (case te_query_error env of Some _ \<Rightarrow> [] | None \<Rightarrow>
        filter (\<lambda>al. te_publish_error env al = None)
          (concat (map (\<lambda>(k, q). row_alerts (te_threshold env) q) (quotas (ts_db st))))) \<and>
   alerts (ts_db (checkQuotas env st)) = alerts (ts_db st) @
     (case te_query_error env of Some _ \<Rightarrow> [] | None \<Rightarrow>
        filter (\<lambda>al. te_publish_error env al = None \<and> te_insert_error env al = None)
          (concat (map (\<lambda>(k, q). row_alerts (te_threshold env) q) (quotas (ts_db st)))))"
  by (cases "te_query_error env")
     (auto simp: checkQuotas_def Let_def check_each_out)

text \<open>
  The scan of expiring sessions is advisory: it changes nothing in the database but
  the alerts table, and it sends one \<open>session_expiring\<close> alert per session that expires
  within seven days, for every account, with the provider only for active accounts.
\<close>

theorem checkExpiringSessions_advisory:
  "(ts_db (checkExpiringSessions env st))\<lparr>alerts := alerts (ts_db st)\<rparr> = ts_db st \<and>
   ts_published (checkExpiringSessions env st) = ts_published st @
     (case te_query_error env of Some _ \<Rightarrow> [] | None \<Rightarrow>
        filter (\<lambda>al. te_publish_error env al = None)
          (map (\<lambda>(a, p). \<lparr>al_type = ''session_expiring'', al_account = a, al_provider = p\<rparr>)
             (expiring_rows (te_now env 0) (ts_db st))))"
  by (cases "te_query_error env")
     (simp_all add: checkExpiringSessions_def fold_sendAlert)

subsection \<open>The primary keys under a tracker run\<close>

lemma db_keys_tracker_writes [db_keys_simps]:
  "db_keys (set_account_status a s d) = db_keys d"
  "db_keys (set_quota k f d) = db_keys d"
  "db_keys (ts_db (sendAlert env al st)) = db_keys (ts_db st)"
  by (simp_all add: set_account_status_def set_quota_def db_keys_def)

lemma db_keys_check_quota [db_keys_simps]:
  "db_keys (ts_db (check_quota env now row st)) = db_keys (ts_db st)"
  by (cases row) (simp add: check_quota_def reset_quota_def daily_limit_check_def
      monthly_limit_check_def on_db_def Let_def db_keys_tracker_writes split: option.split)

lemma db_keys_check_each: "db_keys (ts_db (check_each env i rows st)) = db_keys (ts_db st)"
  by (induction rows arbitrary: i st) (simp_all add: db_keys_check_quota)

lemma checkQuotas_wf: "db_wf (ts_db st) \<Longrightarrow> db_wf (ts_db (checkQuotas env st))"
  by (auto simp: checkQuotas_def Let_def db_keys_check_each split: option.split
      intro: db_wf_keysI)

lemma db_keys_fold_sendAlert:
  "db_keys (ts_db (fold (\<lambda>(a, p) s. sendAlert env (f a p) s) xs st)) = db_keys (ts_db st)"
  by (induction xs arbitrary: st) (auto simp: db_keys_tracker_writes)

lemma checkExpiringSessions_wf: "db_wf (ts_db st) \<Longrightarrow> db_wf (ts_db (checkExpiringSessions env st))"
  by (auto simp: checkExpiringSessions_def split: option.split intro: db_wf_keysI db_keys_fold_sendAlert)

end
