(* ===== verification/Queries.thy ===== *)
theory Queries
  imports Intake QuotaTracker
begin

text \<open>
  The two read-only endpoints: \<open>GET /api/v1/status/{id}\<close> of
  \<open>src/supabase/functions/status/index.ts\<close> and \<open>GET /api/v1/quotas\<close> of
  \<open>src/supabase/functions/quotas/index.ts\<close>. Neither writes, so each handler is a function
  of the request and the state to a response. Both check the API key as the intake does
  (\<open>verify_key\<close>). The quotas endpoint keeps the PostgREST meaning of its filter on the
  embedded \<open>accounts\<close> resource: the filter decides which rows carry their account, not
  which rows are returned. The status values of the summary are ordered by how bad they
  are, an instance of \<open>linorder\<close>, so that the aggregation can be compared with a
  maximum.
\<close>

record query_env =
  qe_method :: string
  qe_auth :: "string option"
  qe_sha256 :: "string \<Rightarrow> nat list"
  qe_path :: string
  qe_quotas_error :: "string option"

datatype 'a response = Resp_preflight | Resp_error string | Resp_ok 'a

text \<open>Lines 26 to 42 of either endpoint: the key from the header, then one key row.\<close>

definition verify_key :: "query_env \<Rightarrow> (string, api_key) table \<Rightarrow> (string \<times> api_key) res" where
  "verify_key env keys =
     (case auth_key (qe_auth env) of
        None \<Rightarrow> Inl ''Missing API key''
      | Some key \<Rightarrow>
          (case find_api_key (hashAPIKey (qe_sha256 env) key) keys of
             None \<Rightarrow> Inl ''Invalid API key''
           | Some x \<Rightarrow> Inr x))"

subsection \<open>The status endpoint\<close>

text \<open>\<open>url.pathname.split('/').pop()\<close>: the text after the last slash.\<close>

definition last_segment :: "string \<Rightarrow> string" where
  "last_segment s = rev (takeWhile (\<lambda>c. c \<noteq> CHR ''/'') (rev s))"

record status_view =
  sv_id :: string
  sv_status :: req_status
  sv_provider_requested :: "string option"
  sv_provider_used :: "string option"
  sv_response :: "string option"
  sv_tokens :: "nat option"
  sv_latency :: "int option"
  sv_error :: "string option"
  sv_completed_at :: "time option"

definition status_view_of :: "string \<Rightarrow> request \<Rightarrow> status_view" where
  "status_view_of i r =
     \<lparr>sv_id = i, sv_status = req_status r, sv_provider_requested = req_provider_requested r,
      sv_provider_used = req_provider_used r, sv_response = req_response r,
      sv_tokens = req_tokens r, sv_latency = req_latency r, sv_error = req_error r,
      sv_completed_at = req_completed_at r\<rparr>"

text \<open>\<open>.eq('id', requestId).eq('user_id', userId).single()\<close>.\<close>

definition find_request :: "string \<Rightarrow> string \<Rightarrow> (string, request) table \<Rightarrow> (string \<times> request) option" where
  "find_request rid u rs =
     (case filter (\<lambda>(i, r). i = rid \<and> req_user r = u) rs of [x] \<Rightarrow> Some x | _ \<Rightarrow> None)"

definition status_handler :: "query_env \<Rightarrow> istate \<Rightarrow> status_view response" where
  "status_handler env st =
     (if qe_method env = ''OPTIONS'' then Resp_preflight
      else case verify_key env (is_keys st) of
        Inl m \<Rightarrow> Resp_error m
      | Inr (kid, kd) \<Rightarrow>
          let rid = last_segment (qe_path env)
          in if rid = [] then Resp_error ''Missing request ID''
             else case find_request rid (ak_user kd) (requests (is_db st)) of
                    None \<Rightarrow> Resp_error ''Request not found''
                  | Some (i, r) \<Rightarrow> Resp_ok (status_view_of i r))"

subsection \<open>The quotas endpoint\<close>

datatype qstatus = Q_available | Q_limited | Q_exceeded

definition qstatus_rank :: "qstatus \<Rightarrow> nat" where
  "qstatus_rank s = (case s of Q_available \<Rightarrow> 0 | Q_limited \<Rightarrow> 1 | Q_exceeded \<Rightarrow> 2)"

instantiation qstatus :: linorder
begin

definition less_eq_qstatus :: "qstatus \<Rightarrow> qstatus \<Rightarrow> bool" where
  "less_eq_qstatus s t \<longleftrightarrow> qstatus_rank s \<le> qstatus_rank t"

definition less_qstatus :: "qstatus \<Rightarrow> qstatus \<Rightarrow> bool" where
  "less_qstatus s t \<longleftrightarrow> qstatus_rank s < qstatus_rank t"

instance
proof
  fix s t u :: qstatus
  show "s < t \<longleftrightarrow> s \<le> t \<and> \<not> t \<le> s" by (simp add: less_eq_qstatus_def less_qstatus_def) linarith
  show "s \<le> s" by (simp add: less_eq_qstatus_def)
  show "s \<le> t \<Longrightarrow> t \<le> u \<Longrightarrow> s \<le> u" by (simp add: less_eq_qstatus_def)
  show "s \<le> t \<Longrightarrow> t \<le> s \<Longrightarrow> s = t"
    by (cases s; cases t) (simp_all add: less_eq_qstatus_def qstatus_rank_def)
  show "s \<le> t \<or> t \<le> s" by (simp add: less_eq_qstatus_def) linarith
qed

end

record usage_sum =
  us_used :: int
  us_limit :: int
  us_remaining :: int

record provider_summary =
  ps_daily :: usage_sum
  ps_monthly :: "usage_sum option"
  ps_reset_daily_at :: time
  ps_reset_monthly_at :: "time option"
  ps_status :: qstatus

text \<open>Lines 56 to 66: the remaining counts and the status of one quota row.\<close>

definition daily_remaining :: "quota \<Rightarrow> int" where
  "daily_remaining q = max 0 (q_daily_limit q - q_daily_used q)"

definition monthly_remaining :: "quota \<Rightarrow> int option" where
  "monthly_remaining q =
     (case q_monthly_limit q of Some l \<Rightarrow> if l \<noteq> 0 then Some (max 0 (l - q_monthly_used q)) else None
      | None \<Rightarrow> None)"

definition quota_status :: "quota \<Rightarrow> qstatus" where
  "quota_status q =
     (if q_daily_limit q \<le> q_daily_used q then Q_exceeded
      else if js_ge (js_div (q_daily_used q) (q_daily_limit q)) (9 / 10) then Q_limited
      else Q_available)"

text \<open>Lines 100 to 106: the worst status wins.\<close>

definition worse :: "qstatus \<Rightarrow> qstatus \<Rightarrow> qstatus" where
  "worse cur s = (if s = Q_exceeded \<or> (cur \<noteq> Q_exceeded \<and> s = Q_limited) then s else cur)"

definition empty_usage :: usage_sum where
  "empty_usage = \<lparr>us_used = 0, us_limit = 0, us_remaining = 0\<rparr>"

text \<open>The body of \<open>quotas?.forEach\<close> (lines 55 to 107) on the summary of the providers.\<close>

definition add_quota :: "(string, provider_summary) table \<Rightarrow> quota \<Rightarrow> (string, provider_summary) table" where
  "add_quota ps q =
     (let p = q_provider q;
          cur = (case map_of ps p of Some x \<Rightarrow> x
                 | None \<Rightarrow> \<lparr>ps_daily = empty_usage, ps_monthly = None,
                           ps_reset_daily_at = q_reset_daily_at q,
                           ps_reset_monthly_at = q_reset_monthly_at q, ps_status = Q_available\<rparr>);
          d = ps_daily cur;
          d' = \<lparr>us_used = us_used d + q_daily_used q, us_limit = us_limit d + q_daily_limit q,
                us_remaining = us_remaining d + daily_remaining q\<rparr>;
          m' = (case monthly_remaining q of
                  Some r \<Rightarrow>
                    let m = (case ps_monthly cur of Some m \<Rightarrow> m | None \<Rightarrow> empty_usage)
                    in Some \<lparr>us_used = us_used m + q_monthly_used q,
                             us_limit = us_limit m + the (q_monthly_limit q),
                             us_remaining = us_remaining m + r\<rparr>
                | None \<Rightarrow> ps_monthly cur)
      in AList.update p (cur\<lparr>ps_daily := d', ps_monthly := m',
                             ps_status := worse (ps_status cur) (quota_status q)\<rparr>) ps)"

text \<open>
  \<open>.from('quotas').select('*, accounts(*)').eq('accounts.user_id', userId)\<close> (lines 45
  to 48): every quota row, each with its account embedded when the account belongs to
  the caller.
\<close>

definition quotas_query :: "string \<Rightarrow> db \<Rightarrow> (quota \<times> account option) list" where
  "quotas_query u d =
     map (\<lambda>(k, q). (q, case map_of (accounts d) (q_account q) of
                          Some a \<Rightarrow> if acc_user a = u then Some a else None
                        | None \<Rightarrow> None)) (quotas d)"

definition summarize :: "(quota \<times> account option) list \<Rightarrow> (string, provider_summary) table" where
  "summarize rows = fold (\<lambda>(q, a) ps. add_quota ps q) rows []"

text \<open>Lines 110 to 117: the caller's accounts, active ones and expired ones.\<close>

definition count_accounts :: "string \<Rightarrow> db \<Rightarrow> nat \<times> nat \<times> nat" where
  "count_accounts u d =
     (let xs = map snd (filter (\<lambda>(i, a). acc_user a = u) (accounts d))
      in (length xs, length (filter (\<lambda>a. acc_status a = Active) xs),
          length (filter (\<lambda>a. acc_status a = Expired) xs)))"

record quotas_view =
  qv_providers :: "(string, provider_summary) table"
  qv_total :: nat
  qv_active :: nat
  qv_expired :: nat

definition quotas_handler :: "query_env \<Rightarrow> istate \<Rightarrow> quotas_view response" where
  "quotas_handler env st =
     (if qe_method env = ''OPTIONS'' then Resp_preflight
      else case verify_key env (is_keys st) of
        Inl m \<Rightarrow> Resp_error m
      | Inr (kid, kd) \<Rightarrow>
          (case qe_quotas_error env of
             Some m \<Rightarrow> Resp_error m
           | None \<Rightarrow>
               let u = ak_user kd; (t, a, e) = count_accounts u (is_db st)
               in Resp_ok \<lparr>qv_providers = summarize (quotas_query u (is_db st)),
                           qv_total = t, qv_active = a, qv_expired = e\<rparr>))"

lemmas query_defs [model_defs] = verify_key_def last_segment_def status_view_of_def find_request_def
  status_handler_def qstatus_rank_def daily_remaining_def monthly_remaining_def quota_status_def
  worse_def empty_usage_def add_quota_def quotas_query_def summarize_def count_accounts_def
  quotas_handler_def

definition provider_quotas :: "(quota \<times> account option) list \<Rightarrow> string \<Rightarrow> quota list" where
  "provider_quotas rows p = filter (\<lambda>q. q_provider q = p) (map fst rows)"

subsection \<open>Properties of the queries\<close>

lemma find_request_Some:
  "find_request rid u rs = Some (i, r) \<Longrightarrow> (i, r) \<in> set rs \<and> i = rid \<and> req_user r = u"
proof -
  assume f: "find_request rid u rs = Some (i, r)"
  then have "filter (\<lambda>(i, r). i = rid \<and> req_user r = u) rs = [(i, r)]"
    by (auto simp: find_request_def split: list.splits)
  then have "(i, r) \<in> set (filter (\<lambda>(i, r). i = rid \<and> req_user r = u) rs)" by simp
  then show ?thesis by auto
qed

lemma worse_max [simp]: "worse cur s = max cur s"
  by (cases cur; cases s) (simp_all add: worse_def max_def less_eq_qstatus_def qstatus_rank_def)

lemma summarize_snoc: "summarize (rows @ [x]) = add_quota (summarize rows) (fst x)"
  by (cases x) (simp add: summarize_def)

lemma provider_quotas_snoc:
  "provider_quotas (rows @ [x]) p =
     (if q_provider (fst x) = p then provider_quotas rows p @ [fst x] else provider_quotas rows p)"
  by (simp add: provider_quotas_def)

lemma add_quota_lookup:
  "map_of (add_quota ps q) p =
     (if p = q_provider q then Some (let cur = (case map_of ps p of Some x \<Rightarrow> x
                 | None \<Rightarrow> \<lparr>ps_daily = empty_usage, ps_monthly = None,
                           ps_reset_daily_at = q_reset_daily_at q,
                           ps_reset_monthly_at = q_reset_monthly_at q, ps_status = Q_available\<rparr>);
          d = ps_daily cur
        in cur\<lparr>ps_daily := \<lparr>us_used = us_used d + q_daily_used q, us_limit = us_limit d + q_daily_limit q,
                us_remaining = us_remaining d + daily_remaining q\<rparr>,
               ps_monthly := (case monthly_remaining q of
                  Some r \<Rightarrow>
                    let m = (case ps_monthly cur of Some m \<Rightarrow> m | None \<Rightarrow> empty_usage)
                    in Some \<lparr>us_used = us_used m + q_monthly_used q,
                             us_limit = us_limit m + the (q_monthly_limit q),
                             us_remaining = us_remaining m + r\<rparr>
                | None \<Rightarrow> ps_monthly cur),
               ps_status := max (ps_status cur) (quota_status q)\<rparr>)
      else map_of ps p)"
  by (simp add: add_quota_def Let_def update_conv')

lemma summarize_daily:
  "map_option ps_daily (map_of (summarize rows) p) =
     (if provider_quotas rows p = [] then None
      else Some \<lparr>us_used = sum_list (map q_daily_used (provider_quotas rows p)),
                 us_limit = sum_list (map q_daily_limit (provider_quotas rows p)),
                 us_remaining = sum_list (map daily_remaining (provider_quotas rows p))\<rparr>)"
proof (induction rows rule: rev_induct)
  case Nil
  then show ?case by (simp add: summarize_def provider_quotas_def)
next
  case (snoc x rows)
  show ?case
  proof (cases "q_provider (fst x) = p")
    case True
    show ?thesis
    proof (cases "provider_quotas rows p = []")
      case e: True
      with snoc.IH have "map_of (summarize rows) p = None" by simp
      with True e show ?thesis
        by (simp add: summarize_snoc provider_quotas_snoc add_quota_lookup Let_def empty_usage_def)
    next
      case ne: False
      with snoc.IH obtain y where "map_of (summarize rows) p = Some y"
        "ps_daily y = \<lparr>us_used = sum_list (map q_daily_used (provider_quotas rows p)),
                 us_limit = sum_list (map q_daily_limit (provider_quotas rows p)),
                 us_remaining = sum_list (map daily_remaining (provider_quotas rows p))\<rparr>" by auto
      with True ne show ?thesis
        by (simp add: summarize_snoc provider_quotas_snoc add_quota_lookup Let_def)
    qed
  next
    case False
    with snoc.IH show ?thesis
      by (simp add: summarize_snoc provider_quotas_snoc add_quota_lookup)
  qed
qed

text \<open>
  C32: The status the quotas endpoint reports for a provider is the worst status of the
  provider's quota rows, the maximum in the order available, limited, quota_exceeded;
  a provider without rows is not reported.
\<close>

theorem summarize_status:
  "map_option ps_status (map_of (summarize rows) p) =
     (if provider_quotas rows p = [] then None
      else Some (Max (quota_status ` set (provider_quotas rows p))))"
proof (induction rows rule: rev_induct)
  case Nil
  then show ?case by (simp add: summarize_def provider_quotas_def)
next
  case (snoc x rows)
  show ?case
  proof (cases "q_provider (fst x) = p")
    case True
    show ?thesis
    proof (cases "provider_quotas rows p = []")
      case e: True
      with snoc.IH have "map_of (summarize rows) p = None" by simp
      with True e show ?thesis
        by (simp add: summarize_snoc provider_quotas_snoc add_quota_lookup Let_def max_def
            less_eq_qstatus_def qstatus_rank_def split: qstatus.split)
    next
      case ne: False
      with snoc.IH obtain y where y: "map_of (summarize rows) p = Some y"
        "ps_status y = Max (quota_status ` set (provider_quotas rows p))" by auto
      have "Max (insert (quota_status (fst x)) (quota_status ` set (provider_quotas rows p))) =
          max (quota_status (fst x)) (Max (quota_status ` set (provider_quotas rows p)))"
        using ne by (simp add: Max_insert)
      with True ne y show ?thesis
        by (simp add: summarize_snoc provider_quotas_snoc add_quota_lookup Let_def max.commute)
    qed
  next
    case False
    with snoc.IH show ?thesis
      by (simp add: summarize_snoc provider_quotas_snoc add_quota_lookup)
  qed
qed

lemma summarize_dom:
  "map_of (summarize rows) p \<noteq> None \<longleftrightarrow> provider_quotas rows p \<noteq> []"
  using summarize_daily [of rows p] by (auto split: if_splits)

lemma quotas_handler_ok:
  assumes "quotas_handler env st = Resp_ok v"
  shows "\<exists>kid kd. verify_key env (is_keys st) = Inr (kid, kd) \<and> qe_quotas_error env = None \<and>
    qv_providers v = summarize (quotas_query (ak_user kd) (is_db st)) \<and>
    (qv_total v, qv_active v, qv_expired v) = count_accounts (ak_user kd) (is_db st)"
  using assms
  by (auto simp: quotas_handler_def Let_def split: if_splits sum.splits option.splits prod.splits)

text \<open>
  The daily figures of a provider are the sums over its quota rows, and the remaining
  count is never negative and never below the limit minus the usage.
\<close>

theorem summarize_daily_bounds:
  assumes "map_of (summarize rows) p = Some s"
  shows "us_used (ps_daily s) = sum_list (map q_daily_used (provider_quotas rows p)) \<and>
    us_limit (ps_daily s) = sum_list (map q_daily_limit (provider_quotas rows p)) \<and>
    0 \<le> us_remaining (ps_daily s) \<and> us_limit (ps_daily s) - us_used (ps_daily s) \<le> us_remaining (ps_daily s)"
proof -
  let ?qs = "provider_quotas rows p"
  have ne: "?qs \<noteq> []" using assms summarize_dom by blast
  with assms summarize_daily [of rows p] have d:
    "ps_daily s = \<lparr>us_used = sum_list (map q_daily_used ?qs), us_limit = sum_list (map q_daily_limit ?qs),
       us_remaining = sum_list (map daily_remaining ?qs)\<rparr>" by simp
  have "0 \<le> sum_list (map daily_remaining ?qs)"
    by (rule sum_list_nonneg) (auto simp: daily_remaining_def)
  moreover have "sum_list (map (\<lambda>q. q_daily_limit q - q_daily_used q) ?qs) \<le> sum_list (map daily_remaining ?qs)"
    by (rule sum_list_mono) (simp add: daily_remaining_def)
  ultimately show ?thesis by (simp add: d sum_list_subtractf)
qed

text \<open>
  C30: The quotas endpoint reports the provider of every quota row of the database,
  whoever owns the row's account: the filter on the embedded account filters nothing, so
  a caller sees the providers and the usage of other users' accounts.
\<close>

theorem quotas_handler_all_users:
  assumes "quotas_handler env st = Resp_ok v" and "(k, q) \<in> set (quotas (is_db st))"
  shows "q_provider q \<in> fst ` set (qv_providers v)"
proof -
  obtain kid and kd :: api_key where v: "qv_providers v = summarize (quotas_query (ak_user kd) (is_db st))"
    using quotas_handler_ok [OF assms(1)] by blast
  have "q \<in> set (provider_quotas (quotas_query (ak_user kd) (is_db st)) (q_provider q))"
    using assms(2) by (force simp: provider_quotas_def quotas_query_def)
  then have "map_of (qv_providers v) (q_provider q) \<noteq> None"
    unfolding v summarize_dom by auto
  then show ?thesis by (simp add: dom_map_of_conv_image_fst [symmetric] domIff)
qed

text \<open>
  C31: The status endpoint answers only with a request of the caller: the row whose id is
  the last segment of the path and whose user owns the API key, with that row's fields.
\<close>

theorem status_handler_own_request:
  assumes "status_handler env st = Resp_ok v"
  shows "\<exists>kid kd r. verify_key env (is_keys st) = Inr (kid, kd) \<and> (sv_id v, r) \<in> set (requests (is_db st)) \<and>
    req_user r = ak_user kd \<and> sv_id v = last_segment (qe_path env) \<and> v = status_view_of (sv_id v) r"
proof -
  obtain kid kd where k: "verify_key env (is_keys st) = Inr (kid, kd)"
    using assms by (auto simp: status_handler_def split: if_splits sum.splits)
  then obtain i r where f: "find_request (last_segment (qe_path env)) (ak_user kd) (requests (is_db st)) = Some (i, r)"
    and v: "v = status_view_of i r"
    using assms by (auto simp: status_handler_def Let_def split: if_splits option.splits)
  show ?thesis
    using find_request_Some [OF f] k v
    by (intro exI [of _ kid] exI [of _ kd] exI [of _ r]) (auto simp: status_view_of_def)
qed

end
