(* ===== verification/Examples.thy ===== *)
theory Examples
  imports Dispatcher QuotaTracker
begin

text \<open>
  Concrete inputs on which the properties of the worker are applied: one user with one
  Claude account and one queued request, an empty pool, and environments in which the
  page answers, the login is lost, or one database call fails.
\<close>

definition ex_account :: account where
  "ex_account = \<lparr>acc_user = ''u1'', acc_provider = ''claude'', acc_email = ''a@example.com'',
     acc_status = Active, acc_last_used_at = None, acc_updated_at = 0\<rparr>"

definition ex_request :: request where
  "ex_request = \<lparr>req_user = ''u1'', req_prompt = ''hello'', req_provider_requested = Some ''claude'',
     req_provider_used = None, req_account = Some ''acc1'', req_status = Queued, req_priority = 5,
     req_response = None, req_tokens = None, req_latency = None, req_error = None,
     req_completed_at = None\<rparr>"

definition ex_quota :: quota where
  "ex_quota = \<lparr>q_account = ''acc1'', q_provider = ''claude'', q_daily_limit = 10, q_daily_used = 9,
     q_monthly_limit = None, q_monthly_used = 0, q_reset_daily_at = 100000,
     q_reset_monthly_at = None, q_updated_at = 0\<rparr>"

definition ex_db :: db where
  "ex_db = \<lparr>accounts = [(''acc1'', ex_account)], browser_sessions = [],
     quotas = [(''q1'', ex_quota)], requests = [(''req1'', ex_request)], usage_logs = [],
     alerts = [], screenshots = []\<rparr>"

definition ex_world :: world where
  "ex_world = \<lparr>db = ex_db, pool = [], live = [], disk = [], next_handle = 0\<rparr>"

definition ex_launch :: launch_env where
  "ex_launch = \<lparr>le_load = None, le_launch = None, le_restore = None\<rparr>"

definition ex_job :: chat_request_job where
  "ex_job = \<lparr>job_request_id = ''req1'', job_account_id = ''acc1'', job_provider = ''claude'',
     job_prompt = ''hello'', job_priority = 5\<rparr>"

definition ex_page :: page_env where
  "ex_page = \<lparr>pe_goto = None, pe_logged_in = True, pe_fill = None, pe_response = None,
     pe_done = None, pe_text = Some ''Hi there'', pe_set_cookies = [(''sid'', ''s1'')],
     pe_set_storage = [(''theme'', ''dark'')]\<rparr>"

definition ex_resp :: chat_response where
  "ex_resp = \<lparr>cr_text = ''Hi there'', cr_tokens = 4, cr_provider = ''claude'',
     cr_model = ''claude-web''\<rparr>"

definition ex_env :: job_env where
  "ex_env = \<lparr>je_start = 1000, je_end = 3000, je_launch = ex_launch, je_relaunch = ex_launch,
     je_page = ex_page, je_fault = (\<lambda>_. None), je_shot = Shot_ok\<rparr>"

definition ex_env_logout :: job_env where
  "ex_env_logout = ex_env\<lparr>je_page := ex_page\<lparr>pe_logged_in := False\<rparr>\<rparr>"

definition ex_env_save_fails :: job_env where
  "ex_env_save_fails = ex_env\<lparr>je_fault := (\<lambda>c. if c = Call_saveSession then Some ''disk full'' else None)\<rparr>"

definition ex_env_log_fails :: job_env where
  "ex_env_log_fails =
     ex_env_logout\<lparr>je_fault := (\<lambda>c. if c = Call_logUsage_error then Some ''log failed'' else None)\<rparr>"

definition ex_world_done :: world where
  "ex_world_done = ex_world\<lparr>db := ex_db\<lparr>requests := [(''req1'', ex_request\<lparr>req_status := Completed\<rparr>)]\<rparr>\<rparr>"

definition ex_ctx :: ctx where
  "ex_ctx = \<lparr>ctx_handle = 0, ctx_account = ''acc1'', ctx_cookies = [(''sid'', ''s1'')],
     ctx_storage = [(''theme'', ''dark'')], ctx_pages = 1\<rparr>"

definition ex_world_pooled :: world where
  "ex_world_pooled = register_ctx ''acc1'' ex_ctx ex_world"

definition ex_launch_fails :: launch_env where
  "ex_launch_fails = \<lparr>le_load = Some ''db down'', le_launch = Some ''no browser'', le_restore = None\<rparr>"

definition ex_world_expired :: world where
  "ex_world_expired = ex_world\<lparr>db := ex_db\<lparr>browser_sessions := [(''acc1'',
       \<lparr>ses_cookies = [(''sid'', ''new'')], ses_local_storage = [], ses_expires_at = 500,
        ses_updated_at = 0\<rparr>)]\<rparr>,
     disk := [(''acc1'', \<lparr>pf_cookies = [(''sid'', ''old'')], pf_storage = []\<rparr>)]\<rparr>"

definition ex_page_slow :: page_env where
  "ex_page_slow = ex_page\<lparr>pe_done := Some ''Timeout 120000ms exceeded''\<rparr>"

definition ex_tenv :: tracker_env where
  "ex_tenv = \<lparr>te_query_error = None, te_now = (\<lambda>_. 200000), te_threshold = 9 / 10,
     te_publish_error = (\<lambda>_. None), te_insert_error = (\<lambda>_. None)\<rparr>"

definition ex_db_full :: db where
  "ex_db_full = ex_db\<lparr>quotas := [(''q1'', ex_quota\<lparr>q_daily_used := 10\<rparr>)]\<rparr>"

definition ex_db_qe :: db where
  "ex_db_qe = ex_db_full\<lparr>accounts := [(''acc1'', ex_account\<lparr>acc_status := Quota_exceeded\<rparr>)]\<rparr>"

lemmas example_defs = ex_account_def ex_request_def ex_quota_def ex_db_def ex_world_def
  ex_launch_def ex_job_def ex_page_def ex_resp_def ex_env_def ex_env_logout_def
  ex_env_save_fails_def ex_env_log_fails_def ex_world_done_def ex_ctx_def ex_world_pooled_def
  ex_launch_fails_def ex_world_expired_def ex_page_slow_def ex_tenv_def ex_db_full_def ex_db_qe_def

subsection \<open>The example inputs evaluated\<close>

lemma ex_acquire_ok: "acquire_error ex_launch ex_world ''acc1'' = None"
  by (simp add: acquire_error_def ex_launch_def ex_world_def)

lemma ex_acquire_ok_done: "acquire_error ex_launch ex_world_done ''acc1'' = None"
  by (simp add: acquire_error_def ex_launch_def ex_world_done_def ex_world_def)

lemma ex_claude_answers: "automateChat ''claude'' ex_page ''hello'' = Inr ex_resp"
  by code_simp

lemma ex_claude_logged_out:
  "automateChat ''claude'' (ex_page\<lparr>pe_logged_in := False\<rparr>) ''hello'' = Inl (auth_lost_msg ''Claude'')"
  by code_simp

lemma ex_auth_msg: "is_auth_error (auth_lost_msg ''Claude'')"
  by code_simp

lemma ex_world_inv: "pool_inv ex_world"
  by (simp add: pool_inv_def ex_world_def)

lemma ex_requests: "map_of (requests (db ex_world)) ''req1'' = Some ex_request"
  by (simp add: ex_world_def ex_db_def)

lemma ex_world_sel [simp]:
  "usage_logs (db ex_world) = []" "map_of (accounts (db ex_world)) ''acc1'' = Some ex_account"
  "acc_status ex_account = Active"
  by (simp_all add: ex_world_def ex_db_def ex_account_def)

lemma ex_env_sel [simp]:
  "je_launch ex_env = ex_launch" "je_page ex_env = ex_page" "je_fault ex_env c = None"
  "je_launch ex_env_logout = ex_launch" "je_page ex_env_logout = ex_page\<lparr>pe_logged_in := False\<rparr>"
  "je_fault ex_env_logout c = None"
  "je_launch ex_env_save_fails = ex_launch" "je_page ex_env_save_fails = ex_page"
  "je_fault ex_env_save_fails c = (if c = Call_saveSession then Some ''disk full'' else None)"
  "je_launch ex_env_log_fails = ex_launch" "je_page ex_env_log_fails = ex_page\<lparr>pe_logged_in := False\<rparr>"
  "je_fault ex_env_log_fails c = (if c = Call_logUsage_error then Some ''log failed'' else None)"
  by (simp_all add: ex_env_def ex_env_logout_def ex_env_save_fails_def ex_env_log_fails_def)

lemma ex_job_sel [simp]:
  "job_request_id ex_job = ''req1''" "job_account_id ex_job = ''acc1''"
  "job_provider ex_job = ''claude''" "job_prompt ex_job = ''hello''"
  by (simp_all add: ex_job_def)

subsection \<open>The properties of the job processor applied\<close>

theorem process_job_success_witness:
  "acquire_error (je_launch ex_env) ex_world (job_account_id ex_job) = None \<and>
   automateChat (job_provider ex_job) (je_page ex_env) (job_prompt ex_job) = Inr ex_resp \<and>
   fst (process_job default_config ex_env ex_job ex_world) = Inr ex_resp \<and>
   map_option req_status
     (map_of (requests (db (snd (process_job default_config ex_env ex_job ex_world)))) ''req1'')
     = Some Completed"
proof -
  have h1: "acquire_error (je_launch ex_env) ex_world (job_account_id ex_job) = None"
    using ex_acquire_ok by simp
  have h2: "automateChat (job_provider ex_job) (je_page ex_env) (job_prompt ex_job) = Inr ex_resp"
    using ex_claude_answers by simp
  have h3: "je_fault ex_env c = None" for c by simp
  show ?thesis
    using process_job_success [OF h1 h2 h3 h3 h3 prod.collapse [symmetric]] h1 h2 ex_requests
    by simp
qed

theorem process_job_preserves_pool_inv_witness:
  "pool_inv ex_world \<and> pool_inv (snd (process_job default_config ex_env ex_job ex_world))"
  using process_job_preserves_pool_inv [OF ex_world_inv] ex_world_inv by simp

theorem process_job_status_safety_witness:
  "map_option acc_status
     (map_of (accounts (db (snd (process_job default_config ex_env_logout ex_job ex_world)))) ''acc1'')
   \<in> {Some Active, Some Expired}"
  using process_job_status_safety [OF prod.collapse [symmetric], of default_config ex_env_logout ex_job
      ex_world "''acc1''"]
  by auto

theorem process_job_lifecycle_witness:
  "map_of (requests (db ex_world)) (job_request_id ex_job) = Some ex_request \<and>
   je_fault ex_env Call_logUsage_error = None \<and>
   (\<exists>q'. map_of (requests (db (snd (process_job default_config ex_env ex_job ex_world)))) ''req1''
      = Some q' \<and> req_trans Processing (req_status q'))"
  using process_job_lifecycle [of ex_world ex_job ex_request ex_env, OF _ _ prod.collapse [symmetric]]
    ex_requests
  by auto

theorem process_job_auth_lost_witness:
  "fst (process_job default_config ex_env_logout ex_job ex_world) = Inl (auth_lost_msg ''Claude'') \<and>
   map_option acc_status
     (map_of (accounts (db (snd (process_job default_config ex_env_logout ex_job ex_world)))) ''acc1'')
   = Some Expired"
proof -
  have h1: "acquire_error (je_launch ex_env_logout) ex_world (job_account_id ex_job) = None"
    using ex_acquire_ok by simp
  have h2: "parse_provider (job_provider ex_job) = Some Claude"
    using parse_provider_tag [of Claude] by (simp add: ex_job_def)
  have h3: "pe_goto (je_page ex_env_logout) = None" "\<not> pe_logged_in (je_page ex_env_logout)"
    by (simp_all add: ex_env_logout_def ex_page_def)
  have h4: "je_fault ex_env_logout c = None" for c by simp
  show ?thesis
    using process_job_auth_lost [where cfg = default_config,
        OF h1 h2 h3 h4 h4 prod.collapse [symmetric]]
    by simp
qed

theorem process_job_save_failure_witness:
  "fst (process_job default_config ex_env_save_fails ex_job ex_world) = Inl ''disk full'' \<and>
   map (\<lambda>l. (ul_request l, ul_status l))
     (usage_logs (db (snd (process_job default_config ex_env_save_fails ex_job ex_world))))
     = [(Some ''req1'', Usage_success), (Some ''req1'', Usage_error)] \<and>
   map_option req_status
     (map_of (requests (db (snd (process_job default_config ex_env_save_fails ex_job ex_world)))) ''req1'')
   = Some Failed"
proof -
  have h1: "acquire_error (je_launch ex_env_save_fails) ex_world (job_account_id ex_job) = None"
    using ex_acquire_ok by simp
  have h2: "automateChat (job_provider ex_job) (je_page ex_env_save_fails) (job_prompt ex_job) =
      Inr ex_resp"
    using ex_claude_answers by simp
  have h3: "je_fault ex_env_save_fails Call_updateQuota = None"
    "je_fault ex_env_save_fails Call_logUsage_success = None"
    "je_fault ex_env_save_fails Call_logUsage_error = None"
    "je_fault ex_env_save_fails Call_saveSession = Some ''disk full''" by simp_all
  show ?thesis
    using process_job_save_failure [where cfg = default_config, OF h1 h2 h3 prod.collapse [symmetric]]
      ex_requests
    by (simp add: failure_outcome_def)
qed

theorem process_job_stuck_processing_witness:
  "fst (process_job default_config ex_env_log_fails ex_job ex_world) = Inl ''log failed'' \<and>
   map_option req_status
     (map_of (requests (db (snd (process_job default_config ex_env_log_fails ex_job ex_world)))) ''req1'')
   = Some Processing"
proof -
  have h1: "acquire_error (je_launch ex_env_log_fails) ex_world (job_account_id ex_job) = None \<and>
      automateChat (job_provider ex_job) (je_page ex_env_log_fails) (job_prompt ex_job) =
      Inl (auth_lost_msg ''Claude'')"
    using ex_acquire_ok ex_claude_logged_out by simp
  have h2: "je_fault ex_env_log_fails Call_logUsage_error = Some ''log failed''" by simp
  show ?thesis
    using process_job_stuck_processing [OF disjI2 [OF h1] h2 prod.collapse [symmetric]] ex_requests
    by simp
qed

theorem process_job_reopens_completed_witness:
  "map_option req_status (map_of (requests (db ex_world_done)) ''req1'') = Some Completed \<and>
   map_option req_status
     (map_of (requests (db (snd (process_job default_config ex_env_logout ex_job ex_world_done)))) ''req1'')
   = Some Failed \<and> \<not> req_trans\<^sup>*\<^sup>* Completed Failed"
proof -
  have q: "map_of (requests (db ex_world_done)) (job_request_id ex_job) =
      Some (ex_request\<lparr>req_status := Completed\<rparr>)"
    by (simp add: ex_world_done_def ex_world_def)
  have h1: "acquire_error (je_launch ex_env_logout) ex_world_done (job_account_id ex_job) = None \<and>
      automateChat (job_provider ex_job) (je_page ex_env_logout) (job_prompt ex_job) =
      Inl (auth_lost_msg ''Claude'')"
    using ex_acquire_ok_done ex_claude_logged_out by simp
  have h2: "je_fault ex_env_logout Call_logUsage_error = None" by simp
  show ?thesis
    using process_job_reopens_completed [OF q _ disjI2 [OF h1] h2 prod.collapse [symmetric]] q
    by simp
qed

subsection \<open>The properties of the pool applied\<close>

lemma ex_world_pooled_inv: "pool_inv ex_world_pooled"
  by (simp add: pool_inv_def ex_world_pooled_def register_ctx_def ex_world_def ex_ctx_def ctx_ok_def)

lemma ex_world_pooled_sel [simp]:
  "pool ex_world_pooled = [(''acc1'', ex_ctx)]" "live ex_world_pooled = [(0, ''acc1'')]"
  by (simp_all add: ex_world_pooled_def register_ctx_def ex_world_def ex_ctx_def)

theorem pool_reach_one_live_witness:
  "pool_reach (pool_apply (Op_acquire ex_launch 2000 ''acc1'')
     (pool_apply (Op_acquire ex_launch 1000 ''acc1'') ex_world)) \<and>
   one_live_per_account (pool_apply (Op_acquire ex_launch 2000 ''acc1'')
     (pool_apply (Op_acquire ex_launch 1000 ''acc1'') ex_world))"
proof -
  have r: "pool_reach (pool_apply (Op_acquire ex_launch 2000 ''acc1'')
      (pool_apply (Op_acquire ex_launch 1000 ''acc1'') ex_world))"
    by (intro pool_reach.step pool_reach.init) (simp_all add: ex_world_def profiles_ok_def)
  show ?thesis using pool_reach_one_live [OF r] r by simp
qed

theorem closeContext_inv_witness:
  "pool_inv ex_world_pooled \<and> pool_inv (snd (closeContext None ''acc1'' ex_world_pooled))"
  using closeContext_inv [OF ex_world_pooled_inv prod.collapse [symmetric]] ex_world_pooled_inv
  by simp

theorem closeAllContexts_result_witness:
  "pool_inv ex_world_pooled \<and>
   pool (closeAllContexts (\<lambda>a. if a = ''acc1'' then Some ''close failed'' else None) ex_world_pooled) = [] \<and>
   set (live (closeAllContexts (\<lambda>a. if a = ''acc1'' then Some ''close failed'' else None) ex_world_pooled))
     = {(0, ''acc1'')}"
  using closeAllContexts_result [OF ex_world_pooled_inv,
      of "\<lambda>a. if a = ''acc1'' then Some ''close failed'' else None"] ex_world_pooled_inv
  by auto

theorem acquire_race_witness:
  "map_of (pool ex_world) ''acc1'' = None \<and>
   (\<exists>s. (acq_step 0)\<^sup>*\<^sup>* \<lparr>aw = ex_world, apc = \<lambda>_. Acq_idle\<rparr> s \<and>
     (0, ''acc1'') \<in> set (live (aw s)) \<and> (1, ''acc1'') \<in> set (live (aw s)) \<and>
     map_option ctx_handle (map_of (pool (aw s)) ''acc1'') = Some 1)"
proof -
  have miss: "map_of (pool ex_world) ''acc1'' = None" by (simp add: ex_world_def)
  have nh: "next_handle ex_world = 0" by (simp add: ex_world_def)
  show ?thesis
    using acquire_race [OF miss, of 0 1 0] miss by (simp add: nh)
qed

theorem getBrowserContext_reuse_witness:
  "\<exists>c w'. getBrowserContext ex_launch 0 ''acc1'' ex_world = (Inr c, w') \<and>
     getBrowserContext ex_launch_fails 5 ''acc1'' w' = (Inr c, w')"
proof -
  obtain c w' where g: "getBrowserContext ex_launch 0 ''acc1'' ex_world = (Inr c, w')"
    using getBrowserContext_acquire_ok [OF ex_acquire_ok] by blast
  show ?thesis
    using g getBrowserContext_reuse [OF g, of ex_launch_fails 5] by blast
qed

theorem session_roundtrip_witness:
  "\<exists>c' w3. getBrowserContext ex_launch 1000 ''acc1''
        (snd (saveBrowserSession None 0 ''acc1'' ex_ctx ex_world)) = (Inr c', w3) \<and>
     ctx_cookies c' = [(''sid'', ''s1'')] \<and> ctx_storage c' = [(''theme'', ''dark'')]"
proof -
  let ?w1 = "snd (saveBrowserSession None 0 ''acc1'' ex_ctx ex_world)"
  have ok: "ctx_ok ''acc1'' ex_ctx" and pg: "0 < ctx_pages ex_ctx"
    by (simp_all add: ctx_ok_def ex_ctx_def)
  have save: "saveBrowserSession None 0 ''acc1'' ex_ctx ex_world = (Inr (), ?w1)"
    by (simp add: saveBrowserSession_def saveSession_def ex_ctx_def)
  have fresh: "map_of (pool ?w1) ''acc1'' = None" "map_of (disk ?w1) ''acc1'' = None"
    by (simp_all add: saveBrowserSession_def saveSession_def ex_ctx_def ex_world_def)
  have before: "1000 < 0 + session_ttl" by (simp add: session_ttl_def)
  have acq: "acquire_error ex_launch ?w1 ''acc1'' = None"
    using fresh by (simp add: acquire_error_def ex_launch_def)
  obtain c' w3 where g: "getBrowserContext ex_launch 1000 ''acc1'' ?w1 = (Inr c', w3)"
    using getBrowserContext_acquire_ok [OF acq] by blast
  have g': "getBrowserContext \<lparr>le_load = None, le_launch = None, le_restore = None\<rparr> 1000 ''acc1'' ?w1
      = (Inr c', w3)"
    using g by (simp add: ex_launch_def)
  show ?thesis
    using session_roundtrip [OF ok pg save fresh refl before g'] g by (simp add: ex_ctx_def)
qed

theorem getBrowserContext_session_injection_witness:
  "\<exists>c w'. getBrowserContext ex_launch 1000 ''acc1'' ex_world_expired = (Inr c, w') \<and>
     ctx_cookies c = [(''sid'', ''old'')]"
proof -
  have miss: "map_of (pool ex_world_expired) ''acc1'' = None"
    by (simp add: ex_world_expired_def ex_world_def)
  have env: "le_load ex_launch = None" "le_launch ex_launch = None" "le_restore ex_launch = None"
    by (simp_all add: ex_launch_def)
  have s: "map_of (browser_sessions (db ex_world_expired)) ''acc1'' = Some \<lparr>ses_cookies = [(''sid'', ''new'')],
      ses_local_storage = [], ses_expires_at = 500, ses_updated_at = 0\<rparr>"
    by (simp add: ex_world_expired_def)
  have l: "ctx_cookies (launch_ctx ex_world_expired ''acc1'') = [(''sid'', ''old'')]"
    by (simp add: launch_ctx_def ex_world_expired_def)
  obtain c where c: "fst (getBrowserContext ex_launch 1000 ''acc1'' ex_world_expired) = Inr c"
    "ctx_cookies c = [(''sid'', ''old'')]"
    using getBrowserContext_session_injection [where now = 1000, OF miss env s prod.collapse [symmetric]] l
    by auto
  then show ?thesis by (metis prod.collapse)
qed

subsection \<open>The properties of the adapters applied\<close>

lemma ex_parse_claude: "parse_provider ''claude'' = Some Claude"
  using parse_provider_tag [of Claude] by simp

theorem automateChat_response_witness:
  "automateChat ''claude'' ex_page ''hello'' = Inr ex_resp \<and>
   (\<exists>k t. parse_provider ''claude'' = Some k \<and> pe_text ex_page = Some t \<and> t \<noteq> [] \<and>
     cr_text ex_resp = js_trim t \<and> cr_provider ex_resp = kind_tag k \<and>
     cr_model ex_resp = kind_tag k @ ''-web'' \<and>
     cr_tokens ex_resp = estimateTokens (''hello'' @ t) \<and> 0 < cr_tokens ex_resp)"
  using automateChat_response [OF ex_claude_answers] ex_claude_answers by blast

theorem generation_timeout_witness:
  "adapter Claude ex_page_slow ''hello'' = Inl ''Timeout 120000ms exceeded'' \<and>
   adapter ChatGPT ex_page_slow ''hello'' =
     extract_response ''ChatGPT'' ''chatgpt'' ''chatgpt-web'' ''hello'' (Some ''Hi there'')"
proof -
  have h: "pe_goto ex_page_slow = None" "pe_logged_in ex_page_slow" "pe_fill ex_page_slow = None"
    "pe_response ex_page_slow = None" "pe_done ex_page_slow = Some ''Timeout 120000ms exceeded''"
    "pe_text ex_page_slow = Some ''Hi there''"
    by (simp_all add: ex_page_slow_def ex_page_def)
  show ?thesis
    using generation_timeout [OF h(1-5), of Claude "''hello''"]
      generation_timeout [OF h(1-5), of ChatGPT "''hello''"] h(6)
    by simp
qed

theorem automateChat_unknown_witness:
  "parse_provider ''bard'' = None \<and> automateChat ''bard'' ex_page ''hello'' = Inl ''Unknown provider: bard''"
proof -
  have h: "parse_provider ''bard'' = None" by code_simp
  show ?thesis using automateChat_unknown [OF h, of ex_page "''hello''"] h by simp
qed

theorem lost_login_is_auth_error_witness:
  "automateChat ''claude'' (ex_page\<lparr>pe_logged_in := False\<rparr>) ''hello'' = Inl (auth_lost_msg ''Claude'') \<and>
   is_auth_error (auth_lost_msg ''Claude'')"
  using lost_login_is_auth_error [OF ex_claude_logged_out ex_parse_claude] ex_claude_logged_out
  by (simp add: ex_page_def)

subsection \<open>The properties of the quota tracker applied\<close>

lemma ex_tenv_sel [simp]:
  "te_query_error ex_tenv = None" "te_now ex_tenv = (\<lambda>_. 200000)"
  by (simp_all add: ex_tenv_def)

lemma ex_quota_sel [simp]:
  "q_account ex_quota = ''acc1''" "q_daily_limit ex_quota = 10" "q_daily_used ex_quota = 9"
  "q_reset_daily_at ex_quota = 100000" "q_reset_monthly_at ex_quota = None"
  "q_monthly_limit ex_quota = None" "q_monthly_used ex_quota = 0"
  by (simp_all add: ex_quota_def)

theorem checkQuotas_no_reactivation_witness:
  "acct_status_of ex_db_qe ''acc1'' = Some Quota_exceeded \<and>
   acct_status_of (ts_db (checkQuotas ex_tenv \<lparr>ts_db = ex_db_qe, ts_published = []\<rparr>)) ''acc1''
     = Some Quota_exceeded"
proof -
  have h: "acct_status_of ex_db_qe ''acc1'' = Some Quota_exceeded"
    by (simp add: acct_status_of_def ex_db_qe_def ex_db_full_def ex_db_def)
  show ?thesis
    using checkQuotas_no_reactivation [of "\<lparr>ts_db = ex_db_qe, ts_published = []\<rparr>", simplified, OF h] h
    by simp
qed

theorem checkQuotas_resets_witness:
  "\<exists>r. map_of (quotas (ts_db (checkQuotas ex_tenv \<lparr>ts_db = ex_db, ts_published = []\<rparr>))) ''q1'' = Some r \<and>
     q_daily_used r = 0 \<and> q_reset_daily_at r = 200000 + day_ms"
proof -
  have d: "distinct (map fst (quotas (ts_db \<lparr>ts_db = ex_db, ts_published = []\<rparr>)))"
    and q: "map_of (quotas (ts_db \<lparr>ts_db = ex_db, ts_published = []\<rparr>)) ''q1'' = Some ex_quota"
    by (simp_all add: ex_db_def)
  show ?thesis
    using checkQuotas_resets [OF ex_tenv_sel d q] by (auto simp: monthly_due_def)
qed

theorem checkQuotas_forces_exceeded_witness:
  "acct_status_of (ts_db (checkQuotas ex_tenv \<lparr>ts_db = ex_db_full, ts_published = []\<rparr>)) ''acc1''
     = Some Quota_exceeded"
proof -
  have m: "(''q1'', ex_quota\<lparr>q_daily_used := 10\<rparr>) \<in> set (quotas (ts_db \<lparr>ts_db = ex_db_full, ts_published = []\<rparr>))"
    and a: "map_of (accounts (ts_db \<lparr>ts_db = ex_db_full, ts_published = []\<rparr>))
       (q_account (ex_quota\<lparr>q_daily_used := 10\<rparr>)) \<noteq> None"
    by (simp_all add: ex_db_full_def ex_db_def)
  show ?thesis
    using checkQuotas_forces_exceeded [OF ex_tenv_sel(1) m a] by simp
qed

theorem checkQuotas_stale_reset_witness:
  "map_option q_daily_used
     (map_of (quotas (ts_db (checkQuotas ex_tenv \<lparr>ts_db = ex_db_full, ts_published = []\<rparr>))) ''q1'') = Some 0 \<and>
   acct_status_of (ts_db (checkQuotas ex_tenv \<lparr>ts_db = ex_db_full, ts_published = []\<rparr>)) ''acc1''
     = Some Quota_exceeded"
proof -
  let ?st = "\<lparr>ts_db = ex_db_full, ts_published = []\<rparr>"
  have d: "distinct (map fst (quotas (ts_db ?st)))"
    and q: "map_of (quotas (ts_db ?st)) ''q1'' = Some (ex_quota\<lparr>q_daily_used := 10\<rparr>)"
    and a: "map_of (accounts (ts_db ?st)) (q_account (ex_quota\<lparr>q_daily_used := 10\<rparr>)) \<noteq> None"
    by (simp_all add: ex_db_full_def ex_db_def)
  show ?thesis
    using checkQuotas_stale_reset [OF ex_tenv_sel d q a] by simp
qed

end
