(* ===== verification/IntakeExamples.thy ===== *)
theory IntakeExamples
  imports Intake Examples
begin

text \<open>
  Concrete requests to the intake on which its properties are applied: the user of
  \<open>Examples\<close> with one API key, a Claude prompt of high priority, a push to Redis that
  fails, and a key whose counter of the current minute is full.
\<close>

definition ex_sha :: "string \<Rightarrow> nat list" where
  "ex_sha s = [171, 205]"

definition ex_key :: api_key where
  "ex_key = \<lparr>ak_user = ''u1'', ak_hash = ''abcd'', ak_revoked = False, ak_rate_limit_per_minute = 60,
     ak_expires_at = Some 0, ak_last_used_at = None\<rparr>"

definition ex_body :: chat_body where
  "ex_body = \<lparr>cb_prompt = Some ''hello'', cb_provider = Some ''claude'', cb_priority = Some ''high''\<rparr>"

definition ex_redis :: redis where
  "ex_redis = \<lparr>rd_strings = [], rd_lists = []\<rparr>"

definition ex_ist :: istate where
  "ex_ist = \<lparr>is_db = ex_db, is_keys = [(''k1'', ex_key)], is_redis = ex_redis\<rparr>"

definition ex_ist_busy :: istate where
  "ex_ist_busy = ex_ist\<lparr>is_redis := \<lparr>rd_strings = [(''ratelimit:k1:3'', (100, Some 240))], rd_lists = []\<rparr>\<rparr>"

definition ex_ienv :: intake_env where
  "ex_ienv = \<lparr>ie_method = ''POST'', ie_auth = Some ''Bearer sk-test'', ie_sha256 = ex_sha,
     ie_now = 200000, ie_body = Inr ex_body, ie_uuid = ''123e4567-e89b-12d3-a456-426614174000'',
     ie_insert_error = None, ie_lpush_error = None\<rparr>"

definition ex_ienv_lpush :: intake_env where
  "ex_ienv_lpush = ex_ienv\<lparr>ie_lpush_error := Some ''connection reset''\<rparr>"

definition ex_db_multi :: db where
  "ex_db_multi = ex_db\<lparr>accounts := [(''acc1'', ex_account), (''acc2'', ex_account\<lparr>acc_provider := ''chatgpt''\<rparr>)]\<rparr>"

lemma ex_intake_queued:
  "chat_handler ex_ienv ex_ist =
     (Out_queued ''req_123e4567e89b12d3'' ''claude'' [(''claude'', 1)], snd (chat_handler ex_ienv ex_ist))"
  by code_simp

lemma ex_intake_lpush:
  "chat_handler ex_ienv_lpush ex_ist = (Out_failed ''connection reset'', snd (chat_handler ex_ienv_lpush ex_ist))"
  by code_simp

lemma ex_intake_busy:
  "chat_handler ex_ienv ex_ist_busy = (Out_rate_limited 240000, snd (chat_handler ex_ienv ex_ist_busy))"
  by code_simp

lemma ex_intake_find:
  "find_api_key (hashAPIKey (ie_sha256 ex_ienv) ''sk-test'') (is_keys ex_ist_busy) = Some (''k1'', ex_key)"
  by code_simp

lemma ex_intake_count: "100 \<le> rl_count ''k1'' 60 (ie_now ex_ienv) (is_redis ex_ist_busy)"
  by code_simp

theorem rate_limit_sequential_witness:
  "fst (rl_admitted ''k1'' 2 60 [1000, 2000, 3000] ex_redis) = 2"
proof -
  have "fst (rl_admitted ''k1'' 2 60 [1000, 2000, 3000] ex_redis) = min (length [1000, 2000, 3000::int]) (nat 2)"
    by (rule rate_limit_sequential [where w = 0]) (simp_all add: ex_redis_def)
  then show ?thesis by simp
qed

theorem rate_limit_race_witness:
  "\<exists>s. (rl_step ''k1'' 100 60 200000)\<^sup>*\<^sup>* \<lparr>rs_redis = ex_redis, rs_pc = \<lambda>_. RL_idle\<rparr> s \<and>
    rs_pc s 1 = RL_done True \<and> rs_pc s 2 = RL_done True \<and>
    map_option fst (map_of (rd_strings (rs_redis s)) (rate_key ''k1'' (200000 div 1000 div 60))) = Some 1"
  by (rule rate_limit_race) (simp_all add: ex_redis_def)

theorem hashAPIKey_roundtrip_witness:
  "unhex (hashAPIKey ex_sha ''sk-test'') = [171, 205] \<and> length (hashAPIKey ex_sha ''sk-test'') = 4"
  using hashAPIKey_roundtrip [of ex_sha "''sk-test''"] by (simp add: ex_sha_def)

theorem selectBestAccount_auto_witness:
  "selectBestAccount ''u1'' ''auto'' ex_db_multi = ((Some ''acc2'', ''chatgpt''), [''deepseek'', ''gemini'', ''chatgpt''])"
proof -
  have "selectBestAccount ''u1'' ''auto'' ex_db_multi =
      ((Some ''acc2'', ''chatgpt''), takeWhile (\<lambda>q. q \<noteq> ''chatgpt'') provider_order @ [''chatgpt''])"
    by (rule selectBestAccount_auto)
      (simp_all add: provider_order_def get_available_account_def account_available_def ex_db_multi_def
        ex_db_def ex_account_def ex_quota_def)
  then show ?thesis by (simp add: provider_order_def)
qed

theorem chat_handler_queued_witness:
  "''req_123e4567e89b12d3'' = request_id (ie_uuid ex_ienv) \<and>
   map_of (requests (is_db ex_ist)) ''req_123e4567e89b12d3'' = None \<and>
   (\<exists>row job. requests (is_db (snd (chat_handler ex_ienv ex_ist))) =
        requests (is_db ex_ist) @ [(''req_123e4567e89b12d3'', row)] \<and>
      map_of (rd_lists (is_redis (snd (chat_handler ex_ienv ex_ist)))) job_list_key =
        Some (job # (case map_of (rd_lists (is_redis ex_ist)) job_list_key of Some xs \<Rightarrow> xs | None \<Rightarrow> [])) \<and>
      req_status row = Queued \<and> job_request_id job = ''req_123e4567e89b12d3'' \<and>
      req_account row = Some (job_account_id job) \<and> job_provider job = ''claude'' \<and>
      job_prompt job = req_prompt row \<and> job_priority job = req_priority row \<and>
      req_prompt row \<noteq> [] \<and> length (req_prompt row) \<le> 10000)"
  by (rule chat_handler_queued [OF ex_intake_queued])

theorem chat_handler_failed_witness:
  "rd_lists (is_redis (snd (chat_handler ex_ienv_lpush ex_ist))) = rd_lists (is_redis ex_ist) \<and>
   is_keys (snd (chat_handler ex_ienv_lpush ex_ist)) = is_keys ex_ist \<and>
   (is_db (snd (chat_handler ex_ienv_lpush ex_ist)) = is_db ex_ist \<or>
    (ie_lpush_error ex_ienv_lpush = Some ''connection reset'' \<and> (\<exists>row. req_status row = Queued \<and>
       is_db (snd (chat_handler ex_ienv_lpush ex_ist)) = (is_db ex_ist)\<lparr>requests :=
         requests (is_db ex_ist) @ [(request_id (ie_uuid ex_ienv_lpush), row)]\<rparr>)))"
  by (rule chat_handler_failed [OF ex_intake_lpush])

theorem chat_handler_rate_limited_witness:
  "is_db (snd (chat_handler ex_ienv ex_ist_busy)) = is_db ex_ist_busy \<and>
   is_keys (snd (chat_handler ex_ienv ex_ist_busy)) = is_keys ex_ist_busy \<and>
   rd_lists (is_redis (snd (chat_handler ex_ienv ex_ist_busy))) = rd_lists (is_redis ex_ist_busy)"
  by (rule chat_handler_rate_limited [OF ex_intake_busy])

theorem chat_handler_rate_limit_first_witness:
  "chat_handler ex_ienv ex_ist_busy = (Out_rate_limited 240000, ex_ist_busy)"
proof -
  have "chat_handler ex_ienv ex_ist_busy =
      (Out_rate_limited ((ie_now ex_ienv div 1000 div 60 + 1) * 60 * 1000), ex_ist_busy)"
    by (rule chat_handler_rate_limit_first [OF _ _ ex_intake_find ex_intake_count])
      (simp_all add: ex_ienv_def auth_key_def)
  then show ?thesis by (simp add: ex_ienv_def)
qed

end
