(* ===== verification/QueriesExamples.thy ===== *)
theory QueriesExamples
  imports Queries IntakeExamples
begin

text \<open>
  Concrete queries: the user of \<open>Examples\<close> asks for the status of its request and for
  its quotas, in a database where a second user owns a Gemini account.
\<close>

definition ex_qenv :: query_env where
  "ex_qenv = \<lparr>qe_method = ''GET'', qe_auth = Some ''Bearer sk-test'', qe_sha256 = ex_sha,
     qe_path = ''/api/v1/status/req1'', qe_quotas_error = None\<rparr>"

definition ex_quota_other :: quota where
  "ex_quota_other = ex_quota\<lparr>q_account := ''acc9'', q_provider := ''gemini'', q_daily_used := 50,
     q_daily_limit := 50\<rparr>"

definition ex_ist_two :: istate where
  "ex_ist_two = ex_ist\<lparr>is_db := ex_db\<lparr>
     accounts := [(''acc1'', ex_account), (''acc9'', ex_account\<lparr>acc_user := ''u2'', acc_provider := ''gemini''\<rparr>)],
     quotas := [(''q1'', ex_quota), (''q9'', ex_quota_other)]\<rparr>\<rparr>"

lemma ex_status_ok: "status_handler ex_qenv ex_ist = Resp_ok (status_view_of ''req1'' ex_request)"
  by code_simp

lemma ex_quotas_ok:
  "quotas_handler ex_qenv ex_ist_two =
     Resp_ok (case quotas_handler ex_qenv ex_ist_two of Resp_ok v \<Rightarrow> v | _ \<Rightarrow> undefined)"
  by code_simp

lemma ex_summary_claude:
  "map_of (summarize (quotas_query ''u1'' (is_db ex_ist_two))) ''claude'' =
     Some (the (map_of (summarize (quotas_query ''u1'' (is_db ex_ist_two))) ''claude''))"
  by code_simp

theorem status_handler_own_request_witness:
  "\<exists>kid kd r. verify_key ex_qenv (is_keys ex_ist) = Inr (kid, kd) \<and>
     (''req1'', r) \<in> set (requests (is_db ex_ist)) \<and> req_user r = ak_user kd \<and>
     ''req1'' = last_segment (qe_path ex_qenv) \<and> status_view_of ''req1'' ex_request = status_view_of ''req1'' r"
  using status_handler_own_request [OF ex_status_ok] by (simp add: status_view_of_def)

theorem quotas_handler_all_users_witness:
  "''gemini'' \<in> fst ` set (qv_providers (case quotas_handler ex_qenv ex_ist_two of Resp_ok v \<Rightarrow> v | _ \<Rightarrow> undefined))"
proof -
  have "(''q9'', ex_quota_other) \<in> set (quotas (is_db ex_ist_two))"
    by (simp add: ex_ist_two_def)
  from quotas_handler_all_users [OF ex_quotas_ok this] show ?thesis
    by (simp add: ex_quota_other_def)
qed

theorem summarize_daily_bounds_witness:
  "let s = the (map_of (summarize (quotas_query ''u1'' (is_db ex_ist_two))) ''claude'') in
   us_used (ps_daily s) = 9 \<and> us_limit (ps_daily s) = 10 \<and>
   0 \<le> us_remaining (ps_daily s) \<and> us_limit (ps_daily s) - us_used (ps_daily s) \<le> us_remaining (ps_daily s)"
  using summarize_daily_bounds [OF ex_summary_claude]
  by (simp add: Let_def provider_quotas_def quotas_query_def ex_ist_two_def ex_quota_def ex_quota_other_def)

end
