(* ===== verification/Webapp.thy ===== *)
theory Webapp
  imports QuotaTracker
begin

text \<open>
  The data layer of the dashboard under \<open>src/webapp/src\<close>: the hooks \<open>useAccounts\<close> and
  \<open>useQuotas\<close>, which keep a client copy of a table by an initial fetch and the realtime
  changes of the table, the handlers of \<open>AccountList\<close> and \<open>AddAccountModal\<close> that
  write the \<open>accounts\<close> table, and the usage bars of \<open>QuotaDashboard\<close>. A realtime
  change carries the id and the new row, never an embedded resource. The client state
  evolves by messages (\<open>client_msg\<close>): the response of the fetch and each change, in the
  order they are delivered. What the components render is in \<open>Dashboard\<close>.
\<close>

datatype 'a change = Ch_insert string 'a | Ch_update string 'a | Ch_delete string

datatype ('r, 'a) client_msg = Fetched "('r list) res" | Changed "'a change"

subsection \<open>\<open>useAccounts\<close>\<close>

record accounts_view =
  av_rows :: "(string \<times> account) list"
  av_loading :: bool
  av_error :: "string option"

definition accounts_init :: accounts_view where
  "accounts_init = \<lparr>av_rows = [], av_loading = True, av_error = None\<rparr>"

text \<open>\<open>fetchAccounts\<close> (lines 11 to 26): the rows, or the error; loading ends either way.\<close>

definition fetch_accounts :: "((string \<times> account) list) res \<Rightarrow> accounts_view \<Rightarrow> accounts_view" where
  "fetch_accounts r v =
     (case r of Inl m \<Rightarrow> v\<lparr>av_error := Some m, av_loading := False\<rparr>
      | Inr data \<Rightarrow> v\<lparr>av_rows := data, av_loading := False\<rparr>)"

text \<open>The realtime callback (lines 40 to 50): an insert is prepended.\<close>

definition apply_account_change ::
  "account change \<Rightarrow> (string \<times> account) list \<Rightarrow> (string \<times> account) list" where
  "apply_account_change c rows =
     (case c of
        Ch_insert i a \<Rightarrow> (i, a) # rows
      | Ch_update i a \<Rightarrow> map (\<lambda>(j, b). if j = i then (i, a) else (j, b)) rows
      | Ch_delete i \<Rightarrow> filter (\<lambda>(j, b). j \<noteq> i) rows)"

definition accounts_step :: "(string \<times> account, account) client_msg \<Rightarrow> accounts_view \<Rightarrow> accounts_view" where
  "accounts_step msg v =
     (case msg of Fetched r \<Rightarrow> fetch_accounts r v
      | Changed c \<Rightarrow> v\<lparr>av_rows := apply_account_change c (av_rows v)\<rparr>)"

definition accounts_run :: "(string \<times> account, account) client_msg list \<Rightarrow> accounts_view \<Rightarrow> accounts_view" where
  "accounts_run msgs v = fold accounts_step msgs v"

text \<open>
  \<open>addAccount\<close> (lines 59 to 78): the signed-in user, then one inserted row with status
  \<open>pending\<close>; \<open>i\<close> is the id the database assigns and \<open>now\<close> its clock.
\<close>

definition addAccount ::
  "string option \<Rightarrow> string option \<Rightarrow> string \<Rightarrow> time \<Rightarrow> string \<Rightarrow> string \<Rightarrow> db \<Rightarrow> (string \<times> account) res \<times> db" where
  "addAccount user err i now provider email d =
     (case user of
        None \<Rightarrow> (Inl ''Not authenticated'', d)
      | Some u \<Rightarrow>
          if err \<noteq> None \<or> map_of (accounts d) i \<noteq> None
          then (Inl (case err of Some m \<Rightarrow> m | None \<Rightarrow> ''duplicate key value violates unique constraint''), d)
          else let a = \<lparr>acc_user = u, acc_provider = provider, acc_email = email, acc_status = Pending,
                        acc_last_used_at = None, acc_updated_at = now\<rparr>
               in (Inr (i, a), d\<lparr>accounts := accounts d @ [(i, a)]\<rparr>))"

text \<open>\<open>deleteAccount\<close> (lines 80 to 84).\<close>

definition deleteAccount :: "string option \<Rightarrow> string \<Rightarrow> db \<Rightarrow> unit res \<times> db" where
  "deleteAccount err i d =
     (case err of Some m \<Rightarrow> (Inl m, d)
      | None \<Rightarrow> (Inr (), d\<lparr>accounts := filter (\<lambda>(j, a). j \<noteq> i) (accounts d)\<rparr>))"

text \<open>
  \<open>AccountList.handleDelete\<close> (lines 8 to 19): nothing unless confirmed; the alert it
  shows on an error.
\<close>

definition handleDelete :: "bool \<Rightarrow> string option \<Rightarrow> string \<Rightarrow> db \<Rightarrow> string option \<times> db" where
  "handleDelete confirmed err i d =
     (if \<not> confirmed then (None, d)
      else case deleteAccount err i d of
        (Inl m, d') \<Rightarrow> (Some (''Failed to delete account: '' @ m), d')
      | (Inr _, d') \<Rightarrow> (None, d'))"

record modal_state =
  md_email :: string
  md_error :: "string option"
  md_open :: bool

text \<open>\<open>AddAccountModal.handleSubmit\<close> (lines 16 to 30).\<close>

definition handleSubmit ::
  "string option \<Rightarrow> string option \<Rightarrow> string \<Rightarrow> time \<Rightarrow> string \<Rightarrow> modal_state \<Rightarrow> db \<Rightarrow> modal_state \<times> db" where
  "handleSubmit user err i now provider m d =
     (case addAccount user err i now provider (md_email m) d of
        (Inl e, d') \<Rightarrow> (m\<lparr>md_error := Some e\<rparr>, d')
      | (Inr _, d') \<Rightarrow> (m\<lparr>md_error := None, md_email := [], md_open := False\<rparr>, d'))"

subsection \<open>\<open>useQuotas\<close> and \<open>QuotaDashboard\<close>\<close>

text \<open>The account embedded by \<open>select('*, accounts(provider, email, status)')\<close>.\<close>

record acc_embed =
  ae_provider :: string
  ae_email :: string
  ae_status :: acct_status

type_synonym quota_row = "string \<times> quota \<times> acc_embed option"

record quotas_client =
  qc_rows :: "quota_row list"
  qc_loading :: bool
  qc_error :: "string option"

definition fetch_quotas :: "(quota_row list) res \<Rightarrow> quotas_client \<Rightarrow> quotas_client" where
  "fetch_quotas r v =
     (case r of Inl m \<Rightarrow> v\<lparr>qc_error := Some m, qc_loading := False\<rparr>
      | Inr data \<Rightarrow> v\<lparr>qc_rows := data, qc_loading := False\<rparr>)"

text \<open>
  The realtime callback of \<open>useQuotas\<close> (lines 40 to 50): an insert is appended; the new
  row of an insert or an update has no embedded account.
\<close>

definition apply_quota_change :: "quota change \<Rightarrow> quota_row list \<Rightarrow> quota_row list" where
  "apply_quota_change c rows =
     (case c of
        Ch_insert i q \<Rightarrow> rows @ [(i, q, None)]
      | Ch_update i q \<Rightarrow> map (\<lambda>(j, r). if j = i then (i, q, None) else (j, r)) rows
      | Ch_delete i \<Rightarrow> filter (\<lambda>(j, r). j \<noteq> i) rows)"

definition quotas_step :: "(quota_row, quota) client_msg \<Rightarrow> quotas_client \<Rightarrow> quotas_client" where
  "quotas_step msg v =
     (case msg of Fetched r \<Rightarrow> fetch_quotas r v
      | Changed c \<Rightarrow> v\<lparr>qc_rows := apply_quota_change c (qc_rows v)\<rparr>)"

text \<open>
  The usage bars (lines 45 to 54): \<open>Math.min(used / limit * 100, 100)\<close> as a JavaScript
  number, and its colour.
\<close>

definition js_percent :: "js_num \<Rightarrow> js_num" where
  "js_percent x = (case x of Num r \<Rightarrow> Num (min (100 * r) 100) | PInf \<Rightarrow> Num 100 | NInf \<Rightarrow> NInf | NaN \<Rightarrow> NaN)"

definition daily_percentage :: "quota \<Rightarrow> js_num" where
  "daily_percentage q = js_percent (js_div (q_daily_used q) (q_daily_limit q))"

definition monthly_percentage :: "quota \<Rightarrow> js_num option" where
  "monthly_percentage q =
     (case q_monthly_limit q of
        Some l \<Rightarrow> if l \<noteq> 0 then Some (js_percent (js_div (q_monthly_used q) l)) else None
      | None \<Rightarrow> None)"

datatype bar_color = Bar_red | Bar_yellow | Bar_green

definition status_color :: "js_num \<Rightarrow> bar_color" where
  "status_color p = (if js_ge p 90 then Bar_red else if js_ge p 70 then Bar_yellow else Bar_green)"

text \<open>The server side of the accounts table, whose writes the realtime channel reports.\<close>

datatype server_op = Srv_insert string account | Srv_update string account | Srv_delete string

definition server_apply :: "server_op \<Rightarrow> (string \<times> account) list \<Rightarrow> (string \<times> account) list" where
  "server_apply op t =
     (case op of
        Srv_insert i a \<Rightarrow> if map_of t i = None then t @ [(i, a)] else t
      | Srv_update i a \<Rightarrow> AList.map_entry i (\<lambda>_. a) t
      | Srv_delete i \<Rightarrow> filter (\<lambda>(j, b). j \<noteq> i) t)"

text \<open>The change the channel delivers for a write; a rejected insert delivers none.\<close>

definition change_of :: "server_op \<Rightarrow> (string \<times> account) list \<Rightarrow> account change list" where
  "change_of op t =
     (case op of
        Srv_insert i a \<Rightarrow> if map_of t i = None then [Ch_insert i a] else []
      | Srv_update i a \<Rightarrow> if map_of t i = None then [] else [Ch_update i a]
      | Srv_delete i \<Rightarrow> if map_of t i = None then [] else [Ch_delete i])"

definition mirrors :: "(string \<times> account) list \<Rightarrow> (string \<times> account) list \<Rightarrow> bool" where
  "mirrors t rows \<longleftrightarrow> map_of rows = map_of t \<and> distinct (map fst rows)"

text \<open>A sequence of writes: the table after them and the changes delivered, in order.\<close>

fun server_trace :: "server_op list \<Rightarrow> (string \<times> account) list \<Rightarrow> (string \<times> account) list \<times> account change list" where
  "server_trace [] t = (t, [])"
| "server_trace (op # ops) t =
     (case server_trace ops (server_apply op t) of (t', cs) \<Rightarrow> (t', change_of op t @ cs))"

lemmas webapp_defs [model_defs] = fetch_accounts_def apply_account_change_def accounts_step_def
  accounts_run_def addAccount_def deleteAccount_def handleDelete_def handleSubmit_def
  fetch_quotas_def apply_quota_change_def quotas_step_def js_percent_def daily_percentage_def
  monthly_percentage_def status_color_def server_apply_def change_of_def

subsection \<open>Properties of the client copies\<close>

lemma map_of_replace:
  "map_of (map (\<lambda>(j, b). if j = i then (i, a) else (j, b)) rows) =
     (if map_of rows i = None then map_of rows else (map_of rows)(i \<mapsto> a))"
  by (induction rows) (auto simp: fun_eq_iff)

lemma map_of_filter_key:
  "map_of (filter (\<lambda>(j, b). j \<noteq> i) rows) = (map_of rows)(i := None)"
  by (induction rows) (auto simp: fun_eq_iff)

lemma map_of_map_entry_const:
  "map_of (AList.map_entry i (\<lambda>_. a) t) =
     (if map_of t i = None then map_of t else (map_of t)(i \<mapsto> a))"
  by (auto simp: fun_eq_iff map_entry_same map_entry_other map_entry_absent)

lemma keys_replace:
  "map (fst \<circ> (\<lambda>(j, b). if j = i then (i, a) else (j, b))) rows = map fst rows"
  by (induction rows) auto

lemma map_add_single_absent: "m i = None \<Longrightarrow> [i \<mapsto> a] ++ m = m(i \<mapsto> a)"
  by (auto simp: fun_eq_iff map_add_def split: option.splits)

lemma mirror_step:
  assumes "mirrors t rows"
  shows "mirrors (server_apply op t) (fold apply_account_change (change_of op t) rows)"
proof (cases op)
  case (Srv_insert i a)
  show ?thesis
  proof (cases "map_of t i = None")
    case True
    with assms have "i \<notin> fst ` set rows" by (simp add: mirrors_def map_of_eq_None_iff [symmetric])
    have "server_apply op t = t @ [(i, a)]"
      "fold apply_account_change (change_of op t) rows = (i, a) # rows"
      using True Srv_insert by (simp_all add: server_apply_def change_of_def apply_account_change_def)
    with assms \<open>i \<notin> fst ` set rows\<close> show ?thesis
      by (simp add: mirrors_def map_add_single_absent [where m = "map_of t", OF True])
  next
    case False
    then have "server_apply op t = t" "change_of op t = []"
      using Srv_insert by (simp_all add: server_apply_def change_of_def)
    with assms show ?thesis by simp
  qed
next
  case (Srv_update i a)
  with assms show ?thesis
    by (auto simp: mirrors_def server_apply_def change_of_def apply_account_change_def
        map_of_replace map_of_map_entry_const keys_replace)
next
  case (Srv_delete i)
  with assms show ?thesis
    by (auto simp: mirrors_def server_apply_def change_of_def apply_account_change_def
        map_of_filter_key distinct_map_filter)
qed

text \<open>
  C33: The client copy of \<open>useAccounts\<close> refines the accounts table: when it mirrors the
  table (the same map from id to row, no id twice), it still mirrors it after any
  sequence of writes once their realtime changes are delivered in order.
\<close>

theorem realtime_mirror:
  assumes "mirrors t rows"
  shows "mirrors (fst (server_trace ops t)) (fold apply_account_change (snd (server_trace ops t)) rows)"
  using assms
proof (induction ops arbitrary: t rows)
  case Nil
  then show ?case by simp
next
  case (Cons op ops)
  obtain t' cs where tr: "server_trace ops (server_apply op t) = (t', cs)"
    by (cases "server_trace ops (server_apply op t)")
  have "mirrors (server_apply op t) (fold apply_account_change (change_of op t) rows)"
    by (rule mirror_step [OF Cons.prems])
  from Cons.IH [OF this] tr show ?case by simp
qed

text \<open>
  C34: A change delivered before the response of the initial fetch is lost: the response
  replaces the client copy, so an account inserted after the fetch's snapshot and
  reported before its response is missing from the copy although the table has it.
\<close>

theorem fetch_loses_early_change:
  assumes "map_of t i = None"
  shows "\<not> mirrors (server_apply (Srv_insert i a) t)
           (av_rows (accounts_run [Changed (Ch_insert i a), Fetched (Inr t)] v))"
proof
  assume m: "mirrors (server_apply (Srv_insert i a) t)
      (av_rows (accounts_run [Changed (Ch_insert i a), Fetched (Inr t)] v))"
  have "av_rows (accounts_run [Changed (Ch_insert i a), Fetched (Inr t)] v) = t"
    by (simp add: accounts_run_def accounts_step_def fetch_accounts_def)
  moreover have "map_of (server_apply (Srv_insert i a) t) i = Some a"
    using assms by (simp add: server_apply_def map_add_single_absent)
  ultimately have "map_of t i = Some a" using m by (simp add: mirrors_def)
  with assms show False by simp
qed

text \<open>
  A realtime update of a quota replaces its row by the new row without the embedded
  account, so the dashboard loses the account's e-mail and status for that quota; the
  worker updates a quota after every completed job.
\<close>

theorem quota_update_drops_account:
  assumes "i \<in> fst ` set rows"
  shows "(i, q, None) \<in> set (apply_quota_change (Ch_update i q) rows) \<and>
    (\<forall>(j, r) \<in> set (apply_quota_change (Ch_update i q) rows). j = i \<longrightarrow> snd r = None)"
proof -
  let ?f = "\<lambda>(j, r). if j = i then (i, q, None) else (j, r)"
  have e: "apply_quota_change (Ch_update i q) rows = map ?f rows"
    by (simp add: apply_quota_change_def)
  from assms obtain r where "(i, r) \<in> set rows" by auto
  then have "?f (i, r) \<in> ?f ` set rows" by (rule imageI)
  moreover have "\<forall>(j, r) \<in> set (map ?f rows). j = i \<longrightarrow> snd r = None"
    by (auto split: if_splits)
  ultimately show ?thesis unfolding e by simp
qed

subsection \<open>The primary keys under the dashboard's writes\<close>

lemma addAccount_wf: "db_wf d \<Longrightarrow> addAccount user err i now p email d = (r, d') \<Longrightarrow> db_wf d'"
  by (auto simp: addAccount_def db_wf_def map_of_eq_None_iff Let_def split: option.splits if_splits)

lemma deleteAccount_wf: "db_wf d \<Longrightarrow> deleteAccount err i d = (r, d') \<Longrightarrow> db_wf d'"
  by (auto simp: deleteAccount_def db_wf_def distinct_map_filter split: option.splits)

end
