(* ===== verification/WebappExamples.thy ===== *)
theory WebappExamples
  imports Webapp Examples
begin

text \<open>
  Concrete client copies: the accounts table of \<open>Examples\<close> with a second account
  inserted, updated and deleted, and the dashboard's copy of its quota.
\<close>

definition ex_table :: "(string \<times> account) list" where
  "ex_table = [(''acc1'', ex_account)]"

definition ex_ops :: "server_op list" where
  "ex_ops = [Srv_insert ''acc2'' (ex_account\<lparr>acc_provider := ''gemini''\<rparr>),
     Srv_update ''acc1'' (ex_account\<lparr>acc_status := Expired\<rparr>), Srv_insert ''acc1'' ex_account,
     Srv_delete ''acc2'']"

definition ex_embed :: acc_embed where
  "ex_embed = \<lparr>ae_provider = ''claude'', ae_email = ''a@example.com'', ae_status = Active\<rparr>"

lemma ex_table_mirrors: "mirrors ex_table ex_table"
  by (simp add: mirrors_def ex_table_def)

theorem realtime_mirror_witness:
  "mirrors (fst (server_trace ex_ops ex_table))
     (fold apply_account_change (snd (server_trace ex_ops ex_table)) ex_table)"
  by (rule realtime_mirror [OF ex_table_mirrors])

theorem fetch_loses_early_change_witness:
  "\<not> mirrors (server_apply (Srv_insert ''acc2'' ex_account) ex_table)
     (av_rows (accounts_run [Changed (Ch_insert ''acc2'' ex_account), Fetched (Inr ex_table)] accounts_init))"
  by (rule fetch_loses_early_change) (simp add: ex_table_def)

theorem quota_update_drops_account_witness:
  "(''q1'', ex_quota\<lparr>q_daily_used := 10\<rparr>, None) \<in>
     set (apply_quota_change (Ch_update ''q1'' (ex_quota\<lparr>q_daily_used := 10\<rparr>)) [(''q1'', ex_quota, Some ex_embed)])"
proof -
  have "''q1'' \<in> fst ` set [(''q1'', ex_quota, Some ex_embed)]" by simp
  from quota_update_drops_account [OF this, of "ex_quota\<lparr>q_daily_used := 10\<rparr>"] show ?thesis by blast
qed

end
