(* ===== verification/Entry.thy ===== *)
theory Entry
  imports Dispatcher QuotaTracker
begin

text \<open>
  The process entry points around the modelled operations: the browser worker's
  \<open>src/browser-worker/src/index.ts\<close> (health check and graceful shutdown), the
  quota tracker's health check and signal handlers, and the schedule of the quota tracker (\<open>src/quota-tracker/src/index.ts\<close>, lines 7 to 17 and
  303 to 315): one run of each check at start, then \<open>checkQuotas\<close> every
  \<open>CHECK_INTERVAL\<close> milliseconds and \<open>checkExpiringSessions\<close> every day. Timers that
  fire at the same instant run in the order they were created. A delay that is not a
  number or is below 1 is 1 millisecond, as Node's \<open>setInterval\<close> makes it.
\<close>

subsection \<open>The browser worker process\<close>

record worker_proc =
  wp_accepting :: bool
  wp_world :: world
  wp_server_open :: bool
  wp_exit :: "nat option"

text \<open>The health check server (lines 18 to 32): the status code of a request URL.\<close>

definition health_status :: "string \<Rightarrow> nat" where
  "health_status url = (if url = ''/health'' then 200 else 404)"

text \<open>
  The \<open>SIGTERM\<close> and \<open>SIGINT\<close> handlers (lines 39 to 62): \<open>worker.close()\<close> is awaited
  (\<open>close_err\<close>: its rejection), then every pooled context is closed (\<open>errs\<close>: the
  contexts whose close rejects, caught inside \<open>closeAllContexts\<close>), the server closes
  and the process exits with 0. A rejection of \<open>worker.close()\<close> rejects the handler's
  promise, and the \<open>unhandledRejection\<close> handler (lines 70 to 73) exits with 1 before
  any context is closed.
\<close>

definition worker_shutdown ::
  "string option \<Rightarrow> (string \<Rightarrow> string option) \<Rightarrow> worker_proc \<Rightarrow> worker_proc" where
  "worker_shutdown close_err errs p =
     (case close_err of
        Some _ \<Rightarrow> p\<lparr>wp_exit := Some 1\<rparr>
      | None \<Rightarrow> p\<lparr>wp_accepting := False, wp_world := closeAllContexts errs (wp_world p),
                  wp_server_open := False, wp_exit := Some 0\<rparr>)"

text \<open>The handlers of uncaught exceptions and rejections (lines 65 to 73): exit with 1.\<close>

definition worker_crash :: "worker_proc \<Rightarrow> worker_proc" where
  "worker_crash p = p\<lparr>wp_exit := Some 1\<rparr>"

subsection \<open>The quota tracker process\<close>

record tracker_proc =
  tp_server_open :: bool
  tp_redis_open :: bool
  tp_exit :: "nat option"

text \<open>The tracker's health check server (lines 283 to 297): the status code of a URL.\<close>

definition tracker_health_status :: "string \<Rightarrow> nat" where
  "tracker_health_status url = (if url = ''/health'' then 200 else 404)"

text \<open>
  The \<open>SIGTERM\<close> and \<open>SIGINT\<close> handlers (lines 317 to 329): the server closes, then
  \<open>redis.quit()\<close> is awaited and the process exits with 0. The handlers have no
  \<open>try\<close>, and the tracker installs no handler of unhandled rejections, so when
  \<open>quit\<close> rejects (\<open>quit_err\<close>) Node ends the process with code 1 before the exit.
\<close>

definition tracker_shutdown :: "string option \<Rightarrow> tracker_proc \<Rightarrow> tracker_proc" where
  "tracker_shutdown quit_err p =
     (case quit_err of
        None \<Rightarrow> p\<lparr>tp_server_open := False, tp_redis_open := False, tp_exit := Some 0\<rparr>
      | Some _ \<Rightarrow> p\<lparr>tp_server_open := False, tp_exit := Some 1\<rparr>)"

subsection \<open>The schedule of the quota tracker\<close>

text \<open>
  \<open>parseInt(s)\<close> without a radix: leading white space is skipped, then an optional sign;
  after a \<open>0x\<close> or \<open>0X\<close> prefix the radix is 16, otherwise 10; the value is that of
  the longest run of digits of the radix, and no digit gives \<open>NaN\<close> (\<open>None\<close>). The
  value is exact, where JavaScript rounds numbers beyond 2^53 to a double.
\<close>

definition digit_val :: "char \<Rightarrow> int" where
  "digit_val c = int (of_char c) - 48"

definition is_digit :: "char \<Rightarrow> bool" where
  "is_digit c \<longleftrightarrow> 48 \<le> (of_char c :: nat) \<and> (of_char c :: nat) \<le> 57"

definition digits_val :: "string \<Rightarrow> int" where
  "digits_val ds = foldl (\<lambda>n c. 10 * n + digit_val c) 0 ds"

definition is_hex :: "char \<Rightarrow> bool" where
  "is_hex c \<longleftrightarrow> is_digit c \<or> (97 \<le> (of_char c :: nat) \<and> (of_char c :: nat) \<le> 102) \<or>
     (65 \<le> (of_char c :: nat) \<and> (of_char c :: nat) \<le> 70)"

definition hex_digit_val :: "char \<Rightarrow> int" where
  "hex_digit_val c =
     (if is_digit c then digit_val c
      else if 97 \<le> (of_char c :: nat) then int (of_char c) - 87 else int (of_char c) - 55)"

definition hex_digits_val :: "string \<Rightarrow> int" where
  "hex_digits_val ds = foldl (\<lambda>n c. 16 * n + hex_digit_val c) 0 ds"

definition parseInt :: "string \<Rightarrow> int option" where
  "parseInt s =
     (let s1 = dropWhile js_space s;
          neg = (case s1 of c # _ \<Rightarrow> c = CHR ''-'' | [] \<Rightarrow> False);
          s2 = (case s1 of c # r \<Rightarrow> if c = CHR ''-'' \<or> c = CHR ''+'' then r else s1 | [] \<Rightarrow> []);
          hex = (take 2 s2 = ''0x'' \<or> take 2 s2 = ''0X'');
          ds = (if hex then takeWhile is_hex (drop 2 s2) else takeWhile is_digit s2);
          v = (if hex then hex_digits_val ds else digits_val ds)
      in if ds = [] then None else Some (if neg then - v else v))"

text \<open>\<open>parseInt(process.env.CHECK_INTERVAL || '60000')\<close> (line 15).\<close>

definition check_interval :: "string option \<Rightarrow> int option" where
  "check_interval e = parseInt (case e of Some v \<Rightarrow> if v = [] then ''60000'' else v | None \<Rightarrow> ''60000'')"

definition timer_delay :: "int option \<Rightarrow> int" where
  "timer_delay d = (case d of Some n \<Rightarrow> if n < 1 \<or> 2147483647 < n then 1 else n | None \<Rightarrow> 1)"

datatype tracker_task = Task_checkQuotas | Task_checkExpiringSessions

text \<open>
  The loop of a Node timer: it fires at \<open>t\<close> and is rescheduled \<open>d\<close> later, until the
  horizon \<open>h\<close>. With a delay that is not positive it never gets past \<open>h\<close>, which is
  why Node clamps the delay; the result is \<open>None\<close> when the loop does not end.
\<close>

partial_function (option) fires :: "int \<Rightarrow> int \<Rightarrow> int \<Rightarrow> int list option" where
  "fires d t h = (if h < t then Some [] else Option.bind (fires d (t + d) h) (\<lambda>ts. Some (t # ts)))"

text \<open>The instants in \<open>[0, h]\<close> at which a timer of delay \<open>d\<close> fires.\<close>

definition timer_times :: "int \<Rightarrow> int \<Rightarrow> int list" where
  "timer_times d h = map (\<lambda>k. int k * d) [1..<nat (h div d) + 1]"

fun merge_events :: "(int \<times> tracker_task) list \<Rightarrow> (int \<times> tracker_task) list \<Rightarrow> (int \<times> tracker_task) list" where
  "merge_events [] ys = ys"
| "merge_events xs [] = xs"
| "merge_events (x # xs) (y # ys) =
     (if fst y < fst x then y # merge_events (x # xs) ys else x # merge_events xs (y # ys))"

text \<open>Lines 310 to 315: the runs of the two checks up to the instant \<open>h\<close>, in order.\<close>

definition tracker_schedule :: "string option \<Rightarrow> int \<Rightarrow> (int \<times> tracker_task) list" where
  "tracker_schedule e h =
     [(0, Task_checkQuotas), (0, Task_checkExpiringSessions)] @
     merge_events (map (\<lambda>t. (t, Task_checkQuotas)) (timer_times (timer_delay (check_interval e)) h))
       (map (\<lambda>t. (t, Task_checkExpiringSessions)) (timer_times (24 * 60 * 60 * 1000) h))"

definition run_task :: "(int \<Rightarrow> tracker_env) \<Rightarrow> int \<times> tracker_task \<Rightarrow> tstate \<Rightarrow> tstate" where
  "run_task envs ev st =
     (case snd ev of Task_checkQuotas \<Rightarrow> checkQuotas (envs (fst ev)) st
      | Task_checkExpiringSessions \<Rightarrow> checkExpiringSessions (envs (fst ev)) st)"

definition tracker_run :: "(int \<Rightarrow> tracker_env) \<Rightarrow> string option \<Rightarrow> int \<Rightarrow> tstate \<Rightarrow> tstate" where
  "tracker_run envs e h st = fold (run_task envs) (tracker_schedule e h) st"

lemmas entry_defs [model_defs] = health_status_def worker_shutdown_def worker_crash_def
  digit_val_def is_digit_def digits_val_def parseInt_def check_interval_def timer_delay_def
  tracker_health_status_def tracker_shutdown_def is_hex_def hex_digit_val_def hex_digits_val_def
  timer_times_def tracker_schedule_def run_task_def tracker_run_def

subsection \<open>Properties of the entry points\<close>

text \<open>
  C9: The graceful shutdown of the specification swallows the teardown errors of the
  contexts: once \<open>worker.close()\<close> resolves, whichever contexts fail to close, the worker
  takes no job, the pool is empty, the server is closed and the process exits with 0,
  and exactly the contexts whose close rejected stay open in the browser; only a
  rejection of \<open>worker.close()\<close> ends the process with 1.
\<close>

theorem worker_shutdown_drains:
  assumes "pool_inv (wp_world p)"
  shows "wp_exit (worker_shutdown None errs p) = Some 0 \<and> \<not> wp_accepting (worker_shutdown None errs p) \<and>
    \<not> wp_server_open (worker_shutdown None errs p) \<and> pool (wp_world (worker_shutdown None errs p)) = [] \<and>
    set (live (wp_world (worker_shutdown None errs p))) = {(h, a) \<in> set (live (wp_world p)). errs a \<noteq> None} \<and>
    wp_exit (worker_shutdown (Some e) errs p) = Some 1"
  using assms by (simp add: worker_shutdown_def closeAllContexts_live) (simp add: closeAllContexts_def)

lemma check_interval_default: "check_interval None = Some 60000"
  by (simp add: check_interval_def parseInt_def is_digit_def digits_val_def digit_val_def js_space_def)

lemma tracker_shutdown_exit:
  "\<not> tp_server_open (tracker_shutdown e p) \<and>
   tp_exit (tracker_shutdown e p) = Some (if e = None then 0 else 1)"
  by (simp add: tracker_shutdown_def split: option.splits)

lemma set_merge_events: "set (merge_events xs ys) = set xs \<union> set ys"
  by (induction xs ys rule: merge_events.induct) auto

lemma sorted_merge_events:
  "sorted (map fst xs) \<Longrightarrow> sorted (map fst ys) \<Longrightarrow> sorted (map fst (merge_events xs ys))"
  by (induction xs ys rule: merge_events.induct) (auto simp: set_merge_events)

lemma timer_times_sorted: "0 \<le> d \<Longrightarrow> sorted (timer_times d h)"
  by (auto simp: timer_times_def sorted_iff_nth_mono mult_right_mono simp del: upt_Suc)

lemma length_timer_times: "length (timer_times d h) = nat (h div d)"
  by (simp add: timer_times_def)

lemma timer_delay_pos: "1 \<le> timer_delay d"
  by (simp add: timer_delay_def split: option.split)

lemma timer_times_nonneg: "0 \<le> d \<Longrightarrow> t \<in> set (timer_times d h) \<Longrightarrow> 0 \<le> t"
  by (auto simp: timer_times_def)

lemma filter_merge_events:
  "\<forall>y\<in>set ys. \<not> P y \<Longrightarrow> filter P (merge_events xs ys) = filter P xs"
  by (induction xs ys rule: merge_events.induct) auto

lemma tracker_schedule_sorted: "sorted (map fst (tracker_schedule e h))"
proof -
  let ?d = "timer_delay (check_interval e)"
  have d: "0 \<le> ?d" using timer_delay_pos [of "check_interval e"] by simp
  have s: "sorted (map fst (merge_events (map (\<lambda>t. (t, Task_checkQuotas)) (timer_times ?d h))
      (map (\<lambda>t. (t, Task_checkExpiringSessions)) (timer_times (24 * 60 * 60 * 1000) h))))"
    using timer_times_sorted [OF d] timer_times_sorted [of "24 * 60 * 60 * 1000"]
    by (intro sorted_merge_events) (simp_all add: comp_def)
  have "\<forall>x\<in>set (map fst (merge_events (map (\<lambda>t. (t, Task_checkQuotas)) (timer_times ?d h))
      (map (\<lambda>t. (t, Task_checkExpiringSessions)) (timer_times (24 * 60 * 60 * 1000) h)))). 0 \<le> x"
    using timer_times_nonneg [OF d] timer_times_nonneg [of "24 * 60 * 60 * 1000"]
    by (auto simp: set_merge_events)
  with s show ?thesis by (simp add: tracker_schedule_def)
qed

lemma tracker_schedule_checkQuotas:
  "length (filter (\<lambda>ev. snd ev = Task_checkQuotas) (tracker_schedule e h)) =
     Suc (nat (h div timer_delay (check_interval e)))"
  by (simp add: tracker_schedule_def filter_merge_events comp_def length_timer_times)

lemma fires_closed:
  assumes d: "0 < d"
  shows "fires d t h = Some (map (\<lambda>k. t + int k * d) [0..<nat ((h - t) div d + 1)])"
proof (induction "nat (h - t + 1)" arbitrary: t rule: less_induct)
  case less
  show ?case
  proof (cases "h < t")
    case True
    then have "(h - t) div d + 1 \<le> 0"
      using d by (simp add: div_neg_pos_less0 add1_zle_eq)
    with True show ?thesis by (simp add: fires.simps)
  next
    case False
    then have ih: "fires d (t + d) h = Some (map (\<lambda>k. t + d + int k * d) [0..<nat ((h - (t + d)) div d + 1)])"
      using d by (intro less) simp
    have e: "(h - (t + d)) div d + 1 = (h - t) div d"
      using d div_add_self2 [of d "h - (t + d)"] by (simp add: algebra_simps)
    have "0 \<le> (h - t) div d"
      using False d by (simp add: pos_imp_zdiv_nonneg_iff)
    then have n: "nat ((h - t) div d + 1) = Suc (nat ((h - t) div d))"
      by (simp add: nat_add_distrib)
    have "map (\<lambda>k. t + int k * d) [0..<Suc (nat ((h - t) div d))] =
        t # map (\<lambda>k. t + d + int k * d) [0..<nat ((h - t) div d)]"
      by (simp add: upt_conv_Cons map_Suc_upt [symmetric] algebra_simps del: upt_Suc)
    with False ih e n show ?thesis by (simp add: fires.simps)
  qed
qed

lemma fires_timer_times:
  assumes d: "0 < d"
  shows "fires d d h = Some (timer_times d h)"
proof -
  have e: "(h - d) div d + 1 = h div d"
    using d div_add_self2 [of d "h - d"] by simp
  have "map (\<lambda>k. int k * d) [1..<nat (h div d) + 1] = map (\<lambda>k. d + int k * d) [0..<nat (h div d)]"
    by (simp add: map_Suc_upt [symmetric] algebra_simps del: upt_Suc)
  then show ?thesis
    using fires_closed [OF d, of d h] e by (simp add: timer_times_def)
qed

text \<open>
  Every timer of the tracker's schedule ends its loop up to any horizon: Node clamps the
  delay made of \<open>CHECK_INTERVAL\<close> to at least 1, whatever the variable holds, so the
  firing loop returns the instants \<open>timer_times\<close> of the schedule.
\<close>

lemma tracker_timer_terminates:
  "fires (timer_delay (check_interval e)) (timer_delay (check_interval e)) h =
     Some (timer_times (timer_delay (check_interval e)) h)"
  using timer_delay_pos [of "check_interval e"] by (intro fires_timer_times) simp

end
