(* ===== verification/System.thy ===== *)
theory System
  imports Intake Webapp Entry
begin

text \<open>
  The programs of the repository share one database. The intake, the browser worker,
  the quota tracker and the dashboard each write it, and their operations interleave
  in any order. \<open>sys\<close> is the state they share: the worker process (with its world, which
  holds the tables), the \<open>api_keys\<close> table, the Redis store and the alerts the tracker
  published. \<open>sys_op\<close> lists the operations that change it, and \<open>sys_apply\<close> runs one
  of them with the component's own function. \<open>sys_reach\<close> is the set of states reached
  by any interleaving.
\<close>

record sys =
  sy_proc :: worker_proc
  sy_keys :: "(string, api_key) table"
  sy_redis :: redis
  sy_published :: "alert list"

datatype sys_op =
    Op_intake intake_env
  | Op_job config job_env chat_request_job
  | Op_shutdown "string option" "string \<Rightarrow> string option"
  | Op_check_quotas tracker_env
  | Op_check_sessions tracker_env
  | Op_add_account "string option" "string option" string time string string
  | Op_delete_account "string option" string

abbreviation sys_db :: "sys \<Rightarrow> db" where
  "sys_db s \<equiv> db (wp_world (sy_proc s))"

definition set_sys_db :: "db \<Rightarrow> sys \<Rightarrow> sys" where
  "set_sys_db d s = s\<lparr>sy_proc := (sy_proc s)\<lparr>wp_world := (wp_world (sy_proc s))\<lparr>db := d\<rparr>\<rparr>\<rparr>"

text \<open>
  The worker takes a job only while it accepts jobs (\<open>worker.close()\<close> stops it); the
  tracker's runs read and write the tables and append to the published alerts.
\<close>

definition sys_apply :: "sys_op \<Rightarrow> sys \<Rightarrow> sys" where
  "sys_apply op s =
     (case op of
        Op_intake env \<Rightarrow>
          let st' = snd (chat_handler env \<lparr>is_db = sys_db s, is_keys = sy_keys s, is_redis = sy_redis s\<rparr>)
          in (set_sys_db (is_db st') s)\<lparr>sy_keys := is_keys st', sy_redis := is_redis st'\<rparr>
      | Op_job cfg env job \<Rightarrow>
          if wp_accepting (sy_proc s)
          then s\<lparr>sy_proc := (sy_proc s)\<lparr>wp_world := snd (process_job cfg env job (wp_world (sy_proc s)))\<rparr>\<rparr>
          else s
      | Op_shutdown close_err errs \<Rightarrow> s\<lparr>sy_proc := worker_shutdown close_err errs (sy_proc s)\<rparr>
      | Op_check_quotas tenv \<Rightarrow>
          let t = checkQuotas tenv \<lparr>ts_db = sys_db s, ts_published = sy_published s\<rparr>
          in (set_sys_db (ts_db t) s)\<lparr>sy_published := ts_published t\<rparr>
      | Op_check_sessions tenv \<Rightarrow>
          let t = checkExpiringSessions tenv \<lparr>ts_db = sys_db s, ts_published = sy_published s\<rparr>
          in (set_sys_db (ts_db t) s)\<lparr>sy_published := ts_published t\<rparr>
      | Op_add_account user err i now p email \<Rightarrow>
          set_sys_db (snd (addAccount user err i now p email (sys_db s))) s
      | Op_delete_account err i \<Rightarrow> set_sys_db (snd (deleteAccount err i (sys_db s))) s)"

inductive sys_reach :: "sys \<Rightarrow> sys \<Rightarrow> bool" for s0 where
  init: "sys_reach s0 s0"
| step: "sys_reach s0 s \<Longrightarrow> sys_reach s0 (sys_apply op s)"

subsection \<open>Properties of the composed system\<close>

lemma sys_db_set [simp]: "sys_db (set_sys_db d s) = d"
  by (simp add: set_sys_db_def)

lemma sys_apply_wf:
  assumes wf: "db_wf (sys_db s)"
  shows "db_wf (sys_db (sys_apply op s))"
proof (cases op)
  case (Op_intake env)
  let ?st = "\<lparr>is_db = sys_db s, is_keys = sy_keys s, is_redis = sy_redis s\<rparr>"
  have "db_wf (is_db (snd (chat_handler env ?st)))"
    using chat_handler_wf [OF prod.collapse [symmetric]] wf by simp
  with Op_intake show ?thesis by (simp add: sys_apply_def Let_def)
next
  case (Op_job cfg env job)
  have "db_wf (db (snd (process_job cfg env job (wp_world (sy_proc s)))))"
    using process_job_wf [OF wf prod.collapse [symmetric]] by simp
  with Op_job wf show ?thesis by (simp add: sys_apply_def)
next
  case (Op_shutdown close_err errs)
  with wf show ?thesis
    by (simp add: sys_apply_def worker_shutdown_def closeAllContexts_def close_each_frame
        split: option.splits)
next
  case (Op_check_quotas tenv)
  with wf show ?thesis by (simp add: sys_apply_def Let_def checkQuotas_wf)
next
  case (Op_check_sessions tenv)
  with wf show ?thesis by (simp add: sys_apply_def Let_def checkExpiringSessions_wf)
next
  case (Op_add_account user err i now p email)
  with wf show ?thesis
    by (simp add: sys_apply_def addAccount_wf [OF wf prod.collapse [symmetric]])
next
  case (Op_delete_account err i)
  with wf show ?thesis
    by (simp add: sys_apply_def deleteAccount_wf [OF wf prod.collapse [symmetric]])
qed

text \<open>
  The primary keys of the schema hold in every state the programs reach together, for
  any interleaving of requests to the intake, jobs of the worker, its shutdown, runs of
  the tracker and writes of the dashboard. This holds by construction: every write goes
  through a keyed update, and the two inserts check the key as the database does.
\<close>

lemma system_keys_wf:
  assumes "sys_reach s0 s" and "db_wf (sys_db s0)"
  shows "db_wf (sys_db s)"
  using assms by (induction rule: sys_reach.induct) (simp_all add: sys_apply_wf)

end
