(* ===== verification/SystemExamples.thy ===== *)
theory SystemExamples
  imports System IntakeExamples
begin

text \<open>
  A concrete interleaving: the user of \<open>Examples\<close> sends a request to the intake, then
  the worker runs the job of \<open>Examples\<close>, then the tracker checks the quotas; and the
  shutdown of a worker with one pooled context.
\<close>

definition ex_sys :: sys where
  "ex_sys = \<lparr>sy_proc = \<lparr>wp_accepting = True, wp_world = ex_world, wp_server_open = True, wp_exit = None\<rparr>,
     sy_keys = [(''k1'', ex_key)], sy_redis = ex_redis, sy_published = []\<rparr>"

definition ex_sys_ops :: "sys_op list" where
  "ex_sys_ops = [Op_intake ex_ienv, Op_job default_config ex_env ex_job, Op_check_quotas ex_tenv]"

definition ex_proc :: worker_proc where
  "ex_proc = \<lparr>wp_accepting = True, wp_world = ex_world_pooled, wp_server_open = True, wp_exit = None\<rparr>"

lemma ex_sys_wf: "db_wf (sys_db ex_sys)"
  by (simp add: ex_sys_def ex_world_def ex_db_def db_wf_def)

lemma ex_sys_reach: "sys_reach ex_sys (fold sys_apply ex_sys_ops ex_sys)"
proof -
  have "sys_reach s0 (fold sys_apply ops s)" if "sys_reach s0 s" for s0 s ops
    using that by (induction ops arbitrary: s) (auto intro: sys_reach.step)
  then show ?thesis by (blast intro: sys_reach.init)
qed

theorem system_keys_wf_example: "db_wf (sys_db (fold sys_apply ex_sys_ops ex_sys))"
  by (rule system_keys_wf [OF ex_sys_reach ex_sys_wf])

text \<open>The shutdown of a worker whose only context fails to close.\<close>

theorem worker_shutdown_drains_witness:
  "wp_exit (worker_shutdown None (\<lambda>a. if a = ''acc1'' then Some ''crashed'' else None) ex_proc) = Some 0 \<and>
   \<not> wp_accepting (worker_shutdown None (\<lambda>a. if a = ''acc1'' then Some ''crashed'' else None) ex_proc) \<and>
   pool (wp_world (worker_shutdown None (\<lambda>a. if a = ''acc1'' then Some ''crashed'' else None) ex_proc)) = [] \<and>
   set (live (wp_world (worker_shutdown None (\<lambda>a. if a = ''acc1'' then Some ''crashed'' else None) ex_proc))) =
     {(0, ''acc1'')} \<and>
   wp_exit (worker_shutdown (Some ''timeout'') (\<lambda>a. if a = ''acc1'' then Some ''crashed'' else None) ex_proc) = Some 1"
  using worker_shutdown_drains [of ex_proc "\<lambda>a. if a = ''acc1'' then Some ''crashed'' else None" "''timeout''"]
    ex_world_pooled_inv
  by (simp add: ex_proc_def)

end
