(* ===== verification/Dashboard.thy ===== *)
theory Dashboard
  imports Webapp Configuration
begin

text \<open>
  What the dashboard shows, \<open>src/webapp/src/App.tsx\<close> and the render functions of
  \<open>QuotaDashboard\<close> and \<open>AccountList\<close>. The shell \<open>App\<close> is a state machine: its
  React state is \<open>app_state\<close>, each callback that sets it is an event of \<open>app_event\<close>,
  and \<open>app_enabled\<close> says which events the rendered screen offers (an input exists only
  on the sign-in form, the add button only on the dashboard); the session check and the
  auth listener are asynchronous and may be delivered at any time. A component's output
  is a value of a datatype that records what the JSX decides: the branch rendered, the
  texts, the badge and bar classes, and the values React prints.
\<close>

subsection \<open>The shell: the session, the sign-in form and the dashboard\<close>

datatype auth_mode = Signin | Signup

text \<open>Lines 8 to 13; a user is its e-mail, the only field the shell reads.\<close>

record app_state =
  ap_user :: "string option"
  ap_loading :: bool
  ap_show_add :: bool
  ap_email :: string
  ap_password :: string
  ap_mode :: auth_mode

definition app_init :: app_state where
  "app_init = \<lparr>ap_user = None, ap_loading = True, ap_show_add = False, ap_email = [],
     ap_password = [], ap_mode = Signin\<rparr>"

text \<open>
  The callbacks that set the state: the response of \<open>getSession\<close> (lines 17 to 20), the
  \<open>onAuthStateChange\<close> listener (lines 25 to 27), the two inputs (lines 77 and 90), the
  mode toggle (line 102) and the opening and closing of the add-account modal (lines 140
  and 154).
\<close>

datatype app_event =
    Session_loaded "string option"
  | Auth_changed "string option"
  | Email_input string
  | Password_input string
  | Toggle_mode
  | Open_add
  | Close_add

definition app_step :: "app_event \<Rightarrow> app_state \<Rightarrow> app_state" where
  "app_step ev s =
     (case ev of
        Session_loaded u \<Rightarrow> s\<lparr>ap_user := u, ap_loading := False\<rparr>
      | Auth_changed u \<Rightarrow> s\<lparr>ap_user := u\<rparr>
      | Email_input e \<Rightarrow> s\<lparr>ap_email := e\<rparr>
      | Password_input p \<Rightarrow> s\<lparr>ap_password := p\<rparr>
      | Toggle_mode \<Rightarrow> s\<lparr>ap_mode := (if ap_mode s = Signin then Signup else Signin)\<rparr>
      | Open_add \<Rightarrow> s\<lparr>ap_show_add := True\<rparr>
      | Close_add \<Rightarrow> s\<lparr>ap_show_add := False\<rparr>)"

text \<open>Lines 53 to 156: the screen rendered, with the labels of the form's two buttons.\<close>

datatype app_view =
    View_loading
  | View_auth_form auth_mode string string
  | View_dashboard string bool

definition app_view :: "app_state \<Rightarrow> app_view" where
  "app_view s =
     (if ap_loading s then View_loading
      else case ap_user s of
        None \<Rightarrow>
          (if ap_mode s = Signin then View_auth_form Signin ''Sign In'' ''Don't have an account? Sign up''
           else View_auth_form Signup ''Sign Up'' ''Already have an account? Sign in'')
      | Some u \<Rightarrow> View_dashboard u (ap_show_add s))"

text \<open>
  The events the screen offers: \<open>getSession\<close> answers once, while the shell is loading;
  the listener fires at any time; the inputs and the toggle belong to the sign-in form,
  the add button to the dashboard, and the modal's close button exists while it is open.
\<close>

definition app_enabled :: "app_event \<Rightarrow> app_state \<Rightarrow> bool" where
  "app_enabled ev s =
     (case ev of
        Session_loaded _ \<Rightarrow> ap_loading s
      | Auth_changed _ \<Rightarrow> True
      | Open_add \<Rightarrow> \<not> ap_loading s \<and> ap_user s \<noteq> None
      | Close_add \<Rightarrow> \<not> ap_loading s \<and> ap_user s \<noteq> None \<and> ap_show_add s
      | _ \<Rightarrow> \<not> ap_loading s \<and> ap_user s = None)"

inductive app_reach :: "app_state \<Rightarrow> bool" where
  init: "app_reach app_init"
| step: "app_reach s \<Longrightarrow> app_enabled ev s \<Longrightarrow> app_reach (app_step ev s)"

text \<open>
  \<open>handleAuth\<close> (lines 32 to 47): the call it makes with the form's fields and the alerts
  it shows, given the error the call returns; a successful sign-in shows nothing, the
  listener then delivers the user. \<open>handleSignOut\<close> (lines 49 to 51) only makes its call.
\<close>

datatype auth_call = Sign_in string string | Sign_up string string | Sign_out

definition handleAuth :: "(auth_call \<Rightarrow> string option) \<Rightarrow> app_state \<Rightarrow> auth_call \<times> string list" where
  "handleAuth err s =
     (let c = (if ap_mode s = Signin then Sign_in (ap_email s) (ap_password s)
               else Sign_up (ap_email s) (ap_password s))
      in (c, case err c of Some m \<Rightarrow> [m]
                | None \<Rightarrow> if ap_mode s = Signin then [] else [''Check your email for the confirmation link!'']))"

definition handleSignOut :: auth_call where
  "handleSignOut = Sign_out"

subsection \<open>The quota cards\<close>

datatype badge = Badge_success | Badge_error | Badge_warning | Badge_info

text \<open>
  The monthly part of a card (line 96): \<open>quota.monthly_limit && ... && (<div>)\<close>. A
  \<open>null\<close> limit renders nothing, a limit of \<open>0\<close> is the value of the expression, which
  React prints as the text \<open>0\<close>, any other limit renders the bar.
\<close>

datatype monthly_slot = Monthly_none | Monthly_zero | Monthly_bar int int js_num bar_color

record quota_card =
  card_id :: string
  card_provider :: string
  card_badge :: badge
  card_status :: "acct_status option"
  card_email :: "string option"
  card_daily_used :: int
  card_daily_limit :: int
  card_daily :: js_num
  card_daily_color :: bar_color
  card_monthly :: monthly_slot
  card_reset :: time

datatype 'c panel = Panel_loading | Panel_error string | Panel_empty | Panel_list "'c list"

text \<open>Lines 62 to 72: \<open>quota.accounts?.status\<close> is undefined without the embedded account.\<close>

definition quota_badge :: "acc_embed option \<Rightarrow> badge" where
  "quota_badge e =
     (case e of
        Some a \<Rightarrow> if ae_status a = Active then Badge_success
                  else if ae_status a = Expired then Badge_error else Badge_warning
      | None \<Rightarrow> Badge_warning)"

definition monthly_slot :: "quota \<Rightarrow> monthly_slot" where
  "monthly_slot q =
     (case q_monthly_limit q of
        None \<Rightarrow> Monthly_none
      | Some l \<Rightarrow>
          if l = 0 then Monthly_zero
          else case monthly_percentage q of
                 Some p \<Rightarrow> Monthly_bar (q_monthly_used q) l p (status_color p)
               | None \<Rightarrow> Monthly_none)"

text \<open>Lines 44 to 117: the card of one quota row.\<close>

definition quota_card :: "quota_row \<Rightarrow> quota_card" where
  "quota_card r =
     (case r of (i, q, e) \<Rightarrow>
        \<lparr>card_id = i, card_provider = q_provider q, card_badge = quota_badge e,
         card_status = map_option ae_status e, card_email = map_option ae_email e,
         card_daily_used = q_daily_used q, card_daily_limit = q_daily_limit q,
         card_daily = daily_percentage q, card_daily_color = status_color (daily_percentage q),
         card_monthly = monthly_slot q, card_reset = q_reset_daily_at q\<rparr>)"

text \<open>Lines 3 to 122: the skeleton, the error, the empty message or the cards.\<close>

definition quota_dashboard :: "quotas_client \<Rightarrow> quota_card panel" where
  "quota_dashboard v =
     (if qc_loading v then Panel_loading
      else case qc_error v of
        Some m \<Rightarrow> Panel_error (''Error loading quotas: '' @ m)
      | None \<Rightarrow> if qc_rows v = [] then Panel_empty else Panel_list (map quota_card (qc_rows v)))"

subsection \<open>The account table\<close>

definition status_str :: "acct_status \<Rightarrow> string" where
  "status_str st =
     (case st of Pending \<Rightarrow> ''pending'' | Active \<Rightarrow> ''active'' | Expired \<Rightarrow> ''expired''
      | Quota_exceeded \<Rightarrow> ''quota_exceeded'' | Status_error \<Rightarrow> ''error'')"

text \<open>Lines 88 to 100: the badge class and the status text \<open>status.replace('_', ' ')\<close>.\<close>

definition account_badge :: "acct_status \<Rightarrow> badge" where
  "account_badge st =
     (if st = Active then Badge_success else if st = Expired then Badge_error
      else if st = Quota_exceeded then Badge_warning else Badge_info)"

record account_line =
  line_id :: string
  line_provider :: string
  line_email :: string
  line_badge :: badge
  line_status :: string
  line_last_used :: "time option"
  line_disabled :: bool
  line_button :: string

text \<open>
  Lines 77 to 117: one row; \<open>deleting\<close> is the id whose deletion is in flight (line 6),
  which disables its button and relabels it.
\<close>

definition account_line :: "string option \<Rightarrow> string \<times> account \<Rightarrow> account_line" where
  "account_line deleting r =
     (case r of (i, a) \<Rightarrow>
        \<lparr>line_id = i, line_provider = acc_provider a, line_email = acc_email a,
         line_badge = account_badge (acc_status a),
         line_status = js_replace (status_str (acc_status a)) ''_'' '' '',
         line_last_used = acc_last_used_at a, line_disabled = (deleting = Some i),
         line_button = (if deleting = Some i then ''Deleting...'' else ''Delete'')\<rparr>)"

definition account_list :: "accounts_view \<Rightarrow> string option \<Rightarrow> account_line panel" where
  "account_list v deleting =
     (if av_loading v then Panel_loading
      else case av_error v of
        Some m \<Rightarrow> Panel_error (''Error loading accounts: '' @ m)
      | None \<Rightarrow> if av_rows v = [] then Panel_empty
                else Panel_list (map (account_line deleting) (av_rows v)))"

text \<open>
  The \<open>deleting\<close> slot of \<open>handleDelete\<close>: a confirmed click sets it to the row's id
  (line 12), and the \<open>finally\<close> block of any deletion clears it (line 17).
\<close>

definition delete_begin :: "bool \<Rightarrow> string \<Rightarrow> string option \<Rightarrow> string option" where
  "delete_begin confirmed i deleting = (if confirmed then Some i else deleting)"

definition delete_end :: "string option \<Rightarrow> string option" where
  "delete_end deleting = None"

subsection \<open>The add-account modal\<close>

text \<open>
  \<open>AddAccountModal\<close> (lines 32 to 104): nothing unless \<open>isOpen\<close>; otherwise the selected
  provider, the e-mail field, the error box when there is an error, and the submit
  button, disabled and relabelled while the insert runs. \<open>onClose\<close> (the close and
  Cancel buttons) only closes it; the App passes \<open>showAddAccount\<close> as \<open>isOpen\<close>.
\<close>

record modal_view =
  mv_provider :: string
  mv_email :: string
  mv_error :: "string option"
  mv_submit :: string
  mv_disabled :: bool

definition add_modal_view :: "string \<Rightarrow> bool \<Rightarrow> modal_state \<Rightarrow> modal_view option" where
  "add_modal_view provider loading m =
     (if \<not> md_open m then None
      else Some \<lparr>mv_provider = provider, mv_email = md_email m, mv_error = md_error m,
                 mv_submit = (if loading then ''Adding...'' else ''Add Account''), mv_disabled = loading\<rparr>)"

definition modal_close :: "modal_state \<Rightarrow> modal_state" where
  "modal_close m = m\<lparr>md_open := False\<rparr>"

definition modal_open :: "modal_state \<Rightarrow> modal_state" where
  "modal_open m = m\<lparr>md_open := True\<rparr>"

subsection \<open>Properties of the shell\<close>

lemma app_init_loading [simp]: "ap_loading app_init"
  by (simp add: app_init_def)

text \<open>
  Nothing can be typed and the modal cannot be opened before the session check answers:
  while the shell is loading only the listener may have changed it, and only its user.
\<close>

lemma app_reach_loading:
  assumes "app_reach s" and "ap_loading s"
  shows "ap_email s = [] \<and> ap_password s = [] \<and> \<not> ap_show_add s \<and> ap_mode s = Signin"
  using assms
proof (induction rule: app_reach.induct)
  case init
  then show ?case by (simp add: app_init_def)
next
  case (step s ev)
  then show ?case
    by (cases ev) (auto simp: app_step_def app_enabled_def)
qed

lemma app_view_signed_in:
  "\<not> ap_loading s \<Longrightarrow> ap_user s = Some u \<Longrightarrow> app_view s = View_dashboard u (ap_show_add s)"
  by (simp add: app_view_def)

text \<open>
  C37: The answer of the session check overrides a newer event of the auth listener:
  in any state the shell reaches while loading, when the listener reports a sign-out
  and the pending \<open>getSession\<close> then answers with the earlier session of \<open>u\<close>, the
  shell shows the dashboard of \<open>u\<close> to a signed-out user.
\<close>

theorem stale_session_shown:
  assumes "app_reach s" and "ap_loading s"
  shows "app_reach (app_step (Session_loaded (Some u)) (app_step (Auth_changed None) s)) \<and>
    app_view (app_step (Session_loaded (Some u)) (app_step (Auth_changed None) s)) = View_dashboard u False"
proof -
  let ?s1 = "app_step (Auth_changed None) s"
  have r1: "app_reach ?s1"
    using assms(1) by (rule app_reach.step) (simp add: app_enabled_def)
  have r2: "app_reach (app_step (Session_loaded (Some u)) ?s1)"
    by (rule app_reach.step [OF r1]) (simp add: app_enabled_def app_step_def assms(2))
  have "\<not> ap_show_add s"
    using app_reach_loading [OF assms] by simp
  then show ?thesis
    using r2 by (simp add: app_step_def app_view_def)
qed

subsection \<open>Properties of the cards and the table\<close>

lemma js_div_pos: "0 < b \<Longrightarrow> js_div a b = Num (of_int a / of_int b)"
  by (simp add: js_div_def)

lemma daily_percentage_pos:
  "0 < q_daily_limit q \<Longrightarrow>
     daily_percentage q = Num (min (100 * (of_int (q_daily_used q) / of_int (q_daily_limit q))) 100)"
  by (simp add: daily_percentage_def js_percent_def js_div_pos)

lemma red_iff:
  fixes u l :: int
  assumes "0 < l"
  shows "(90 \<le> min (100 * (of_int u / of_int l)) (100 :: rat)) \<longleftrightarrow> 9 * l \<le> 10 * u"
proof -
  have l: "(0 :: rat) < of_int l" using assms by simp
  have "(90 \<le> 100 * (of_int u / of_int l :: rat)) \<longleftrightarrow> 90 * of_int l \<le> (100 * of_int u :: rat)"
    using l by (simp add: le_divide_eq mult.commute [of 100] field_simps)
  also have "\<dots> \<longleftrightarrow> 9 * l \<le> 10 * u" by linarith
  finally have e: "(90 \<le> 100 * (of_int u / of_int l :: rat)) \<longleftrightarrow> 9 * l \<le> 10 * u" .
  show ?thesis
  proof (cases "100 * (of_int u / of_int l :: rat) \<le> 100")
    case True
    with e show ?thesis by (simp add: min_def)
  next
    case False
    then have "(of_int l :: rat) < of_int u" using l by (simp add: field_simps)
    then have "l < u" by simp
    with False assms show ?thesis by (simp add: min_def)
  qed
qed

text \<open>
  The daily bar of a card with a positive limit and a usage that is not negative is a
  number from 0 to 100, and it is red exactly when the usage is at least nine tenths of
  the limit.
\<close>

lemma daily_bar_bounds:
  assumes "0 \<le> q_daily_used q" and "0 < q_daily_limit q"
  shows "\<exists>p. card_daily (quota_card (i, q, e)) = Num p \<and> 0 \<le> p \<and> p \<le> 100 \<and>
    (card_daily_color (quota_card (i, q, e)) = Bar_red \<longleftrightarrow> 9 * q_daily_limit q \<le> 10 * q_daily_used q)"
proof -
  let ?p = "min (100 * (of_int (q_daily_used q) / of_int (q_daily_limit q))) (100 :: rat)"
  have "0 \<le> ?p" using assms by simp
  moreover have "?p \<le> 100" by simp
  moreover have "status_color (Num ?p) = Bar_red \<longleftrightarrow> 9 * q_daily_limit q \<le> 10 * q_daily_used q"
    using red_iff [OF assms(2)] by (simp add: status_color_def)
  ultimately show ?thesis
    using assms by (simp add: quota_card_def daily_percentage_pos)
qed

lemma monthly_zero: "q_monthly_limit q = Some 0 \<Longrightarrow> card_monthly (quota_card (i, q, e)) = Monthly_zero"
  by (simp add: quota_card_def monthly_slot_def)

text \<open>
  C38: After a realtime update of a quota the dashboard lists, its card shows the warning
  badge and neither the account's status nor its e-mail, whatever the account's status.
\<close>

theorem quota_card_after_update:
  assumes "i \<in> fst ` set (qc_rows v)" and "\<not> qc_loading v" and "qc_error v = None"
  shows "\<exists>cs. quota_dashboard (quotas_step (Changed (Ch_update i q)) v) = Panel_list cs \<and>
    (\<exists>c \<in> set cs. card_id c = i) \<and>
    (\<forall>c \<in> set cs. card_id c = i \<longrightarrow> card_badge c = Badge_warning \<and> card_status c = None \<and> card_email c = None)"
proof -
  let ?f = "\<lambda>(j, r). if j = i then (i, q, None) else (j, r)"
  let ?rows = "map ?f (qc_rows v)"
  from assms(1) obtain r where r: "(i, r) \<in> set (qc_rows v)" by auto
  then have "(i, q, None) \<in> set ?rows" by force
  then have "quota_card (i, q, None) \<in> set (map quota_card ?rows)"
    by (simp only: set_map) (rule imageI)
  then have ex: "\<exists>c \<in> set (map quota_card ?rows). card_id c = i"
    by (rule bexI [rotated]) (simp add: quota_card_def)
  have all: "\<forall>c \<in> set (map quota_card ?rows). card_id c = i \<longrightarrow>
      card_badge c = Badge_warning \<and> card_status c = None \<and> card_email c = None"
    by (auto simp: quota_card_def quota_badge_def split: if_splits)
  have "?rows \<noteq> []" using r by auto
  with assms have "quota_dashboard (quotas_step (Changed (Ch_update i q)) v) = Panel_list (map quota_card ?rows)"
    by (simp add: quota_dashboard_def quotas_step_def apply_quota_change_def)
  with ex all show ?thesis by blast
qed

text \<open>
  Two deletions in flight: the first to settle clears the slot, so the button of the
  second row is enabled again while its deletion is still pending.
\<close>

lemma delete_slot_race:
  "a \<noteq> b \<Longrightarrow> delete_end (delete_begin True b (delete_begin True a d)) = None \<and>
     \<not> line_disabled (account_line (delete_end (delete_begin True b (delete_begin True a d))) (b, acc))"
  by (simp add: delete_begin_def delete_end_def account_line_def)

text \<open>
  The error of a failed insert survives Cancel: the modal reopened later still shows it,
  since only a new submission clears it.
\<close>

lemma modal_error_survives_cancel:
  "md_open m \<Longrightarrow> add_modal_view p False (modal_open (modal_close m)) = add_modal_view p False m"
  by (simp add: add_modal_view_def modal_open_def modal_close_def)

subsection \<open>The properties at concrete states\<close>

theorem stale_session_shown_witness:
  "app_reach (app_step (Session_loaded (Some ''ann@example.com'')) (app_step (Auth_changed None) app_init)) \<and>
   app_view (app_step (Session_loaded (Some ''ann@example.com'')) (app_step (Auth_changed None) app_init)) =
     View_dashboard ''ann@example.com'' False"
  using stale_session_shown [of app_init "''ann@example.com''"] by (simp add: app_reach.init)

theorem quota_card_after_update_witness:
  "card_badge (quota_card (''q1'', \<lparr>q_account = ''acc1'', q_provider = ''claude'', q_daily_limit = 100,
       q_daily_used = 6, q_monthly_limit = None, q_monthly_used = 0, q_reset_daily_at = 0,
       q_reset_monthly_at = None, q_updated_at = 0\<rparr>, None)) = Badge_warning \<and>
   quota_dashboard (quotas_step (Changed (Ch_update ''q1'' \<lparr>q_account = ''acc1'', q_provider = ''claude'',
       q_daily_limit = 100, q_daily_used = 6, q_monthly_limit = None, q_monthly_used = 0,
       q_reset_daily_at = 0, q_reset_monthly_at = None, q_updated_at = 0\<rparr>))
     \<lparr>qc_rows = [(''q1'', \<lparr>q_account = ''acc1'', q_provider = ''claude'', q_daily_limit = 100,
          q_daily_used = 5, q_monthly_limit = None, q_monthly_used = 0, q_reset_daily_at = 0,
          q_reset_monthly_at = None, q_updated_at = 0\<rparr>,
        Some \<lparr>ae_provider = ''claude'', ae_email = ''ann@example.com'', ae_status = Active\<rparr>)],
      qc_loading = False, qc_error = None\<rparr>) =
   Panel_list [quota_card (''q1'', \<lparr>q_account = ''acc1'', q_provider = ''claude'', q_daily_limit = 100,
       q_daily_used = 6, q_monthly_limit = None, q_monthly_used = 0, q_reset_daily_at = 0,
       q_reset_monthly_at = None, q_updated_at = 0\<rparr>, None)]"
  using quota_card_after_update [of "''q1''" "\<lparr>qc_rows = [(''q1'', \<lparr>q_account = ''acc1'', q_provider = ''claude'',
          q_daily_limit = 100, q_daily_used = 5, q_monthly_limit = None, q_monthly_used = 0,
          q_reset_daily_at = 0, q_reset_monthly_at = None, q_updated_at = 0\<rparr>,
        Some \<lparr>ae_provider = ''claude'', ae_email = ''ann@example.com'', ae_status = Active\<rparr>)],
      qc_loading = False, qc_error = None\<rparr>"]
  by (simp add: quota_card_def quota_badge_def quota_dashboard_def quotas_step_def apply_quota_change_def)

end
