(* ===== verification/Spec2Isabelle.thy ===== *)
theory Spec2Isabelle
  imports QueriesExamples WebappExamples SystemExamples Dashboard
begin

text \<open>
  \<^bold>\<open>A verification model of the request path of edmunds-claude-code.\<close>

  The repository routes prompts to chat web applications through logged-in browser
  sessions. The intake endpoint (\<open>src/supabase/functions/chat/index.ts\<close>) checks the
  caller's API key and rate limit, selects an account, inserts a \<open>queued\<close> request row
  and pushes a job to Redis. The browser worker (\<open>src/browser-worker/src/\<close>) takes chat
  jobs from a BullMQ queue, acquires a browser context for the job's account from a
  pool, runs the provider's page automation and records the outcome in Supabase tables.
  The quota tracker (\<open>src/quota-tracker/src/index.ts\<close>) resets and checks the quotas
  and flags the accounts that exceeded them. This library models these three programs as
  HOL functions over an explicit state and proves what they do.

  \<^bold>\<open>Theories and what they model.\<close>
  \<^item> \<open>Prelude\<close>: the encoding of the runtime. A thrown error is \<open>Inl msg\<close> of
    \<open>'a res = string + 'a\<close>. An awaited call that may reject is \<open>thrw\<close>. A
    \<open>Map\<close> or a table is an association list. The JavaScript string methods the code
    calls are \<open>js_includes\<close>, \<open>js_trim\<close> and \<open>js_lower\<close>; \<open>Object.assign\<close> and
    \<open>addCookies\<close> are \<open>assign_all\<close>.
  \<^item> \<open>Datastore\<close>: the row types of \<open>supabase.ts\<close> and \<open>webapp/src/lib/supabase.ts\<close>,
    the tables as the record \<open>db\<close>, and the helpers \<open>loadSession\<close>, \<open>saveSession\<close>,
    \<open>updateAccountStatus\<close>, \<open>updateQuota\<close>, \<open>logUsage\<close>, \<open>calculateCost\<close>. Each
    helper that throws on a database error takes that error as its first argument.
    The SQL function \<open>update_quota_usage\<close> is not in the repository and is modelled
    from the specification.
  \<^item> \<open>Providers\<close>: the adapters of \<open>providers/\<close> and the dispatcher \<open>automateChat\<close>.
    What each Playwright call returns or throws is a field of \<open>page_env\<close>.
  \<^item> \<open>Pool\<close>: \<open>browser.ts\<close> and \<open>config.ts\<close>. The state is \<open>world\<close>: the tables, the
    \<open>contextPool\<close> map, the contexts the browser keeps open (\<open>live\<close>), the profile
    directories (\<open>disk\<close>) and the next context handle. \<open>getBrowserContext\<close>,
    \<open>saveBrowserSession\<close>, \<open>takeScreenshot\<close>, \<open>closeContext\<close> and
    \<open>closeAllContexts\<close> are functions from a world to a result and a world; the step
    of the restore block that rejects is a \<open>restore_fault\<close>. A run of the pool from a
    freshly started worker is \<open>pool_reach\<close>, over the operations \<open>pool_op\<close> applied by
    \<open>pool_apply\<close>. The interleaving of two acquisitions at their first await is the step
    relation \<open>acq_step\<close>.
  \<^item> \<open>Dispatcher\<close>: the job processor of \<open>worker.ts\<close> as \<open>process_job\<close>. It is
    composed of \<open>mark_processing\<close>, \<open>getBrowserContext\<close>, \<open>run_automation\<close>, and
    then \<open>job_success\<close> (the rest of the \<open>try\<close> block) or \<open>job_failed\<close> (the
    \<open>catch\<close> block, with the screenshot of \<open>capture_failure\<close>). What the environment
    decides is a field of \<open>job_env\<close>: the clock, the launch outcomes, the page and the
    error of each awaited database helper. The contract \<open>job_outcome\<close> states the
    value of a job without the pool and the tables.
  \<^item> \<open>QuotaTracker\<close>: \<open>checkQuotas\<close>, \<open>sendAlert\<close> and \<open>checkExpiringSessions\<close>
    over the tables and the published alerts (\<open>tstate\<close>). The query of the quotas keeps
    the PostgREST meaning of a filter on an embedded resource (\<open>quota_rows\<close>);
    JavaScript division is \<open>js_div\<close> with its infinite and NaN results; the first
    instant of the next month is computed with the civil-calendar conversions
    \<open>days_from_civil\<close> and \<open>civil_from_days\<close>.
  \<^item> \<open>Intake\<close>: the handler of \<open>chat/index.ts\<close> as \<open>chat_handler\<close>, over \<open>istate\<close>
    (the tables, the \<open>api_keys\<close> table and a Redis store of counters with expiry and of
    lists). It is composed of \<open>auth_key\<close>, \<open>find_api_key\<close>, \<open>checkRateLimit\<close>
    (split into the read \<open>rl_count\<close> and the rest \<open>rl_finish\<close>), \<open>accept_request\<close>
    (validation and \<open>selectBestAccount\<close>) and \<open>enqueue_request\<close> (insert, push, quota
    summary, key update). Requests of one key run concurrently are the step relation
    \<open>rl_step\<close>. The SQL function \<open>get_available_account\<close> is modelled from the
    specification; the SHA-256 digest is a field of \<open>intake_env\<close>.
  \<^item> \<open>Queries\<close>: the read-only endpoints \<open>status/index.ts\<close> (\<open>status_handler\<close>) and
    \<open>quotas/index.ts\<close> (\<open>quotas_handler\<close>) as functions from a request and the state to a
    response, with the key check \<open>verify_key\<close> they share with the intake. The quota
    summary is the fold \<open>summarize\<close> of \<open>add_quota\<close>; its status values form a
    \<open>linorder\<close> instance so that the aggregation is compared with a maximum.
  \<^item> \<open>Webapp\<close>: the data layer of the dashboard: the client copies of \<open>useAccounts\<close> and
    \<open>useQuotas\<close> driven by messages (the fetch response and each realtime change, in
    delivery order), the account writes of \<open>AccountList\<close> and \<open>AddAccountModal\<close>,
    and the usage bars of \<open>QuotaDashboard\<close>. The writes the realtime channel reports are
    the abstract \<open>server_apply\<close> and \<open>change_of\<close>.
  \<^item> \<open>Entry\<close>: the worker process of \<open>browser-worker/src/index.ts\<close> (health check,
    graceful shutdown through \<open>closeAllContexts\<close>, exit on an uncaught error), the
    tracker process (its health check and its signal handlers, \<open>tracker_shutdown\<close>,
    which exits with 1 when \<open>redis.quit()\<close> rejects), \<open>parseInt\<close> as JavaScript
    reads a string without a radix (white space, sign, \<open>0x\<close>), and the
    schedule of the tracker (\<open>tracker_schedule\<close>: one run of each check at start, then
    the \<open>CHECK_INTERVAL\<close> and daily timers merged in time order, \<open>tracker_run\<close> folding
    the checks over it). The loop of a Node timer is \<open>fires\<close>, a
    \<open>partial_function (option)\<close> that is \<open>None\<close> when it never passes the horizon.
  \<^item> \<open>Configuration\<close>: \<open>browser-worker/src/config.ts\<close> as \<open>load_config\<close>, from the
    environment (a function from a variable's name to its value) to the \<open>config\<close> object
    or the error its validation throws; \<open>browser_config\<close> gives the record \<open>config\<close>
    the pool reads. The queue connection that \<open>worker.ts\<close> cuts out of the Redis URL with
    \<open>replace\<close>, \<open>split\<close> and \<open>parseInt\<close> is \<open>redis_connection\<close>. The tracker's
    config block is \<open>tracker_config\<close>, with \<open>parseFloat\<close> for the alert threshold.
  \<^item> \<open>Dashboard\<close>: what the dashboard shows. The shell of \<open>App.tsx\<close> is a state
    machine: \<open>app_state\<close> is its React state, \<open>app_step\<close> runs one callback
    (\<open>app_event\<close>: the session check, the auth listener, the inputs, the toggle, the
    modal), \<open>app_enabled\<close> says which callbacks the rendered screen offers, and
    \<open>app_reach\<close> is the set of states reached from \<open>app_init\<close>. \<open>handleAuth\<close> gives
    the call and the alerts. \<open>quota_dashboard\<close>, \<open>account_list\<close> and
    \<open>add_modal_view\<close> give what \<open>QuotaDashboard\<close>, \<open>AccountList\<close> and
    \<open>AddAccountModal\<close> render from the client copies: the branch, the texts, the badge
    and bar classes, and the values React prints.
  \<^item> \<open>System\<close>: the programs together over the one database they share. The state
    \<open>sys\<close> holds the worker process (whose world holds the tables), the \<open>api_keys\<close>
    table, the Redis store and the published alerts; \<open>sys_op\<close> lists the operations
    that write it (a request to the intake, a job, the worker's shutdown, the two tracker
    checks, the dashboard's insert and delete of an account); \<open>sys_apply\<close> runs one
    with the component's own function, and \<open>sys_reach\<close> is any interleaving of them.
  \<^item> \<open>Examples\<close>, \<open>IntakeExamples\<close>, \<open>QueriesExamples\<close>, \<open>WebappExamples\<close> and
    \<open>SystemExamples\<close>:
    concrete worlds, jobs, pages, requests and client copies, and each property with a
    hypothesis applied to them.

  \<^bold>\<open>What is proved.\<close>
  \<^item> Refinement: \<open>process_job\<close> returns what \<open>job_outcome\<close> says; the client copy
    of the accounts table mirrors the table through any sequence of writes.
  \<^item> Equivalence: the status the quotas endpoint reports for a provider is the maximum
    of its rows' statuses.
  \<^item> Functional behaviour of the success path and of each failure path of a job, of a
    tracker run (resets, alerts, forced \<open>quota_exceeded\<close>), and of an accepted request.
  \<^item> The pool invariant \<open>pool_inv\<close> is preserved by every operation and by every job.
    So every run of the pool from a freshly started worker keeps the specification's core
    invariant: at most one live context per account.
  \<^item> The graceful shutdown swallows the close errors of the contexts and exits with 0
    once \<open>worker.close()\<close> resolves; a rejected \<open>worker.close()\<close> exits with 1.
  \<^item> Acquisition is idempotent, and it injects a session exactly when the session has not
    expired.
  \<^item> Round trips: saving and restoring a session; the hexadecimal key digest; a port
    printed in decimal in a Redis URL and parsed back by the worker.
  \<^item> Configuration (a lemma that justifies the examples' settings): with only the
    credentials set, \<open>config.ts\<close> gives \<open>default_config\<close>.
  \<^item> A request leaves \<open>processing\<close> for a terminal state; a job changes account status
    only to \<open>expired\<close>, a tracker run only to \<open>quota_exceeded\<close>.
  \<^item> Lemmas on the composition and the runtime: the primary keys of the tables
    (\<open>db_wf\<close>) hold in every state any interleaving of the programs reaches, by
    construction of the keyed writes; the loop of the tracker's \<open>CHECK_INTERVAL\<close> timer
    ends up to any horizon, because Node clamps the delay to at least 1.
  \<^item> Bounds: sequential requests of a key are admitted up to the limit of its window.
  \<^item> Across components: a job that brings a quota to its limit makes the next tracker
    run set the account to \<open>quota_exceeded\<close>.
  \<^item> Findings, each proved as a theorem:
    \<^item> the race between two acquisitions, and the race of the rate limiter;
    \<^item> the failed-but-charged request when saving the session fails;
    \<^item> the request stuck in \<open>processing\<close> when the error log fails;
    \<^item> the reopening of a completed request;
    \<^item> the ChatGPT adapter ignoring its generation timeout;
    \<^item> the tracker's dead reactivation branch, its stale ratio after a reset, and its
      filter on the embedded account that filters nothing;
    \<^item> the intake pushing its jobs to a Redis key the worker never reads, the orphan
      \<open>queued\<close> row when the push fails, and the key expiry and per-key limit the
      intake ignores;
    \<^item> the quotas endpoint reporting the quotas of every user;
    \<^item> the worker connecting its queue to the user name of a Redis URL with credentials;
    \<^item> the dashboard shown to a signed-out user when the session check answers after
      the auth listener;
    \<^item> the dashboard losing changes delivered before its initial fetch returns, and the
      account of a quota card (its badge, status and e-mail) after its first realtime
      update.

  \<^bold>\<open>Bounds and environment.\<close> No fuel is needed. The timer loop \<open>fires\<close> may not end
  (with a delay that is not positive), so it is a \<open>partial_function (option)\<close> and its
  ending is proved for every positive delay. Every other function of the model is total by
  structural recursion (\<open>close_each\<close>, \<open>check_each\<close>, \<open>select_auto\<close>, \<open>server_trace\<close>, \<open>merge_events\<close>,
  \<open>replace_first\<close>, \<open>js_includes\<close>) or has no recursion. Time is an unbounded
  \<open>int\<close> of milliseconds, as \<open>Date.now()\<close> is exact in that range. Costs and
  thresholds are exact rationals, where the source uses doubles.

  \<^bold>\<open>Not modelled.\<close>
  \<^item> Logging (winston and the console): it changes no state the code reads.
  \<^item> The DOM selectors of the adapters; only their outcomes are modelled.
  \<^item> Browser launch options that no code reads back.
  \<^item> The rate limiter option of the BullMQ worker and BullMQ's own delivery of jobs.
  \<^item> The link from the parsed \<open>ALERT_THRESHOLD\<close> to the tracker's checks: the threshold
    of a run is the parameter \<open>te_threshold\<close> of its environment, a rational, where the
    parsed value may also be \<open>NaN\<close> or infinite.
  \<^item> The Supabase Auth service behind the dashboard's sign-in, sign-up and sign-out:
    its answers (the session, the listener's events, the error of a call) are inputs of
    the shell's model. The layout classes of the JSX, which decide nothing.
  \<^item> The \<open>created_at\<close> column of the status response and the ordering clauses of the
    dashboard's queries: no model state records creation times.
  \<^item> The overlap of a slow \<open>checkQuotas\<close> run with the next one: the schedule runs
    the checks one after the other.
  \<^item> Failures of the Redis calls inside \<open>checkRateLimit\<close> (the GET, SETEX and INCR of
    \<open>chat/index.ts\<close>, lines 189 to 200), which the handler would answer with 400: the
    model's Redis store always answers.
  \<^item> \<open>rates[provider] || 0\<close> in \<open>calculateCost\<close> for a provider named like a property of
    \<open>Object.prototype\<close> (such as \<open>constructor\<close>), where JavaScript gives \<open>NaN\<close>: the
    model's cost is 0 for every unknown provider.
  \<^item> The conflict target of the session upsert: \<open>saveSession\<close> is keyed by the account,
    as the specification's one session per account says; the schema is not in the
    repository.
  \<^item> The time zone of \<open>new Date(y, m, 1)\<close>: \<open>next_month_start\<close> computes in UTC, and no
    theorem characterises it beyond its definition.
\<close>

section \<open>Properties across the worker and the tracker\<close>

text \<open>
  C21: A job that completes on an account whose daily quota is one request short of its
  positive limit makes the next run of the quota tracker set the account to
  \<open>quota_exceeded\<close>: the scenario of the specification, for every account and limit.
\<close>

theorem job_then_tracker_exceeded:
  assumes acq: "acquire_error (je_launch env) w (job_account_id job) = None"
    and run: "automateChat (job_provider job) (je_page env) (job_prompt job) = Inr r"
    and ok: "je_fault env Call_updateQuota = None" "je_fault env Call_logUsage_success = None"
      "je_fault env Call_saveSession = None"
    and pj: "process_job cfg env job w = (res, w')"
    and qk: "(k, q) \<in> set (quotas (db w))" "q_account q = job_account_id job"
      "q_provider q = job_provider job"
    and lim: "0 < q_daily_limit q" "q_daily_limit q \<le> q_daily_used q + 1"
    and acct: "map_of (accounts (db w)) (job_account_id job) \<noteq> None"
    and tq: "te_query_error tenv = None"
  shows "res = Inr r \<and>
    acct_status_of (ts_db (checkQuotas tenv \<lparr>ts_db = db w', ts_published = ps\<rparr>)) (job_account_id job)
      = Some Quota_exceeded"
proof -
  have t: "res = Inr r"
    "quotas (db w') = quotas (update_quota_usage (job_account_id job) (job_provider job) (cr_tokens r) (db w))"
    "accounts (db w') = accounts (touch_account (job_account_id job) (je_end env) (db w))"
    using process_job_success_tables [OF acq run ok pj] by simp_all
  let ?q = "q\<lparr>q_daily_used := q_daily_used q + 1, q_monthly_used := q_monthly_used q + 1\<rparr>"
  have m: "(k, ?q) \<in> set (quotas (ts_db \<lparr>ts_db = db w', ts_published = ps\<rparr>))"
    using qk by (force simp: t(2) update_quota_usage_def)
  have a: "map_of (accounts (ts_db \<lparr>ts_db = db w', ts_published = ps\<rparr>)) (q_account ?q) \<noteq> None"
    using acct qk by (simp add: t(3) touch_account_def map_entry_same)
  have "js_ge (js_div (q_daily_used ?q) (q_daily_limit ?q)) 1"
    using lim by (simp add: js_div_def)
  then show ?thesis
    using checkQuotas_exceeded [OF tq m a] t(1) qk by simp
qed

theorem job_then_tracker_exceeded_witness:
  "fst (process_job default_config ex_env ex_job ex_world) = Inr ex_resp \<and>
   acct_status_of (ts_db (checkQuotas ex_tenv
       \<lparr>ts_db = db (snd (process_job default_config ex_env ex_job ex_world)), ts_published = []\<rparr>)) ''acc1''
     = Some Quota_exceeded"
proof -
  have h1: "acquire_error (je_launch ex_env) ex_world (job_account_id ex_job) = None"
    using ex_acquire_ok by simp
  have h2: "automateChat (job_provider ex_job) (je_page ex_env) (job_prompt ex_job) = Inr ex_resp"
    using ex_claude_answers by simp
  have h3: "je_fault ex_env c = None" for c by simp
  have m: "(''q1'', ex_quota) \<in> set (quotas (db ex_world))"
    by (simp add: ex_world_def ex_db_def)
  have a: "map_of (accounts (db ex_world)) (job_account_id ex_job) \<noteq> None" by simp
  have p: "q_provider ex_quota = job_provider ex_job" by (simp add: ex_quota_def)
  show ?thesis
    using job_then_tracker_exceeded [where tenv = ex_tenv and ps = "[]" and cfg = default_config,
        OF h1 h2 h3 h3 h3 prod.collapse [symmetric] m _ p _ _ a]
    by simp
qed

end
